theory Spec2Isabelle
  imports Complex_Main "HOL-Library.Sublist" "HOL-Library.Log_Nat"
begin

section \<open>Strings\<close>

text \<open>
  Tournament names and identifiers are modelled as HOL strings and taken to be ASCII: the
  case conversions below act on the 26 letters and leave every other character alone, and
  the whitespace class of the regular expression \<open>/\s/\<close> is its ASCII part (tab, line
  feed, vertical tab, form feed, carriage return, space).
\<close>

definition upper_letters :: string where
  "upper_letters = ''ABCDEFGHIJKLMNOPQRSTUVWXYZ''"

definition lower_letters :: string where
  "lower_letters = ''abcdefghijklmnopqrstuvwxyz''"

definition lower_char :: "char \<Rightarrow> char" where
  "lower_char c = (case map_of (zip upper_letters lower_letters) c of Some d \<Rightarrow> d | None \<Rightarrow> c)"

definition upper_char :: "char \<Rightarrow> char" where
  "upper_char c = (case map_of (zip lower_letters upper_letters) c of Some d \<Rightarrow> d | None \<Rightarrow> c)"

definition toLowerCase :: "string \<Rightarrow> string" where
  "toLowerCase s = map lower_char s"

definition toUpperCase :: "string \<Rightarrow> string" where
  "toUpperCase s = map upper_char s"

definition is_whitespace :: "char \<Rightarrow> bool" where
  "is_whitespace c \<longleftrightarrow> c \<in> set [CHR 0x09, CHR 0x0A, CHR 0x0B, CHR 0x0C, CHR 0x0D, CHR '' '']"

text \<open>\<open>s.replace(/\s/g, '')\<close>\<close>

definition remove_whitespace :: "string \<Rightarrow> string" where
  "remove_whitespace s = filter (\<lambda>c. \<not> is_whitespace c) s"

text \<open>\<open>s.includes(pat)\<close>: \<open>pat\<close> occurs in \<open>s\<close> as a contiguous substring.\<close>

fun js_includes :: "string \<Rightarrow> string \<Rightarrow> bool" where
  "js_includes [] pat = (pat = [])"
| "js_includes (c # cs) pat = (prefix pat (c # cs) \<or> js_includes cs pat)"

section \<open>Tier classification\<close>

text \<open>
  \<open>getTierFromName(name)\<close>. The argument is \<open>None\<close> when the feed's \<open>name\<close> is missing
  or is not a string; the empty string is falsy in the source and is answered like a
  missing name. The rules are tried in the order of the source.
\<close>

definition getTierFromName :: "string option \<Rightarrow> string" where
  "getTierFromName name =
    (case name of
       None \<Rightarrow> ''Unknown''
     | Some nm \<Rightarrow>
        if nm = [] then ''Unknown''
        else
          let normalizedName = toLowerCase nm in
          if js_includes normalizedName ''silver'' \<and> js_includes normalizedName ''singapore''
            then ''silverAsia1''
          else if js_includes normalizedName ''silver'' \<and> js_includes normalizedName ''eu''
                  \<and> js_includes normalizedName ''1''
            then ''silverEu1''
          else if js_includes normalizedName ''silver'' \<and> js_includes normalizedName ''eu''
                  \<and> js_includes normalizedName ''2''
            then ''silverEu2''
          else if js_includes normalizedName ''silver'' \<and> js_includes normalizedName ''us''
                  \<and> js_includes normalizedName ''1''
            then ''silverUs1''
          else if js_includes normalizedName ''silver'' \<and> js_includes normalizedName ''us''
                  \<and> js_includes normalizedName ''2''
            then ''silverUs2''
          else if js_includes normalizedName ''gold'' \<and> js_includes normalizedName ''limited''
            then ''goldLimited''
          else if js_includes normalizedName ''halloween'' then ''halloweenCup''
          else if js_includes normalizedName ''asia cup'' then ''asia''
          else if js_includes normalizedName ''round madness'' \<and> js_includes normalizedName ''eu''
            then ''roundMadnessEu''
          else if js_includes normalizedName ''round madness'' \<and> js_includes normalizedName ''us''
            then ''roundMadnessUs''
          else if js_includes normalizedName ''round madness'' \<and> js_includes normalizedName ''india''
            then ''roundMadnessIndia''
          else if js_includes normalizedName ''diamond'' then ''diamond''
          else if js_includes normalizedName ''platinum'' then ''platinum''
          else if js_includes normalizedName ''gold'' then ''gold''
          else if js_includes normalizedName ''america'' then ''america''
          else if js_includes normalizedName ''championship'' then ''Unknown''
          else ''Unknown'')"

section \<open>Numbers\<close>

text \<open>
  The numbers of the source are IEEE 754 doubles. A finite double is kept as the rational
  it denotes. A decimal literal and the result of an addition are the exact value rounded
  to the nearest double, a tie going to the even mantissa: \<open>round_double\<close> scales the
  value by the power of two that brings it to 53 significant bits (or to the spacing
  \<open>2^-1074\<close> of the subnormal range), rounds to an integer and scales back. The values
  that occur stay far below \<open>2^1024\<close>, and the overflow to \<open>Infinity\<close> has no branch.
\<close>

definition pow2 :: "int \<Rightarrow> rat" where
  "pow2 e = (if 0 \<le> e then 2 ^ nat e else 1 / 2 ^ nat (- e))"

definition round_half_even :: "rat \<Rightarrow> int" where
  "round_half_even r =
    (let f = \<lfloor>r\<rfloor>; d = r - of_int f
     in if d < 1 / 2 then f else if 1 / 2 < d then f + 1 else if even f then f else f + 1)"

text \<open>The exponent \<open>e\<close> with \<open>2^e \<le> |x| < 2^(e + 1)\<close>, for \<open>x\<close> other than 0.\<close>

definition binary_exponent :: "rat \<Rightarrow> int" where
  "binary_exponent x =
    (if 1 \<le> \<bar>x\<bar> then bitlen \<lfloor>\<bar>x\<bar>\<rfloor> - 1
     else let k = bitlen \<lfloor>1 / \<bar>x\<bar>\<rfloor> - 1
          in if \<bar>x\<bar> = pow2 (- k) then - k else - k - 1)"

definition round_double :: "rat \<Rightarrow> rat" where
  "round_double x =
    (if x = 0 then 0
     else let e = max (binary_exponent x - 52) (- 1074)
          in of_int (round_half_even (x / pow2 e)) * pow2 e)"

text \<open>\<open>a + b\<close> on numbers.\<close>

definition js_add :: "rat \<Rightarrow> rat \<Rightarrow> rat" where
  "js_add a b = round_double (a + b)"

section \<open>Points table\<close>

text \<open>
  The point values are the doubles that the decimal literals of the source denote: an
  integer and a literal such as \<open>4.5\<close> are exact, \<open>1.6\<close> is \<open>round_double (8/5)\<close>.

  \<open>pointsMap\<close> is an object literal, so the property read \<open>pointsMap[tier]\<close> finds the
  sixteen own properties and, for a key that is none of them, the members that every
  object inherits from \<open>Object.prototype\<close>. Those members are functions (or, for
  \<open>__proto__\<close>, the prototype object itself), all of them truthy.
\<close>

definition object_prototype_keys :: "string list" where
  "object_prototype_keys =
    [''constructor'', ''__defineGetter__'', ''__defineSetter__'', ''hasOwnProperty'',
     ''__lookupGetter__'', ''__lookupSetter__'', ''isPrototypeOf'', ''propertyIsEnumerable'',
     ''toString'', ''valueOf'', ''__proto__'', ''toLocaleString'']"

definition pointsMap :: "(string \<times> rat list) list" where
  "pointsMap =
    [(''diamond'', [36, 18, 9, 9]),
     (''platinum'', [18, 9, 9/2, 9/2]),
     (''goldLimited'', [6, 3, 3/2, 3/2]),
     (''gold'', [5, 5/2, round_double (6/5), round_double (6/5)]),
     (''silverEu2'', [2, 1, 1/2, 1/2]),
     (''silverEu1'', [round_double (8/5), round_double (4/5), round_double (2/5),
                      round_double (2/5)]),
     (''silverUs1'', [round_double (7/5), round_double (7/10), round_double (3/10),
                      round_double (3/10)]),
     (''asia'', [round_double (6/5), round_double (3/5), round_double (3/10),
                 round_double (3/10)]),
     (''america'', [2, 1, 1/2, 1/2]),
     (''silverUs2'', [round_double (6/5), round_double (3/5), 0, 0]),
     (''silverAsia1'', [round_double (9/5), round_double (9/10), round_double (2/5),
                        round_double (2/5)]),
     (''roundMadnessEu'', [10, 5, 5/2, round_double (17/10)]),
     (''roundMadnessUs'', [7, 7/2, round_double (17/10), round_double (6/5)]),
     (''roundMadnessIndia'', [round_double (32/5), round_double (16/5), round_double (8/5),
                              round_double (11/10)]),
     (''halloweenCup'', [10, 5, 5/2, 5/2]),
     (''Unknown'', [0, 0, 0, 0])]"

text \<open>What \<open>getPointsMapping\<close> hands back: an array of numbers, or an inherited member.\<close>

datatype points_value = PointsArray "rat list" | InheritedMember string

definition getPointsMapping :: "string \<Rightarrow> points_value" where
  "getPointsMapping tier =
    (case map_of pointsMap tier of
       Some v \<Rightarrow> PointsArray v
     | None \<Rightarrow>
        if tier \<in> set object_prototype_keys then InheritedMember tier
        else PointsArray [0, 0, 0, 0])"

text \<open>
  \<open>pointsForPlacement[placement - 1] || 0\<close>: the placement is \<open>None\<close> where the source
  reads \<open>undefined\<close>; an index outside the array, and any index into an inherited member,
  reads \<open>undefined\<close>, which \<open>||\<close> turns into 0.
\<close>

definition points_at :: "points_value \<Rightarrow> int option \<Rightarrow> rat" where
  "points_at pv placement =
    (case (pv, placement) of
       (PointsArray v, Some p) \<Rightarrow>
         if 1 \<le> p \<and> nat (p - 1) < length v then v ! nat (p - 1) else 0
     | _ \<Rightarrow> 0)"

text \<open>\<open>getStatFieldForPlacement\<close>: \<open>fieldMap[placement] || null\<close>.\<close>

definition getStatFieldForPlacement :: "int option \<Rightarrow> string option" where
  "getStatFieldForPlacement placement =
    (case placement of
       None \<Rightarrow> None
     | Some p \<Rightarrow>
        if p = 1 then Some ''first''
        else if p = 2 then Some ''second''
        else if p = 3 then Some ''third''
        else if p = 4 then Some ''third''
        else None)"

section \<open>JavaScript objects\<close>

text \<open>
  The source keeps the roster cache, the teams of a tournament and the sorted teams in plain
  objects. An object is modelled as the list of its own properties in the order of their
  creation. Assigning to an existing key keeps its position; a new key goes to the end.
\<close>

type_synonym 'v js_object = "(string \<times> 'v) list"

primrec obj_set :: "string \<Rightarrow> 'v \<Rightarrow> 'v js_object \<Rightarrow> 'v js_object" where
  "obj_set k v [] = [(k, v)]"
| "obj_set k v (p # ps) = (if fst p = k then (k, v) # ps else p # obj_set k v ps)"

text \<open>
  \<open>Object.entries\<close>, \<open>Object.keys\<close> and \<open>for ... in\<close> do not list the properties in
  creation order: the language fixes that the keys that are array indices (the canonical
  decimal form of an integer from 0 to \<open>2^32 - 2\<close>) come first, in ascending numeric order,
  and the other string keys follow in creation order.
\<close>

definition digit_table :: "(char \<times> nat) list" where
  "digit_table =
    [(CHR ''0'', 0), (CHR ''1'', 1), (CHR ''2'', 2), (CHR ''3'', 3), (CHR ''4'', 4),
     (CHR ''5'', 5), (CHR ''6'', 6), (CHR ''7'', 7), (CHR ''8'', 8), (CHR ''9'', 9)]"

definition is_digit :: "char \<Rightarrow> bool" where
  "is_digit c \<longleftrightarrow> map_of digit_table c \<noteq> None"

definition digit_value :: "char \<Rightarrow> nat" where
  "digit_value c = (case map_of digit_table c of Some d \<Rightarrow> d | None \<Rightarrow> 0)"

definition decimal_value :: "string \<Rightarrow> nat" where
  "decimal_value k = foldl (\<lambda>n c. 10 * n + digit_value c) 0 k"

definition is_array_index :: "string \<Rightarrow> bool" where
  "is_array_index k \<longleftrightarrow>
     k \<noteq> [] \<and> list_all is_digit k \<and> (k = ''0'' \<or> hd k \<noteq> CHR ''0'')
     \<and> decimal_value k < 4294967295"

definition Object_entries :: "'v js_object \<Rightarrow> (string \<times> 'v) list" where
  "Object_entries obj =
     sort_key (\<lambda>p. decimal_value (fst p)) (filter (\<lambda>p. is_array_index (fst p)) obj)
     @ filter (\<lambda>p. \<not> is_array_index (fst p)) obj"

section \<open>Participant rows, roster cache and teams\<close>

text \<open>
  A participant row of the feed. \<open>userPlayfabId\<close> and \<open>partyId\<close> are \<open>None\<close> when the
  field is missing; both are strings when present. \<open>userPlace\<close> holds what
  \<open>parseInt(row.userPlace)\<close> answers, \<open>None\<close> standing for \<open>NaN\<close>.
\<close>

record row =
  userPlayfabId :: "string option"
  userPlace :: "int option"
  partyId :: "string option"

record playerInfo =
  name :: string
  clubName :: string
  clubId :: "string option"
  playerId :: "string option"

record team =
  placements :: "int list"
  clubNames :: "string list"
  playerIds :: "string list"
  playerNames :: "string list"
  hasUnregisteredPlayers :: bool

datatype error = TypeError | HttpError | InvalidData

definition unknown_player :: playerInfo where
  "unknown_player =
     \<lparr>name = ''Unknown Player'', clubName = ''No Club'', clubId = None, playerId = None\<rparr>"

definition new_team :: team where
  "new_team =
     \<lparr>placements = [], clubNames = [], playerIds = [], playerNames = [],
      hasUnregisteredPlayers = False\<rparr>"

text \<open>
  The end of the body of the \<open>forEach\<close> of \<open>groupPlayersByTeam\<close>: the player is added
  to the team, under the club and the name of the roster cache when the cache has the
  identifier, as an unregistered player of no club otherwise. The roster cache \<open>players\<close>
  is read with \<open>map_of\<close>: its keys and the identifier looked up are upper-cased, so none of
  them names a member inherited from \<open>Object.prototype\<close>.
\<close>

definition add_player :: "playerInfo js_object \<Rightarrow> string \<Rightarrow> int \<Rightarrow> team \<Rightarrow> team" where
  "add_player players pid placement t =
    (let info = (case map_of players pid of Some i \<Rightarrow> i | None \<Rightarrow> unknown_player)
     in \<lparr>placements = placements t @ [placement],
         clubNames = clubNames t @ [clubName info],
         playerIds = playerIds t @ [pid],
         playerNames = playerNames t @ [name info],
         hasUnregisteredPlayers =
           (if map_of players pid = None then True else hasUnregisteredPlayers t)\<rparr>)"

text \<open>
  The body of the \<open>forEach\<close>, for one row. The object \<open>teams\<close> is keyed by the feed's
  \<open>partyId\<close> as it comes: for a \<open>partyId\<close> that names an inherited member, \<open>teams[partyId]\<close>
  is that member, which is truthy, so no team is created and
  \<open>teams[partyId].clubNames.push\<close> raises a \<open>TypeError\<close>.
\<close>

definition group_row ::
  "playerInfo js_object \<Rightarrow> team js_object \<Rightarrow> row \<Rightarrow> error + team js_object" where
  "group_row players teams r =
    (case (map_option toUpperCase (userPlayfabId r), userPlace r, partyId r) of
       (Some pid, Some placement, Some party) \<Rightarrow>
         if pid = [] \<or> party = [] \<or> placement < 1 \<or> placement > 4 then Inr teams
         else
           (case map_of teams party of
              Some t \<Rightarrow> Inr (obj_set party (add_player players pid placement t) teams)
            | None \<Rightarrow>
                if party \<in> set object_prototype_keys then Inl TypeError
                else Inr (obj_set party (add_player players pid placement new_team) teams))
     | _ \<Rightarrow> Inr teams)"

fun group_rows ::
  "playerInfo js_object \<Rightarrow> team js_object \<Rightarrow> row list \<Rightarrow> error + team js_object" where
  "group_rows players teams [] = Inr teams"
| "group_rows players teams (r # rs) =
     (case group_row players teams r of
        Inl e \<Rightarrow> Inl e
      | Inr teams' \<Rightarrow> group_rows players teams' rs)"

definition groupPlayersByTeam ::
  "row list \<Rightarrow> playerInfo js_object \<Rightarrow> error + team js_object" where
  "groupPlayersByTeam tournamentData players = group_rows players [] tournamentData"

text \<open>\<open>Math.min(...team.placements)\<close>, \<open>None\<close> standing for the \<open>Infinity\<close> of no argument.\<close>

definition bestPlacement :: "team \<Rightarrow> int option" where
  "bestPlacement t = (case placements t of [] \<Rightarrow> None | p # ps \<Rightarrow> Some (fold min ps p))"

text \<open>
  The comparator of \<open>sortTeamsByPlacement\<close> is \<open>bestPlacementA - bestPlacementB\<close>;
  \<open>comparator_negative a b\<close> says that it is below zero (\<open>Infinity - Infinity\<close> is \<open>NaN\<close>,
  which the sort takes as zero).
\<close>

definition comparator_negative :: "team \<Rightarrow> team \<Rightarrow> bool" where
  "comparator_negative teamA teamB =
    (case (bestPlacement teamA, bestPlacement teamB) of
       (Some a, Some b) \<Rightarrow> a - b < 0
     | (Some a, None) \<Rightarrow> True
     | (None, _) \<Rightarrow> False)"

text \<open>
  \<open>Array.prototype.sort\<close> is stable, and the comparator above is consistent, so the sorted
  array is the one a stable insertion sort yields: an element moves in front of exactly the
  elements it is strictly smaller than.
\<close>

fun insert_stable :: "('a \<Rightarrow> 'a \<Rightarrow> bool) \<Rightarrow> 'a \<Rightarrow> 'a list \<Rightarrow> 'a list" where
  "insert_stable lt x [] = [x]"
| "insert_stable lt x (y # ys) = (if lt y x then y # insert_stable lt x ys else x # y # ys)"

definition array_sort :: "('a \<Rightarrow> 'a \<Rightarrow> bool) \<Rightarrow> 'a list \<Rightarrow> 'a list" where
  "array_sort lt xs = foldr (insert_stable lt) xs []"

text \<open>
  \<open>sortTeamsByPlacement\<close>: the entries of \<open>teams\<close> are sorted as an array, and \<open>reduce\<close>
  assigns them one by one to a fresh object, which is returned.
\<close>

definition sortTeamsByPlacement :: "team js_object \<Rightarrow> team js_object" where
  "sortTeamsByPlacement teams =
     foldl (\<lambda>acc p. obj_set (fst p) (snd p) acc) []
       (array_sort (\<lambda>a b. comparator_negative (snd a) (snd b)) (Object_entries teams))"

section \<open>The store\<close>

text \<open>
  The database is a tree of JSON values addressed by paths of keys. An object node lists its
  children in the order in which a snapshot's value enumerates them. A path that leads
  nowhere reads \<open>None\<close> (the snapshot does not exist, its value is \<open>null\<close>). The store's
  reads and writes are taken to succeed, and the identifiers that the source splices into
  paths are taken to be single valid keys.
\<close>

datatype json = JNum rat | JStr string | JBool bool | JObj "(string \<times> json) list"

fun db_get :: "json \<Rightarrow> string list \<Rightarrow> json option" where
  "db_get j [] = Some j"
| "db_get (JObj kvs) (k # ks) = (case map_of kvs k of None \<Rightarrow> None | Some c \<Rightarrow> db_get c ks)"
| "db_get (JNum n) (k # ks) = None"
| "db_get (JStr s) (k # ks) = None"
| "db_get (JBool b) (k # ks) = None"

text \<open>\<open>ref(path).set(v)\<close>: the subtree at the path is replaced, missing ancestors are created.\<close>

fun db_set :: "json \<Rightarrow> string list \<Rightarrow> json \<Rightarrow> json" where
  "db_set j [] v = v"
| "db_set (JObj kvs) (k # ks) v =
     JObj (obj_set k (db_set (case map_of kvs k of Some c \<Rightarrow> c | None \<Rightarrow> JObj []) ks v) kvs)"
| "db_set (JNum n) (k # ks) v = JObj [(k, db_set (JObj []) ks v)]"
| "db_set (JStr s) (k # ks) v = JObj [(k, db_set (JObj []) ks v)]"
| "db_set (JBool b) (k # ks) v = JObj [(k, db_set (JObj []) ks v)]"

text \<open>\<open>ref(path).update({k1: v1, ...})\<close>, where a key may itself be a path.\<close>

definition db_update :: "json \<Rightarrow> string list \<Rightarrow> (string list \<times> json) list \<Rightarrow> json" where
  "db_update db ref updates = foldl (\<lambda>d u. db_set d (ref @ fst u) (snd u)) db updates"

text \<open>\<open>Object.entries(x || {})\<close> for a snapshot value \<open>x\<close>.\<close>

definition entries :: "json option \<Rightarrow> (string \<times> json) list" where
  "entries x = (case x of Some (JObj kvs) \<Rightarrow> kvs | _ \<Rightarrow> [])"

text \<open>
  \<open>x || 0\<close> for a score or a counter read from the store: a missing value and 0 give 0.
  Scores and counters are numbers when present.
\<close>

definition num_or0 :: "json option \<Rightarrow> rat" where
  "num_or0 x = (case x of Some (JNum n) \<Rightarrow> n | _ \<Rightarrow> 0)"

text \<open>
  A name read from a node, for the tests \<open>!clubData.name\<close> and \<open>!playerData.name\<close>: the
  string when it is there and not empty. Names are strings when present.
\<close>

definition get_string :: "json \<Rightarrow> string \<Rightarrow> string option" where
  "get_string node k =
    (case db_get node [k] of Some (JStr s) \<Rightarrow> if s = [] then None else Some s | _ \<Rightarrow> None)"

definition truthy :: "json \<Rightarrow> bool" where
  "truthy v = (case v of JNum n \<Rightarrow> n \<noteq> 0 | JStr s \<Rightarrow> s \<noteq> [] | JBool b \<Rightarrow> b | JObj kvs \<Rightarrow> True)"

section \<open>Roster cache\<close>

text \<open>
  A \<open>forEach\<close> whose callback may throw: the exception ends the loop and is the result.
\<close>

fun forEach :: "('s \<Rightarrow> 'a \<Rightarrow> error + 's) \<Rightarrow> 's \<Rightarrow> 'a list \<Rightarrow> error + 's" where
  "forEach f s [] = Inr s"
| "forEach f s (x # xs) = (case f s x of Inl e \<Rightarrow> Inl e | Inr s' \<Rightarrow> forEach f s' xs)"

text \<open>
  The inner \<open>forEach\<close> of \<open>fetchClubsAndPlayers\<close>, for one player of a club. A player
  without a truthy \<open>playfabId\<close> or without a name is passed over. A truthy \<open>playfabId\<close>
  that is not a string has no method \<open>toUpperCase\<close>: the call raises a \<open>TypeError\<close>.
\<close>

definition cache_player ::
  "string \<Rightarrow> string \<Rightarrow> playerInfo js_object \<Rightarrow> string \<times> json
     \<Rightarrow> error + playerInfo js_object" where
  "cache_player club_id club_name cache e =
    (case (db_get (snd e) [''playfabId''], get_string (snd e) ''name'') of
       (Some playfabId, Some player_name) \<Rightarrow>
         if \<not> truthy playfabId then Inr cache
         else (case playfabId of
                 JStr playfab \<Rightarrow>
                   Inr (obj_set (remove_whitespace (toUpperCase playfab))
                          \<lparr>name = player_name, clubName = club_name, clubId = Some club_id,
                           playerId = Some (fst e)\<rparr> cache)
               | _ \<Rightarrow> Inl TypeError)
     | _ \<Rightarrow> Inr cache)"

definition cache_club ::
  "playerInfo js_object \<Rightarrow> string \<times> json \<Rightarrow> error + playerInfo js_object" where
  "cache_club cache e =
    (case (get_string (snd e) ''name'', db_get (snd e) [''players'']) of
       (Some club_name, Some playersInClub) \<Rightarrow>
         forEach (cache_player (fst e) club_name) cache (entries (Some playersInClub))
     | _ \<Rightarrow> Inr cache)"

text \<open>
  \<open>fetchClubsAndPlayers\<close> answers the cache, or rethrows the exception of the loop.
\<close>

definition fetchClubsAndPlayers :: "json \<Rightarrow> error + playerInfo js_object" where
  "fetchClubsAndPlayers db = forEach cache_club [] (entries (db_get db [''clubs'']))"

text \<open>
  \<open>playerData.playfabId?.toUpperCase().replace(/\s/g, '')\<close> in \<open>findPlayerLocation\<close>:
  \<open>undefined\<close> for a missing identifier, a \<open>TypeError\<close> for one that is not a string.
\<close>

definition normalized_playfabId :: "json \<Rightarrow> error + string option" where
  "normalized_playfabId playerData =
    (case db_get playerData [''playfabId''] of
       None \<Rightarrow> Inr None
     | Some (JStr s) \<Rightarrow> Inr (Some (remove_whitespace (toUpperCase s)))
     | Some _ \<Rightarrow> Inl TypeError)"

text \<open>
  The two nested loops of \<open>findPlayerLocation\<close> over the player nodes, club by club, each
  node given with the key of its club and its own key.
\<close>

fun find_player ::
  "string \<Rightarrow> (string \<times> string \<times> json) list \<Rightarrow> error + (string \<times> string) option" where
  "find_player pid [] = Inr None"
| "find_player pid (l # ls) =
     (case normalized_playfabId (snd (snd l)) of
        Inl e \<Rightarrow> Inl e
      | Inr normalizedId \<Rightarrow>
          if normalizedId = Some pid then Inr (Some (fst l, fst (snd l)))
          else find_player pid ls)"

text \<open>
  \<open>findPlayerLocation\<close>: the first player node whose normalised \<open>playfabId\<close> is the given
  id. Its \<open>catch\<close> answers an exception of the search with \<open>null\<close>.
\<close>

definition findPlayerLocation :: "json \<Rightarrow> string \<Rightarrow> (string \<times> string) option" where
  "findPlayerLocation db pid =
    (case find_player pid
            (concat (map (\<lambda>c. map (\<lambda>p. (fst c, fst p, snd p)) (entries (db_get (snd c) [''players''])))
                         (entries (db_get db [''clubs'']))))
     of Inl e \<Rightarrow> None | Inr l \<Rightarrow> l)"

section \<open>Score updates\<close>

definition initializeTournamentStats :: "json \<Rightarrow> string list \<Rightarrow> json" where
  "initializeTournamentStats db tierRef =
    (if db_get db tierRef = None
     then db_set db tierRef (JObj [(''first'', JNum 0), (''second'', JNum 0), (''third'', JNum 0)])
     else db)"

text \<open>
  The placement counter of a tier, in the season's node and in the overall node: both
  values are read, then both are written (season first).
\<close>

definition increment_stat :: "json \<Rightarrow> string list \<Rightarrow> string list \<Rightarrow> string \<Rightarrow> json" where
  "increment_stat db seasonTierRef overallTierRef statField =
    (let currentSeasonValue = num_or0 (db_get db (seasonTierRef @ [statField]));
         currentOverallValue = num_or0 (db_get db (overallTierRef @ [statField]))
     in db_set (db_set db (seasonTierRef @ [statField]) (JNum (js_add currentSeasonValue 1)))
          (overallTierRef @ [statField]) (JNum (js_add currentOverallValue 1)))"

definition update_tier_stats :: "json \<Rightarrow> string list \<Rightarrow> string list \<Rightarrow> int option \<Rightarrow> json" where
  "update_tier_stats db seasonTierRef overallTierRef placement =
    (let db1 = initializeTournamentStats db seasonTierRef;
         db2 = initializeTournamentStats db1 overallTierRef
     in case getStatFieldForPlacement placement of
          None \<Rightarrow> db2
        | Some statField \<Rightarrow> increment_stat db2 seasonTierRef overallTierRef statField)"

text \<open>
  \<open>updateIndividualPlayerResult\<close>, with the current season \<open>season\<close> (the global
  \<open>currentSeason\<close>, as it appears in a path). Its first step creates the player's node when
  it is missing and otherwise brings the stored registration flag up to date. The branches
  that copy \<open>name\<close> and \<open>trophyCount\<close> need a registered player whose stored flag differs
  from the flag just read from the same node, and are never taken.
\<close>

definition init_player_result :: "json \<Rightarrow> string \<Rightarrow> json" where
  "init_player_result db pid =
    (let playerResultRef = [''players'', pid];
         stored = db_get db (playerResultRef @ [''isRegistered'']);
         isRegistered = (case stored of
                           Some v \<Rightarrow> if truthy v then v else JBool False
                         | None \<Rightarrow> JBool False)
     in if db_get db playerResultRef = None
        then db_set db playerResultRef
               (JObj [(''totalPoints'', JNum 0), (''isRegistered'', isRegistered)])
        else if stored \<noteq> Some isRegistered
        then db_update db playerResultRef [([''isRegistered''], isRegistered)]
        else db)"

text \<open>The second step creates the node of the season when it is missing.\<close>

definition init_season_result :: "json \<Rightarrow> string \<Rightarrow> string \<Rightarrow> json" where
  "init_season_result db season pid =
    (let seasonRef = [''players'', pid, ''seasons'', season]
     in if db_get db seasonRef = None
        then db_set db seasonRef (JObj [(''totalPoints'', JNum 0)])
        else db)"

text \<open>
  Then the placement counters of the tier and the two totals. The overall total is read
  from the snapshot taken on entry, the total of the season after the counters are written.
\<close>

definition updateIndividualPlayerResult ::
  "json \<Rightarrow> string \<Rightarrow> string \<Rightarrow> string \<Rightarrow> int option \<Rightarrow> rat \<Rightarrow> json" where
  "updateIndividualPlayerResult db season pid tier placement points =
    (if tier = ''Unknown'' then db
     else
       let playerResultRef = [''players'', pid];
           seasonRef = playerResultRef @ [''seasons'', season];
           db2 = init_season_result (init_player_result db pid) season pid;
           db3 = update_tier_stats db2 (seasonRef @ [tier]) (playerResultRef @ [tier]) placement;
           currentTotalPoints = num_or0 (db_get db (playerResultRef @ [''totalPoints'']));
           currentSeasonPoints = num_or0 (db_get db3 (seasonRef @ [''totalPoints'']))
       in db_set (db_set db3 (playerResultRef @ [''totalPoints''])
                    (JNum (js_add currentTotalPoints points)))
            (seasonRef @ [''totalPoints'']) (JNum (js_add currentSeasonPoints points)))"

text \<open>The first club, in the order of the snapshot, whose \<open>name\<close> is the given one.\<close>

definition find_club :: "json \<Rightarrow> string \<Rightarrow> string option" where
  "find_club db club =
    map_option fst
      (find (\<lambda>c. db_get (snd c) [''name''] = Some (JStr club)) (entries (db_get db [''clubs''])))"

text \<open>The two totals of a club node or of a player node in a club.\<close>

definition add_points :: "json \<Rightarrow> string list \<Rightarrow> string \<Rightarrow> rat \<Rightarrow> json" where
  "add_points db ref season points =
    (let currentTotalPoints = num_or0 (db_get db (ref @ [''totalPoints'']));
         currentSeasonPoints = num_or0 (db_get db (ref @ [''seasons'', season, ''totalPoints'']))
     in db_update db ref
          [([''totalPoints''], JNum (js_add currentTotalPoints points)),
           ([''seasons'', season, ''totalPoints''], JNum (js_add currentSeasonPoints points))])"

definition updateClubPoints :: "json \<Rightarrow> string \<Rightarrow> string \<Rightarrow> rat \<Rightarrow> json" where
  "updateClubPoints db season club points =
    (case find_club db club of
       None \<Rightarrow> db
     | Some cid \<Rightarrow>
         let currentTotalPoints = num_or0 (db_get db [''clubs'', cid, ''totalPoints''])
         in db_set (add_points db [''clubs'', cid] season points)
              [''clubs_summary'', cid, ''totalPoints''] (JNum (js_add currentTotalPoints points)))"

definition updateClubTournamentStats :: "json \<Rightarrow> string \<Rightarrow> string \<Rightarrow> string \<Rightarrow> int option \<Rightarrow> json" where
  "updateClubTournamentStats db season club tier placement =
    (if tier = ''Unknown'' then db
     else case find_club db club of
       None \<Rightarrow> db
     | Some cid \<Rightarrow>
         update_tier_stats db [''clubs'', cid, ''seasons'', season, tier] [''clubs'', cid, tier]
           placement)"

definition updatePlayerPoints :: "json \<Rightarrow> string \<Rightarrow> string \<Rightarrow> rat \<Rightarrow> json" where
  "updatePlayerPoints db season pid points =
    (case findPlayerLocation db pid of
       None \<Rightarrow> db
     | Some l \<Rightarrow> add_points db [''clubs'', fst l, ''players'', snd l] season points)"

definition updatePlayerTournamentStats :: "json \<Rightarrow> string \<Rightarrow> string \<Rightarrow> string \<Rightarrow> int option \<Rightarrow> json" where
  "updatePlayerTournamentStats db season pid tier placement =
    (if tier = ''Unknown'' then db
     else case findPlayerLocation db pid of
       None \<Rightarrow> db
     | Some l \<Rightarrow>
         update_tier_stats db
           [''clubs'', fst l, ''players'', snd l, ''seasons'', season, tier]
           [''clubs'', fst l, ''players'', snd l, tier] placement)"

section \<open>Processing a team\<close>

text \<open>The pairs \<open>(team.playerIds[i], team.placements[i])\<close> for \<open>i\<close> below \<open>team.playerIds.length\<close>.\<close>

fun members :: "string list \<Rightarrow> int list \<Rightarrow> (string \<times> int option) list" where
  "members [] pls = []"
| "members (p # ps) [] = (p, None) # members ps []"
| "members (p # ps) (q # qs) = (p, Some q) # members ps qs"

definition registered_clubNames :: "team \<Rightarrow> string list" where
  "registered_clubNames t = filter (\<lambda>club. club \<noteq> ''No Club'') (clubNames t)"

definition allPlayersFromSameClub :: "team \<Rightarrow> bool" where
  "allPlayersFromSameClub t \<longleftrightarrow>
     length (playerIds t) = 3 \<and> length (remdups (registered_clubNames t)) = 1
     \<and> length (registered_clubNames t) = 3"

text \<open>The first loop of \<open>processTeamResults\<close>: one individual result per member.\<close>

definition record_individual_results ::
  "json \<Rightarrow> string \<Rightarrow> team \<Rightarrow> points_value \<Rightarrow> string \<Rightarrow> json" where
  "record_individual_results db season t pointsForPlacement tier =
     foldl (\<lambda>d m. updateIndividualPlayerResult d season (fst m) tier (snd m)
                     (points_at pointsForPlacement (snd m)))
       db (members (playerIds t) (placements t))"

text \<open>The second loop: the members' nodes inside their club.\<close>

definition update_club_players ::
  "json \<Rightarrow> string \<Rightarrow> team \<Rightarrow> points_value \<Rightarrow> string \<Rightarrow> playerInfo js_object \<Rightarrow> json" where
  "update_club_players db season t pointsForPlacement tier players =
     foldl (\<lambda>d m. if map_of players (fst m) \<noteq> None
                   then updatePlayerTournamentStats
                          (updatePlayerPoints d season (fst m) (points_at pointsForPlacement (snd m)))
                          season (fst m) tier (snd m)
                   else d)
       db (members (playerIds t) (placements t))"

datatype process_result = Awarded string rat "int option" | NotAwarded string

text \<open>\<open>team.placements[0]\<close>, the placement that \<open>processTeamResults\<close> takes for the team.\<close>

definition first_placement :: "team \<Rightarrow> int option" where
  "first_placement t = (case placements t of [] \<Rightarrow> None | p # ps \<Rightarrow> Some p)"

text \<open>
  The club that the team's award goes to, if any: the condition
  \<open>allPlayersFromSameClub\<close>, the club found in \<open>team.clubNames\<close>, and the test
  \<open>clubName && !clubsAlreadyAwarded.has(clubName)\<close>.
\<close>

definition award_club :: "team \<Rightarrow> string set \<Rightarrow> string option" where
  "award_club t clubsAlreadyAwarded =
    (if allPlayersFromSameClub t
     then (case find (\<lambda>club. club \<noteq> ''No Club'') (clubNames t) of
             Some club \<Rightarrow> if club \<noteq> [] \<and> club \<notin> clubsAlreadyAwarded then Some club else None
           | None \<Rightarrow> None)
     else None)"

text \<open>
  The two loops over the members at the head of \<open>processTeamResults\<close>: the individual
  results of all members, then, for a team of one registered club, the members' nodes in
  the club.
\<close>

definition member_results ::
  "json \<Rightarrow> string \<Rightarrow> team \<Rightarrow> points_value \<Rightarrow> string \<Rightarrow> playerInfo js_object \<Rightarrow> json" where
  "member_results db season t pointsForPlacement tier players =
    (let db1 = record_individual_results db season t pointsForPlacement tier
     in if allPlayersFromSameClub t
        then update_club_players db1 season t pointsForPlacement tier players
        else db1)"

text \<open>
  \<open>processTeamResults\<close> returns the store, the set \<open>clubsAlreadyAwarded\<close> and the result
  object. Its \<open>catch\<close> answers a failed write of the store and has no branch here.
\<close>

definition processTeamResults ::
  "json \<Rightarrow> string \<Rightarrow> team \<Rightarrow> points_value \<Rightarrow> string \<Rightarrow> string set \<Rightarrow> playerInfo js_object
     \<Rightarrow> json \<times> string set \<times> process_result" where
  "processTeamResults db season t pointsForPlacement tier clubsAlreadyAwarded players =
    (let placement = first_placement t;
         pointsAwarded = points_at pointsForPlacement placement;
         db2 = member_results db season t pointsForPlacement tier players
     in case award_club t clubsAlreadyAwarded of
          Some club \<Rightarrow>
            (updateClubTournamentStats (updateClubPoints db2 season club pointsAwarded)
               season club tier placement,
             insert club clubsAlreadyAwarded,
             Awarded club pointsAwarded placement)
        | None \<Rightarrow>
            (db2, clubsAlreadyAwarded,
             NotAwarded (if length (playerIds t) \<noteq> 3 then ''Invalid team size''
                         else if \<not> allPlayersFromSameClub t
                         then ''Not all players from same registered club''
                         else ''Club already awarded'')))"

section \<open>Processing a tournament\<close>

text \<open>
  The loop of \<open>processTournamentResults\<close> over \<open>Object.entries(sortedTeams)\<close>, collecting
  the result of every team.
\<close>

fun process_teams ::
  "string \<Rightarrow> points_value \<Rightarrow> string \<Rightarrow> playerInfo js_object \<Rightarrow> (string \<times> team) list
     \<Rightarrow> json \<times> string set \<times> process_result list \<Rightarrow> json \<times> string set \<times> process_result list" where
  "process_teams season pointsForPlacement tier players [] acc = acc"
| "process_teams season pointsForPlacement tier players (e # es) acc =
     (let r = processTeamResults (fst acc) season (snd e) pointsForPlacement tier
                (fst (snd acc)) players
      in process_teams season pointsForPlacement tier players es
           (fst r, fst (snd r), snd (snd acc) @ [snd (snd r)]))"

definition processTournamentResults ::
  "json \<Rightarrow> string \<Rightarrow> row list \<Rightarrow> string \<Rightarrow> error + json \<times> process_result list" where
  "processTournamentResults db season tournamentData tier =
    (case fetchClubsAndPlayers db of
       Inl e \<Rightarrow> Inl e
     | Inr players \<Rightarrow>
         (case groupPlayersByTeam tournamentData players of
            Inl e \<Rightarrow> Inl e
          | Inr teams \<Rightarrow>
              let sortedTeams = sortTeamsByPlacement teams;
                  pointsForPlacement = getPointsMapping tier;
                  r = process_teams season pointsForPlacement tier players
                        (Object_entries sortedTeams) (db, {}, [])
              in Inr (fst r, snd (snd r))))"

text \<open>
  A response of the tournament feed: the flag \<open>response.ok\<close> and the parsed body, \<open>None\<close>
  when the body is not an array.
\<close>

datatype 'a response = Response (ok: bool) (body: "'a list option")

definition fetchAndProcessTournamentData ::
  "(string \<Rightarrow> row response) \<Rightarrow> json \<Rightarrow> string \<Rightarrow> string \<Rightarrow> string \<Rightarrow> error + json" where
  "fetchAndProcessTournamentData users db season tid tier =
    (if \<not> ok (users tid) then Inl HttpError
     else case body (users tid) of
            None \<Rightarrow> Inl InvalidData
          | Some tournamentData \<Rightarrow>
              (case processTournamentResults db season tournamentData tier of
                 Inl e \<Rightarrow> Inl e
               | Inr r \<Rightarrow> Inr (fst r)))"

section \<open>The batch run\<close>

record tournament =
  tournamentId :: string
  tournamentName :: "string option"

definition isTournamentAlreadyProcessed :: "json \<Rightarrow> string \<Rightarrow> bool" where
  "isTournamentAlreadyProcessed db tid \<longleftrightarrow> db_get db [''fetchedTournaments'', tid] \<noteq> None"

definition markTournamentAsProcessed :: "json \<Rightarrow> string \<Rightarrow> string \<Rightarrow> json" where
  "markTournamentAsProcessed db fetchedAt tid =
     db_set db [''fetchedTournaments'', tid] (JObj [(''fetchedAt'', JStr fetchedAt)])"

text \<open>
  The loop of \<open>fetchAndProcessTournaments\<close>. \<open>users\<close> is the participant feed and
  \<open>clock tid\<close> the time stamp that the marker of \<open>tid\<close> receives. An exception leaves the
  loop for the \<open>catch\<close> around it, which logs it: the run ends with the store as it is.
\<close>

fun process_tournaments ::
  "(string \<Rightarrow> row response) \<Rightarrow> (string \<Rightarrow> string) \<Rightarrow> string \<Rightarrow> tournament list \<Rightarrow> json
     \<Rightarrow> error option \<times> json" where
  "process_tournaments users clock season [] db = (None, db)"
| "process_tournaments users clock season (t # ts) db =
     (let tier = getTierFromName (tournamentName t);
          alreadyFetched = isTournamentAlreadyProcessed db (tournamentId t)
      in if \<not> alreadyFetched
         then (case fetchAndProcessTournamentData users db season (tournamentId t) tier of
                 Inl e \<Rightarrow> (Some e, db)
               | Inr db1 \<Rightarrow>
                   process_tournaments users clock season ts
                     (markTournamentAsProcessed db1 (clock (tournamentId t)) (tournamentId t)))
         else process_tournaments users clock season ts db)"

definition fetchAndProcessTournaments ::
  "tournament response \<Rightarrow> (string \<Rightarrow> row response) \<Rightarrow> (string \<Rightarrow> string) \<Rightarrow> string \<Rightarrow> json
     \<Rightarrow> error option \<times> json" where
  "fetchAndProcessTournaments tournaments users clock season db =
    (if \<not> ok tournaments then (Some HttpError, db)
     else case body tournaments of
            None \<Rightarrow> (Some InvalidData, db)
          | Some ts \<Rightarrow> process_tournaments users clock season ts db)"

section \<open>Example data\<close>

definition participant :: "string \<Rightarrow> int \<Rightarrow> string \<Rightarrow> row" where
  "participant pid place party =
     \<lparr>userPlayfabId = Some pid, userPlace = Some place, partyId = Some party\<rparr>"

definition roster_player :: "string \<Rightarrow> string \<Rightarrow> json" where
  "roster_player playfab player_name = JObj [(''playfabId'', JStr playfab), (''name'', JStr player_name)]"

text \<open>A store with one club whose only player has a blank inside the stored identifier.\<close>

definition spaced_roster :: json where
  "spaced_roster =
     JObj [(''clubs'', JObj [(''c1'', JObj [(''name'', JStr ''Club A''),
        (''players'', JObj [(''k1'', roster_player ''ab 12'' ''Ann'')])])])]"

text \<open>A store with Club A and its three players.\<close>

definition club_a_roster :: json where
  "club_a_roster =
     JObj [(''clubs'', JObj [(''c1'', JObj [(''name'', JStr ''Club A''),
        (''players'', JObj [(''k1'', roster_player ''a1'' ''Ann''),
                            (''k2'', roster_player ''a2'' ''Bob''),
                            (''k3'', roster_player ''a3'' ''Cy'')])])])]"

text \<open>The roster cache of that store.\<close>

definition club_a_cache :: "playerInfo js_object" where
  "club_a_cache =
     [(''A1'', \<lparr>name = ''Ann'', clubName = ''Club A'', clubId = Some ''c1'', playerId = Some ''k1''\<rparr>),
      (''A2'', \<lparr>name = ''Bob'', clubName = ''Club A'', clubId = Some ''c1'', playerId = Some ''k2''\<rparr>),
      (''A3'', \<lparr>name = ''Cy'', clubName = ''Club A'', clubId = Some ''c1'', playerId = Some ''k3''\<rparr>)]"

section \<open>Notions used in the statements\<close>

text \<open>Two paths diverge when they differ at a position that both have.\<close>

fun diverge :: "string list \<Rightarrow> string list \<Rightarrow> bool" where
  "diverge (x # xs) (y # ys) = (x \<noteq> y \<or> diverge xs ys)"
| "diverge [] q = False"
| "diverge (x # xs) [] = False"

text \<open>
  The keys that the store uses beside the tier names in the nodes of players and clubs. No
  tier name is one of them.
\<close>

definition field_names :: "string list" where
  "field_names = [''totalPoints'', ''seasons'', ''isRegistered'', ''name'', ''players'']"

text \<open>
  What the members of a team earn. The total of the player \<open>p\<close> after the member entries
  of a team, from the total \<open>x\<close> before: one addition per entry of \<open>p\<close>, in the order
  of the entries. Likewise the counter \<open>f\<close> of \<open>p\<close>, which grows by one for every entry
  of \<open>p\<close> whose placement feeds it.
\<close>

definition member_total :: "points_value \<Rightarrow> string \<Rightarrow> (string \<times> int option) list \<Rightarrow> rat \<Rightarrow> rat" where
  "member_total pfp p ms x =
     foldl (\<lambda>x m. if fst m = p then js_add x (points_at pfp (snd m)) else x) x ms"

definition member_counter :: "string \<Rightarrow> string \<Rightarrow> (string \<times> int option) list \<Rightarrow> rat \<Rightarrow> rat" where
  "member_counter f p ms x =
     foldl (\<lambda>x m. if fst m = p \<and> getStatFieldForPlacement (snd m) = Some f then js_add x 1 else x)
       x ms"


text \<open>The identifiers of the clubs with their names, in the order of the snapshot.\<close>

definition club_names :: "json \<Rightarrow> (string \<times> json option) list" where
  "club_names db = map (\<lambda>e. (fst e, db_get (snd e) [''name''])) (entries (db_get db [''clubs'']))"

text \<open>
  The results that the loop over the teams collects, written without the store: they
  depend on the teams, their order and the set of clubs already awarded only.
\<close>

fun award_log :: "points_value \<Rightarrow> string set \<Rightarrow> team list \<Rightarrow> process_result list" where
  "award_log pfp awarded [] = []"
| "award_log pfp awarded (t # ts) =
     (case award_club t awarded of
        Some club \<Rightarrow>
          Awarded club (points_at pfp (first_placement t)) (first_placement t)
            # award_log pfp (insert club awarded) ts
      | None \<Rightarrow>
          NotAwarded (if length (playerIds t) \<noteq> 3 then ''Invalid team size''
                      else if \<not> allPlayersFromSameClub t
                      then ''Not all players from same registered club''
                      else ''Club already awarded'')
            # award_log pfp awarded ts)"

text \<open>
  What \<open>groupPlayersByTeam\<close> keeps true of every team: one club name and one placement per
  member, and the club name \<open>No Club\<close> in a team that is marked as having unregistered
  players.
\<close>

definition team_consistent :: "team \<Rightarrow> bool" where
  "team_consistent t \<longleftrightarrow>
     length (clubNames t) = length (playerIds t)
     \<and> length (placements t) = length (playerIds t)
     \<and> (hasUnregisteredPlayers t \<longrightarrow> ''No Club'' \<in> set (clubNames t))"

text \<open>The clubs of the awards among the results, in their order.\<close>

fun awarded_clubs :: "process_result list \<Rightarrow> string list" where
  "awarded_clubs [] = []"
| "awarded_clubs (Awarded club points placement # rs) = club # awarded_clubs rs"
| "awarded_clubs (NotAwarded reason # rs) = awarded_clubs rs"

text \<open>The first team, in the order of processing, that qualifies for the award of a club.\<close>

definition first_award_team :: "string \<Rightarrow> (string \<times> team) list \<Rightarrow> (string \<times> team) option" where
  "first_award_team club es = find (\<lambda>e. award_club (snd e) {} = Some club) es"

text \<open>Two parties, each of the three players of Club A, placed first and second.\<close>

definition two_club_a_teams :: "row list" where
  "two_club_a_teams =
     [participant ''a1'' 1 ''x'', participant ''a2'' 1 ''x'', participant ''a3'' 1 ''x'',
      participant ''a1'' 2 ''y'', participant ''a2'' 2 ''y'', participant ''a3'' 2 ''y'']"

text \<open>The team that the three players of Club A form, all with the same placement.\<close>

definition club_a_team :: "int \<Rightarrow> team" where
  "club_a_team place =
     \<lparr>placements = [place, place, place], clubNames = [''Club A'', ''Club A'', ''Club A''],
      playerIds = [''A1'', ''A2'', ''A3''], playerNames = [''Ann'', ''Bob'', ''Cy''],
      hasUnregisteredPlayers = False\<rparr>"

text \<open>A tournament of the diamond tier and a feed that reports the two parties of Club A.\<close>

definition diamond_cup :: tournament where
  "diamond_cup = \<lparr>tournamentId = ''t1'', tournamentName = Some ''Diamond Cup''\<rparr>"

definition club_a_feed :: "string \<Rightarrow> row response" where
  "club_a_feed tid = Response True (Some two_club_a_teams)"

text \<open>
  Two parties of the three players of Club A whose identifiers are array indices: party
  \<open>2\<close> placed first, party \<open>1\<close> placed second.
\<close>

definition numbered_club_a_parties :: "row list" where
  "numbered_club_a_parties =
     [participant ''a1'' 1 ''2'', participant ''a2'' 1 ''2'', participant ''a3'' 1 ''2'',
      participant ''a1'' 2 ''1'', participant ''a2'' 2 ''1'', participant ''a3'' 2 ''1'']"




text \<open>
  The tournament of the scenario: four parties of three players, placed first to fourth,
  the second party being the three players of Club A and the others unregistered.
\<close>

definition eu_silver_rows :: "row list" where
  "eu_silver_rows =
     [participant ''u1'' 1 ''w'', participant ''u2'' 1 ''w'', participant ''u3'' 1 ''w'',
      participant ''a1'' 2 ''a'', participant ''a2'' 2 ''a'', participant ''a3'' 2 ''a'',
      participant ''v1'' 3 ''t'', participant ''v2'' 3 ''t'', participant ''v3'' 3 ''t'',
      participant ''x1'' 4 ''f'', participant ''x2'' 4 ''f'', participant ''x3'' 4 ''f'']"

definition unregistered_team :: "string list \<Rightarrow> int \<Rightarrow> team" where
  "unregistered_team ps place =
     \<lparr>placements = [place, place, place], clubNames = [''No Club'', ''No Club'', ''No Club''],
      playerIds = ps,
      playerNames = [''Unknown Player'', ''Unknown Player'', ''Unknown Player''],
      hasUnregisteredPlayers = True\<rparr>"

text \<open>A store whose second club has a player with a number for \<open>playfabId\<close>.\<close>

definition numeric_id_roster :: json where
  "numeric_id_roster =
     JObj [(''clubs'', JObj
       [(''c1'', JObj [(''name'', JStr ''Club A''),
          (''players'', JObj [(''k1'', roster_player ''a1'' ''Ann'')])]),
        (''c2'', JObj [(''name'', JStr ''Club B''),
          (''players'', JObj [(''k1'', JObj [(''playfabId'', JNum 7), (''name'', JStr ''Bo'')]),
                              (''k2'', roster_player ''b2'' ''Bea'')])])])]"

section \<open>Properties of the tier classifier and the points table\<close>

text \<open>
  C5, as the specification states it, fails: a name that contains "gold" and "limited" is
  not classified \<open>goldLimited\<close> when one of the silver rules, which come first, matches
  it, and a name that contains "silver", "eu" and "1" is not classified \<open>silverEu1\<close> when
  it also contains "singapore".
\<close>

theorem tier_precedence_counterexample:
  "js_includes (toLowerCase ''Gold Limited Silver Singapore Cup'') ''gold''
   \<and> js_includes (toLowerCase ''Gold Limited Silver Singapore Cup'') ''limited''
   \<and> getTierFromName (Some ''Gold Limited Silver Singapore Cup'') \<noteq> ''goldLimited''
   \<and> js_includes (toLowerCase ''Silver Singapore EU 1'') ''silver''
   \<and> js_includes (toLowerCase ''Silver Singapore EU 1'') ''eu''
   \<and> js_includes (toLowerCase ''Silver Singapore EU 1'') ''1''
   \<and> getTierFromName (Some ''Silver Singapore EU 1'') \<noteq> ''silverEu1''"
  by code_simp

text \<open>
  C5, amended: a name that contains "gold" and "limited" is never classified \<open>gold\<close>, and
  it is classified \<open>goldLimited\<close> unless one of the five silver rules matches it; a name
  that contains "silver", "eu" and "1" is classified \<open>silverEu1\<close> unless it also contains
  "singapore", and then it is classified \<open>silverAsia1\<close>.
\<close>

theorem tier_precedence:
  fixes nm :: string
  defines "n \<equiv> toLowerCase nm"
  shows
  "(js_includes n ''gold'' \<and> js_includes n ''limited'' \<longrightarrow>
      getTierFromName (Some nm) \<noteq> ''gold''
      \<and> (\<not> (js_includes n ''silver''
             \<and> (js_includes n ''singapore''
                \<or> js_includes n ''eu'' \<and> js_includes n ''1''
                \<or> js_includes n ''eu'' \<and> js_includes n ''2''
                \<or> js_includes n ''us'' \<and> js_includes n ''1''
                \<or> js_includes n ''us'' \<and> js_includes n ''2''))
          \<longrightarrow> getTierFromName (Some nm) = ''goldLimited''))
   \<and> (js_includes n ''silver'' \<and> js_includes n ''eu'' \<and> js_includes n ''1'' \<longrightarrow>
        getTierFromName (Some nm)
          = (if js_includes n ''singapore'' then ''silverAsia1'' else ''silverEu1''))"
proof (cases "nm = []")
  case True
  then show ?thesis by (simp add: n_def toLowerCase_def)
next
  case False
  then show ?thesis by (auto simp add: n_def getTierFromName_def Let_def)
qed

theorem tier_precedence_witness:
  "getTierFromName (Some ''Gold Limited Cup'') = ''goldLimited''
   \<and> getTierFromName (Some ''Gold Limited Cup'') \<noteq> ''gold''
   \<and> getTierFromName (Some ''EU Silver Cup 1'') = ''silverEu1''"
proof -
  have gold: "js_includes (toLowerCase ''Gold Limited Cup'') ''gold''
      \<and> js_includes (toLowerCase ''Gold Limited Cup'') ''limited''
      \<and> \<not> js_includes (toLowerCase ''Gold Limited Cup'') ''silver''"
    by code_simp
  have silver: "js_includes (toLowerCase ''EU Silver Cup 1'') ''silver''
      \<and> js_includes (toLowerCase ''EU Silver Cup 1'') ''eu''
      \<and> js_includes (toLowerCase ''EU Silver Cup 1'') ''1''
      \<and> \<not> js_includes (toLowerCase ''EU Silver Cup 1'') ''singapore''"
    by code_simp
  from gold tier_precedence [of "''Gold Limited Cup''"]
  have "getTierFromName (Some ''Gold Limited Cup'') = ''goldLimited''
      \<and> getTierFromName (Some ''Gold Limited Cup'') \<noteq> ''gold''"
    by blast
  moreover from silver tier_precedence [of "''EU Silver Cup 1''"]
  have "getTierFromName (Some ''EU Silver Cup 1'') = ''silverEu1''"
    by simp
  ultimately show ?thesis by blast
qed

text \<open>The points table on the keys it lists, and on the keys that name nothing.\<close>

lemma getPointsMapping_known:
  "getPointsMapping ''diamond'' = PointsArray [36, 18, 9, 9]"
  "getPointsMapping ''platinum'' = PointsArray [18, 9, 9/2, 9/2]"
  "getPointsMapping ''goldLimited'' = PointsArray [6, 3, 3/2, 3/2]"
  "getPointsMapping ''gold'' = PointsArray [5, 5/2, round_double (6/5), round_double (6/5)]"
  "getPointsMapping ''silverEu2'' = PointsArray [2, 1, 1/2, 1/2]"
  "getPointsMapping ''silverEu1''
     = PointsArray [round_double (8/5), round_double (4/5), round_double (2/5), round_double (2/5)]"
  "getPointsMapping ''silverUs1''
     = PointsArray [round_double (7/5), round_double (7/10), round_double (3/10),
                    round_double (3/10)]"
  "getPointsMapping ''asia''
     = PointsArray [round_double (6/5), round_double (3/5), round_double (3/10),
                    round_double (3/10)]"
  "getPointsMapping ''america'' = PointsArray [2, 1, 1/2, 1/2]"
  "getPointsMapping ''silverUs2'' = PointsArray [round_double (6/5), round_double (3/5), 0, 0]"
  "getPointsMapping ''silverAsia1''
     = PointsArray [round_double (9/5), round_double (9/10), round_double (2/5),
                    round_double (2/5)]"
  "getPointsMapping ''roundMadnessEu'' = PointsArray [10, 5, 5/2, round_double (17/10)]"
  "getPointsMapping ''roundMadnessUs''
     = PointsArray [7, 7/2, round_double (17/10), round_double (6/5)]"
  "getPointsMapping ''roundMadnessIndia''
     = PointsArray [round_double (32/5), round_double (16/5), round_double (8/5),
                    round_double (11/10)]"
  "getPointsMapping ''halloweenCup'' = PointsArray [10, 5, 5/2, 5/2]"
  "getPointsMapping ''Unknown'' = PointsArray [0, 0, 0, 0]"
  by (simp_all add: getPointsMapping_def pointsMap_def)

lemma getPointsMapping_unlisted:
  "map_of pointsMap tier = None \<Longrightarrow> tier \<notin> set object_prototype_keys \<Longrightarrow>
   getPointsMapping tier = PointsArray [0, 0, 0, 0]"
  by (simp add: getPointsMapping_def)

text \<open>
  C8 fails on the code at a string that names a member inherited from
  \<open>Object.prototype\<close>: for the tier \<open>constructor\<close> the read \<open>pointsMap[tier]\<close> is the
  inherited constructor function, which is truthy, so \<open>||\<close> does not fall back to
  \<open>[0, 0, 0, 0]\<close> and the function is returned.
\<close>

theorem getPointsMapping_inherited_key:
  "getPointsMapping ''constructor'' = InheritedMember ''constructor''
   \<and> getPointsMapping ''constructor'' \<noteq> PointsArray [0, 0, 0, 0]"
  by code_simp

section \<open>Unfolding the model\<close>

lemmas string_defs = toUpperCase_def toLowerCase_def upper_char_def lower_char_def upper_letters_def lower_letters_def
  remove_whitespace_def is_whitespace_def
lemmas object_defs = object_prototype_keys_def Object_entries_def is_array_index_def is_digit_def
  digit_table_def decimal_value_def digit_value_def
lemmas team_defs = groupPlayersByTeam_def group_row_def add_player_def new_team_def unknown_player_def
  sortTeamsByPlacement_def array_sort_def comparator_negative_def bestPlacement_def
lemmas roster_defs = entries_def get_string_def cache_player_def cache_club_def fetchClubsAndPlayers_def
lemmas example_defs = participant_def roster_player_def spaced_roster_def club_a_roster_def

section \<open>Reading the store after a write\<close>

lemma map_of_obj_set: "map_of (obj_set k v kvs) k' = (if k' = k then Some v else map_of kvs k')"
  by (induction kvs) auto

lemma db_get_empty: "ks \<noteq> [] \<Longrightarrow> db_get (JObj []) ks = None"
  by (cases ks) auto

lemma db_get_set_same: "db_get (db_set d p v) p = Some v"
proof (induction p arbitrary: d)
  case Nil
  then show ?case by simp
next
  case (Cons k ks)
  then show ?case by (cases d) (simp_all add: map_of_obj_set)
qed

lemma db_get_set_below: "db_get (db_set d p v) (p @ q) = db_get v q"
proof (induction p arbitrary: d)
  case Nil
  then show ?case by simp
next
  case (Cons k ks)
  then show ?case by (cases d) (simp_all add: map_of_obj_set)
qed

lemma db_get_set_prefix: "prefix p q \<Longrightarrow> db_get (db_set d p v) q = db_get v (drop (length p) q)"
  by (auto simp add: prefix_def db_get_set_below)

lemma db_get_set_root: "k \<noteq> r \<Longrightarrow> db_get (db_set d (r # rs) v) (k # ks) = db_get d (k # ks)"
  by (cases d) (simp_all add: map_of_obj_set)

lemma diverge_nonempty: "diverge p q \<Longrightarrow> q \<noteq> []"
  by (cases p; cases q) auto

lemma diverge_sym: "diverge p q \<Longrightarrow> diverge q p"
  by (induction p q rule: diverge.induct) auto

lemma diverge_append: "diverge p q \<Longrightarrow> diverge (p @ r) q"
  by (induction p q rule: diverge.induct) auto

lemma diverge_append2: "diverge p q \<Longrightarrow> diverge p (q @ r)"
  by (induction p q rule: diverge.induct) auto

lemma db_get_set_diverge: "diverge p q \<Longrightarrow> db_get (db_set d p v) q = db_get d q"
proof (induction p q arbitrary: d rule: diverge.induct)
  case (1 x xs y ys)
  show ?case
  proof (cases "x = y")
    case False
    then show ?thesis by (simp add: db_get_set_root)
  next
    case True
    with 1 have dv: "diverge xs ys" by simp
    then have ne: "ys \<noteq> []" by (rule diverge_nonempty)
    show ?thesis
      using True "1.IH"[OF dv] ne 
      by (cases d) (auto simp add: map_of_obj_set db_get_empty split: option.splits)
  qed
qed simp_all

lemma db_get_None_below: "db_get d p = None \<Longrightarrow> db_get d (p @ q) = None"
proof (induction p arbitrary: d)
  case Nil
  then show ?case by simp
next
  case (Cons k ks)
  then show ?case by (cases d) (auto split: option.splits)
qed

lemma db_get_None_prefix: "db_get d p = None \<Longrightarrow> prefix p q \<Longrightarrow> db_get d q = None"
  by (auto simp add: prefix_def db_get_None_below)

lemma db_get_set_above:
  "db_get (db_set d (q @ r) v) q
     = Some (db_set (case db_get d q of Some c \<Rightarrow> c | None \<Rightarrow> JObj []) r v)"
proof (induction q arbitrary: d)
  case Nil
  then show ?case by simp
next
  case (Cons k ks)
  show ?case
  proof (cases d)
    case (JObj kvs)
    then show ?thesis
      using Cons [of "case map_of kvs k of Some c \<Rightarrow> c | None \<Rightarrow> JObj []"]
      by (cases ks) (auto simp add: map_of_obj_set db_get_empty split: option.splits)
  next
    case (JNum n)
    then show ?thesis using Cons [of "JObj []"] by (cases ks) (auto simp add: db_get_empty)
  next
    case (JStr s)
    then show ?thesis using Cons [of "JObj []"] by (cases ks) (auto simp add: db_get_empty)
  next
    case (JBool b)
    then show ?thesis using Cons [of "JObj []"] by (cases ks) (auto simp add: db_get_empty)
  qed
qed

section \<open>The results of the team loop\<close>

lemma processTeamResults_result:
  "snd (snd (processTeamResults db season t pfp tier awarded players))
     = hd (award_log pfp awarded [t])"
  by (simp add: processTeamResults_def Let_def split: option.splits)

lemma processTeamResults_store:
  "fst (processTeamResults db season t pfp tier awarded players) =
    (case award_club t awarded of
       Some club \<Rightarrow>
         updateClubTournamentStats
           (updateClubPoints (member_results db season t pfp tier players) season club
              (points_at pfp (first_placement t)))
           season club tier (first_placement t)
     | None \<Rightarrow> member_results db season t pfp tier players)"
  by (simp add: processTeamResults_def Let_def split: option.splits)

lemma processTeamResults_awarded:
  "fst (snd (processTeamResults db season t pfp tier awarded players))
     = (case award_club t awarded of Some club \<Rightarrow> insert club awarded | None \<Rightarrow> awarded)"
  by (simp add: processTeamResults_def Let_def split: option.splits)

lemma process_teams_results:
  "snd (snd (process_teams season pfp tier players es acc))
     = snd (snd acc) @ award_log pfp (fst (snd acc)) (map snd es)"
proof (induction es arbitrary: acc)
  case Nil
  then show ?case by simp
next
  case (Cons e es)
  show ?case
    by (simp add: Cons Let_def processTeamResults_result processTeamResults_awarded
          split: option.splits)
qed

lemma processTournamentResults_results:
  "fetchClubsAndPlayers db = Inr players \<Longrightarrow>
   groupPlayersByTeam tournamentData players = Inr teams \<Longrightarrow>
   map_sum id snd (processTournamentResults db season tournamentData tier)
     = Inr (award_log (getPointsMapping tier) {}
              (map snd (Object_entries (sortTeamsByPlacement teams))))"
  by (simp add: processTournamentResults_def Let_def process_teams_results)

lemma club_a_roster_cache: "fetchClubsAndPlayers club_a_roster = Inr club_a_cache"
  by (simp add: roster_defs example_defs string_defs truthy_def club_a_cache_def)

section \<open>Identifier normalisation\<close>

text \<open>
  C3 fails on the code: \<open>fetchClubsAndPlayers\<close> upper-cases the stored identifier and
  removes its whitespace, \<open>groupPlayersByTeam\<close> only upper-cases the identifier of the
  row. With the stored identifier \<open>ab 12\<close> the cache key is \<open>AB12\<close>; a row that carries
  the very same \<open>ab 12\<close> is looked up under \<open>AB 12\<close>, is not found and counts as
  unregistered, while the row \<open>ab12\<close> is found.
\<close>

theorem roster_lookup_keeps_whitespace:
  "map_sum id (map fst) (fetchClubsAndPlayers spaced_roster) = Inr [''AB12'']
   \<and> remove_whitespace (toUpperCase ''ab 12'') = ''AB12''
   \<and> groupPlayersByTeam [participant ''ab 12'' 1 ''p''] (projr (fetchClubsAndPlayers spaced_roster))
       = Inr [(''p'', \<lparr>placements = [1], clubNames = [''No Club''], playerIds = [''AB 12''],
                       playerNames = [''Unknown Player''], hasUnregisteredPlayers = True\<rparr>)]
   \<and> groupPlayersByTeam [participant ''ab12'' 1 ''p''] (projr (fetchClubsAndPlayers spaced_roster))
       = Inr [(''p'', \<lparr>placements = [1], clubNames = [''Club A''], playerIds = [''AB12''],
                       playerNames = [''Ann''], hasUnregisteredPlayers = False\<rparr>)]"
  by (simp add: string_defs object_defs team_defs roster_defs example_defs truthy_def)

section \<open>Order of the sorted teams\<close>

text \<open>
  C9 fails on the code when party identifiers are array indices. \<open>sortTeamsByPlacement\<close>
  sorts the entries and then copies them into a fresh object, and an object enumerates
  its array-index keys first, in ascending numeric order, whatever the order of insertion.
  Party \<open>2\<close> placed first and party \<open>1\<close> placed second: the sorted object lists party
  \<open>1\<close> (placement 2) before party \<open>2\<close> (placement 1).
\<close>

theorem sorted_teams_enumerate_by_key:
  "map_sum id (\<lambda>teams. map (\<lambda>e. (fst e, bestPlacement (snd e)))
                          (Object_entries (sortTeamsByPlacement teams)))
     (groupPlayersByTeam [participant ''a'' 1 ''2'', participant ''b'' 2 ''1''] [])
   = Inr [(''1'', Some 2), (''2'', Some 1)]"
  by (simp add: string_defs object_defs team_defs example_defs)

section \<open>The placement of a team's club award\<close>

text \<open>
  C4 fails on the code: \<open>processTeamResults\<close> takes \<open>team.placements[0]\<close>, the placement
  of the member whose row came first, where \<open>sortTeamsByPlacement\<close> and
  \<open>displayTop4Teams\<close> take the minimum. For a Club A team whose rows carry the placements
  2, 1, 1 the minimum is 1, the diamond award is the second-place 18 and the counter is
  that of placement 2; with the rows in the order 1, 2, 1 the award is 36.
\<close>

theorem club_award_uses_first_row:
  "map_sum id (map (\<lambda>e. bestPlacement (snd e)))
       (groupPlayersByTeam
          [participant ''a1'' 2 ''p'', participant ''a2'' 1 ''p'', participant ''a3'' 1 ''p'']
          (projr (fetchClubsAndPlayers club_a_roster)))
     = Inr [Some 1]
   \<and> map_sum id snd
       (processTournamentResults club_a_roster ''1''
          [participant ''a1'' 2 ''p'', participant ''a2'' 1 ''p'', participant ''a3'' 1 ''p'']
          ''diamond'')
     = Inr [Awarded ''Club A'' 18 (Some 2)]
   \<and> map_sum id snd
       (processTournamentResults club_a_roster ''1''
          [participant ''a2'' 1 ''p'', participant ''a1'' 2 ''p'', participant ''a3'' 1 ''p'']
          ''diamond'')
     = Inr [Awarded ''Club A'' 36 (Some 1)]"
proof -
  have g1: "groupPlayersByTeam
          [participant ''a1'' 2 ''p'', participant ''a2'' 1 ''p'', participant ''a3'' 1 ''p'']
          (projr (fetchClubsAndPlayers club_a_roster))
      = Inr [(''p'', \<lparr>placements = [2, 1, 1], clubNames = [''Club A'', ''Club A'', ''Club A''],
                playerIds = [''A1'', ''A2'', ''A3''], playerNames = [''Ann'', ''Bob'', ''Cy''],
                hasUnregisteredPlayers = False\<rparr>)]"
    unfolding club_a_roster_cache
    by (simp add: club_a_cache_def team_defs string_defs object_defs participant_def)
  have g2: "groupPlayersByTeam
          [participant ''a2'' 1 ''p'', participant ''a1'' 2 ''p'', participant ''a3'' 1 ''p'']
          (projr (fetchClubsAndPlayers club_a_roster))
      = Inr [(''p'', \<lparr>placements = [1, 2, 1], clubNames = [''Club A'', ''Club A'', ''Club A''],
                playerIds = [''A2'', ''A1'', ''A3''], playerNames = [''Bob'', ''Ann'', ''Cy''],
                hasUnregisteredPlayers = False\<rparr>)]"
    unfolding club_a_roster_cache
    by (simp add: club_a_cache_def team_defs string_defs object_defs participant_def)
  have c: "fetchClubsAndPlayers club_a_roster = Inr (projr (fetchClubsAndPlayers club_a_roster))"
    by (simp add: club_a_roster_cache)
  show ?thesis
    unfolding processTournamentResults_results [OF c g1] processTournamentResults_results [OF c g2] g1
    by (simp add: team_defs object_defs award_club_def allPlayersFromSameClub_def
          registered_clubNames_def first_placement_def points_at_def getPointsMapping_def
          pointsMap_def)
qed

section \<open>Paths\<close>

lemma diverge_Cons1: "diverge [a] q \<Longrightarrow> diverge (a # r) q"
  using diverge_append [of "[a]" q r] by simp

lemma diverge_Cons2: "diverge [a, b] q \<Longrightarrow> diverge (a # b # r) q"
  using diverge_append [of "[a, b]" q r] by simp

lemma diverge_Cons3: "diverge [a, b, c] q \<Longrightarrow> diverge (a # b # c # r) q"
  using diverge_append [of "[a, b, c]" q r] by simp

lemma diverge_Cons4: "diverge [a, b, c, d] q \<Longrightarrow> diverge (a # b # c # d # r) q"
  using diverge_append [of "[a, b, c, d]" q r] by simp

lemma diverge_after_prefix: "diverge (p @ x # r) (p @ y # r') \<longleftrightarrow> x \<noteq> y \<or> diverge r r'"
  by (induction p) auto

lemma diverge_last: "diverge (p @ [x]) (p @ [y]) \<longleftrightarrow> x \<noteq> y"
  by (simp add: diverge_after_prefix)

lemma db_get_None_snoc: "db_get d p = None \<Longrightarrow> db_get d (p @ q) = None"
  by (rule db_get_None_below)

section \<open>Tier counters\<close>

lemma initializeTournamentStats_frame:
  "diverge ref q \<Longrightarrow> db_get (initializeTournamentStats db ref) q = db_get db q"
  by (simp add: initializeTournamentStats_def db_get_set_diverge)

lemma initializeTournamentStats_field:
  "num_or0 (db_get (initializeTournamentStats db ref) (ref @ [g])) = num_or0 (db_get db (ref @ [g]))"
  by (auto simp add: initializeTournamentStats_def db_get_set_below db_get_None_below num_or0_def
        split: option.splits json.splits)

lemma increment_stat_frame:
  "diverge sref q \<Longrightarrow> diverge oref q \<Longrightarrow> db_get (increment_stat db sref oref f) q = db_get db q"
  by (simp add: increment_stat_def Let_def db_get_set_diverge diverge_append)

lemma increment_stat_season:
  "diverge oref sref \<Longrightarrow>
   num_or0 (db_get (increment_stat db sref oref f) (sref @ [g]))
     = (if g = f then js_add (num_or0 (db_get db (sref @ [g]))) 1
        else num_or0 (db_get db (sref @ [g])))"
  by (simp add: increment_stat_def Let_def db_get_set_diverge diverge_append diverge_append2
        db_get_set_same diverge_last num_or0_def)

lemma increment_stat_overall:
  "diverge sref oref \<Longrightarrow>
   num_or0 (db_get (increment_stat db sref oref f) (oref @ [g]))
     = (if g = f then js_add (num_or0 (db_get db (oref @ [g]))) 1
        else num_or0 (db_get db (oref @ [g])))"
  by (simp add: increment_stat_def Let_def db_get_set_diverge diverge_append diverge_append2
        db_get_set_same diverge_last num_or0_def)

lemma update_tier_stats_frame:
  "diverge sref q \<Longrightarrow> diverge oref q \<Longrightarrow>
   db_get (update_tier_stats db sref oref placement) q = db_get db q"
  by (simp add: update_tier_stats_def Let_def increment_stat_frame initializeTournamentStats_frame
        split: option.splits)

lemma update_tier_stats_season:
  assumes "diverge sref oref"
  shows "num_or0 (db_get (update_tier_stats db sref oref placement) (sref @ [g]))
     = (if getStatFieldForPlacement placement = Some g
        then js_add (num_or0 (db_get db (sref @ [g]))) 1
        else num_or0 (db_get db (sref @ [g])))"
proof -
  have o: "diverge oref sref" using assms by (rule diverge_sym)
  have "num_or0 (db_get (initializeTournamentStats (initializeTournamentStats db sref) oref) (sref @ [g]))
      = num_or0 (db_get db (sref @ [g]))"
    using o by (simp add: initializeTournamentStats_frame diverge_append2 initializeTournamentStats_field)
  then show ?thesis
    using o by (auto simp add: update_tier_stats_def Let_def increment_stat_season split: option.splits)
qed

lemma update_tier_stats_overall:
  assumes "diverge sref oref"
  shows "num_or0 (db_get (update_tier_stats db sref oref placement) (oref @ [g]))
     = (if getStatFieldForPlacement placement = Some g
        then js_add (num_or0 (db_get db (oref @ [g]))) 1
        else num_or0 (db_get db (oref @ [g])))"
proof -
  have "num_or0 (db_get (initializeTournamentStats (initializeTournamentStats db sref) oref) (oref @ [g]))
      = num_or0 (db_get db (oref @ [g]))"
    using assms by (simp add: initializeTournamentStats_frame diverge_append2 initializeTournamentStats_field)
  then show ?thesis
    using assms
    by (auto simp add: update_tier_stats_def Let_def increment_stat_overall split: option.splits)
qed


section \<open>Individual results\<close>

lemma getTierFromName_no_field: "getTierFromName nm \<notin> set field_names"
  by (simp add: getTierFromName_def field_names_def Let_def split: option.splits)

lemma no_field:
  assumes "tier \<notin> set field_names"
  shows "tier \<noteq> ''totalPoints''" "''totalPoints'' \<noteq> tier"
    "tier \<noteq> ''seasons''" "''seasons'' \<noteq> tier"
    "tier \<noteq> ''isRegistered''" "''isRegistered'' \<noteq> tier"
    "tier \<noteq> ''name''" "''name'' \<noteq> tier"
    "tier \<noteq> ''players''" "''players'' \<noteq> tier"
  using assms by (auto simp add: field_names_def)

lemma updateIndividualPlayerResult_frame:
  "diverge [''players'', pid] q \<Longrightarrow>
   db_get (updateIndividualPlayerResult db season pid tier placement points) q = db_get db q"
  by (simp add: updateIndividualPlayerResult_def init_season_result_def init_player_result_def
        Let_def db_update_def db_get_set_diverge update_tier_stats_frame diverge_Cons2)

lemma updateIndividualPlayerResult_total_stored:
  "tier \<noteq> ''Unknown'' \<Longrightarrow>
   db_get (updateIndividualPlayerResult db season pid tier placement points)
       [''players'', pid, ''totalPoints'']
     = Some (JNum (js_add (num_or0 (db_get db [''players'', pid, ''totalPoints''])) points))"
  by (simp add: updateIndividualPlayerResult_def Let_def db_get_set_diverge db_get_set_same)

lemma updateIndividualPlayerResult_total:
  "num_or0 (db_get (updateIndividualPlayerResult db season pid tier placement points)
       [''players'', pid, ''totalPoints''])
     = (if tier = ''Unknown'' then num_or0 (db_get db [''players'', pid, ''totalPoints''])
        else js_add (num_or0 (db_get db [''players'', pid, ''totalPoints''])) points)"
  by (simp add: updateIndividualPlayerResult_total_stored)
     (simp add: num_or0_def updateIndividualPlayerResult_def)

lemma ensure_read:
  assumes z: "num_or0 (db_get v (drop (length p) q)) = 0"
    and rel: "prefix p q \<or> diverge p q"
  shows "num_or0 (db_get (if db_get db p = None then db_set db p v else db) q)
           = num_or0 (db_get db q)"
proof (cases "db_get db p = None")
  case True
  from rel show ?thesis
  proof
    assume pre: "prefix p q"
    with True have "db_get db q = None" by (rule db_get_None_prefix)
    with z pre True show ?thesis by (simp add: db_get_set_prefix num_or0_def)
  next
    assume "diverge p q"
    then show ?thesis by (simp add: db_get_set_diverge)
  qed
next
  case False
  then show ?thesis by auto
qed

lemma total_zero_read: "num_or0 (db_get (JObj [(''totalPoints'', JNum 0)]) r) = 0"
  by (cases r; cases "tl r") (auto simp add: num_or0_def)

text \<open>
  The first steps of \<open>updateIndividualPlayerResult\<close> create the player's node and the
  season's node when they are missing; no score and no counter reads differently after.
\<close>

lemma updateIndividualPlayerResult_steps:
  "tier \<noteq> ''Unknown'' \<Longrightarrow>
   updateIndividualPlayerResult db season pid tier placement points =
     (let db3 = update_tier_stats (init_season_result (init_player_result db pid) season pid)
                  [''players'', pid, ''seasons'', season, tier] [''players'', pid, tier] placement
      in db_set (db_set db3 [''players'', pid, ''totalPoints'']
                   (JNum (js_add (num_or0 (db_get db [''players'', pid, ''totalPoints''])) points)))
           [''players'', pid, ''seasons'', season, ''totalPoints'']
           (JNum (js_add (num_or0 (db_get db3 [''players'', pid, ''seasons'', season, ''totalPoints'']))
                    points)))"
  by (simp add: updateIndividualPlayerResult_def Let_def)

lemma init_player_result_read:
  assumes "x \<notin> {''isRegistered'', ''totalPoints''}"
  shows "num_or0 (db_get (init_player_result db pid) (''players'' # pid # x # r))
           = num_or0 (db_get db (''players'' # pid # x # r))"
proof (cases "db_get db [''players'', pid] = None")
  case True
  then have "db_get db ([''players'', pid] @ x # r) = None" by (rule db_get_None_below)
  with True assms show ?thesis
    by (simp add: init_player_result_def Let_def db_get_set_prefix num_or0_def)
next
  case False
  with assms show ?thesis
    by (auto simp add: init_player_result_def Let_def db_update_def db_get_set_diverge)
qed

lemma init_season_result_read:
  assumes "prefix [''players'', pid, ''seasons'', season] q
           \<or> diverge [''players'', pid, ''seasons'', season] q"
  shows "num_or0 (db_get (init_season_result d season pid) q) = num_or0 (db_get d q)"
  unfolding init_season_result_def Let_def
  by (rule ensure_read) (simp_all add: total_zero_read assms)

lemma init_results_season:
  "num_or0 (db_get (init_season_result (init_player_result db pid) season pid) (''players'' # pid # ''seasons'' # season # r))
     = num_or0 (db_get db (''players'' # pid # ''seasons'' # season # r))"
  by (simp add: init_season_result_read init_player_result_read)

lemma init_results_overall:
  assumes "x \<notin> {''isRegistered'', ''totalPoints'', ''seasons''}"
  shows "num_or0 (db_get (init_season_result (init_player_result db pid) season pid) (''players'' # pid # x # r))
           = num_or0 (db_get db (''players'' # pid # x # r))"
proof -
  have "diverge [''players'', pid, ''seasons'', season] (''players'' # pid # x # r)"
    using assms by auto
  then show ?thesis using assms by (simp add: init_season_result_read init_player_result_read)
qed

lemma updateIndividualPlayerResult_season_total_stored:
  assumes "tier \<notin> set field_names" and "tier \<noteq> ''Unknown''"
  shows "db_get (updateIndividualPlayerResult db season pid tier placement points)
       [''players'', pid, ''seasons'', season, ''totalPoints'']
     = Some (JNum (js_add (num_or0 (db_get db [''players'', pid, ''seasons'', season, ''totalPoints'']))
                     points))"
proof -
  note nf = no_field [OF assms(1)]
  have "num_or0 (db_get (update_tier_stats (init_season_result (init_player_result db pid) season pid)
                  [''players'', pid, ''seasons'', season, tier] [''players'', pid, tier] placement)
           [''players'', pid, ''seasons'', season, ''totalPoints''])
      = num_or0 (db_get db [''players'', pid, ''seasons'', season, ''totalPoints''])"
    using nf by (simp add: update_tier_stats_frame init_results_season)
  with assms(2) show ?thesis
    by (simp add: updateIndividualPlayerResult_steps Let_def db_get_set_same)
qed

lemma updateIndividualPlayerResult_season_total:
  assumes "tier \<notin> set field_names"
  shows "num_or0 (db_get (updateIndividualPlayerResult db season pid tier placement points)
       [''players'', pid, ''seasons'', season, ''totalPoints''])
     = (if tier = ''Unknown''
        then num_or0 (db_get db [''players'', pid, ''seasons'', season, ''totalPoints''])
        else js_add (num_or0 (db_get db [''players'', pid, ''seasons'', season, ''totalPoints'']))
               points)"
proof (cases "tier = ''Unknown''")
  case True
  then show ?thesis by (simp add: updateIndividualPlayerResult_def)
next
  case False
  with assms show ?thesis
    by (simp add: updateIndividualPlayerResult_season_total_stored) (simp add: num_or0_def)
qed

lemma updateIndividualPlayerResult_counter:
  assumes "tier \<notin> set field_names"
  shows "num_or0 (db_get (updateIndividualPlayerResult db season pid tier placement points)
       [''players'', pid, tier, g])
     = (if tier \<noteq> ''Unknown'' \<and> getStatFieldForPlacement placement = Some g
        then js_add (num_or0 (db_get db [''players'', pid, tier, g])) 1
        else num_or0 (db_get db [''players'', pid, tier, g]))"
proof (cases "tier = ''Unknown''")
  case True
  then show ?thesis by (simp add: updateIndividualPlayerResult_def)
next
  case False
  note nf = no_field [OF assms]
  have d: "diverge [''players'', pid, ''seasons'', season, tier] [''players'', pid, tier]"
    using nf by simp
  have "num_or0 (db_get (init_season_result (init_player_result db pid) season pid) [''players'', pid, tier, g])
      = num_or0 (db_get db [''players'', pid, tier, g])"
    using nf by (intro init_results_overall) simp
  with False nf show ?thesis
    using update_tier_stats_overall [OF d, of "init_season_result (init_player_result db pid) season pid" placement g]
    by (simp add: updateIndividualPlayerResult_steps Let_def db_get_set_diverge)
qed

lemma updateIndividualPlayerResult_season_counter:
  assumes "tier \<notin> set field_names"
  shows "num_or0 (db_get (updateIndividualPlayerResult db season pid tier placement points)
       [''players'', pid, ''seasons'', season, tier, g])
     = (if tier \<noteq> ''Unknown'' \<and> getStatFieldForPlacement placement = Some g
        then js_add (num_or0 (db_get db [''players'', pid, ''seasons'', season, tier, g])) 1
        else num_or0 (db_get db [''players'', pid, ''seasons'', season, tier, g]))"
proof (cases "tier = ''Unknown''")
  case True
  then show ?thesis by (simp add: updateIndividualPlayerResult_def)
next
  case False
  note nf = no_field [OF assms]
  have d: "diverge [''players'', pid, ''seasons'', season, tier] [''players'', pid, tier]"
    using nf by simp
  have "num_or0 (db_get (init_season_result (init_player_result db pid) season pid) [''players'', pid, ''seasons'', season, tier, g])
      = num_or0 (db_get db [''players'', pid, ''seasons'', season, tier, g])"
    by (rule init_results_season)
  with False nf show ?thesis
    using update_tier_stats_season [OF d, of "init_season_result (init_player_result db pid) season pid" placement g]
    by (simp add: updateIndividualPlayerResult_steps Let_def db_get_set_diverge)
qed

section \<open>Loops over the members\<close>

lemma foldl_read:
  assumes "\<And>d m. m \<in> set ms \<Longrightarrow> rd (f d m) = h (rd d) m"
  shows "rd (foldl f db ms) = foldl h (rd db) ms"
  using assms by (induction ms arbitrary: db) simp_all

lemma foldl_frame:
  assumes "\<And>d m. m \<in> set ms \<Longrightarrow> rd (f d m) = rd d"
  shows "rd (foldl f db ms) = rd db"
  using assms by (induction ms arbitrary: db) simp_all

lemma fst_members: "fst ` set (members ps qs) = set ps"
  by (induction ps qs rule: members.induct) auto

lemma individual_results_frame:
  "k \<noteq> ''players'' \<Longrightarrow>
   db_get (record_individual_results db season t pfp tier) (k # ks) = db_get db (k # ks)"
  unfolding record_individual_results_def
  by (rule foldl_frame [where rd = "\<lambda>d. db_get d (k # ks)"])
     (simp add: updateIndividualPlayerResult_frame)

lemma individual_results_other_player:
  assumes "p \<notin> set (playerIds t)"
  shows "db_get (record_individual_results db season t pfp tier) (''players'' # p # ks)
     = db_get db (''players'' # p # ks)"
  unfolding record_individual_results_def
proof (rule foldl_frame [where rd = "\<lambda>d. db_get d (''players'' # p # ks)"])
  fix d m
  assume "m \<in> set (members (playerIds t) (placements t))"
  then have "fst m \<in> set (playerIds t)" using fst_members by blast
  with assms have "fst m \<noteq> p" by blast
  then show "db_get (updateIndividualPlayerResult d season (fst m) tier (snd m)
                       (points_at pfp (snd m))) (''players'' # p # ks)
      = db_get d (''players'' # p # ks)"
    by (simp add: updateIndividualPlayerResult_frame)
qed

lemma individual_results_unknown: "record_individual_results db season t pfp ''Unknown'' = db"
  unfolding record_individual_results_def
  by (rule foldl_frame [where rd = "\<lambda>d. d"]) (simp add: updateIndividualPlayerResult_def)

lemma updateIndividualPlayerResult_total_any:
  "tier \<noteq> ''Unknown'' \<Longrightarrow>
   num_or0 (db_get (updateIndividualPlayerResult d season pid tier placement points)
       [''players'', p, ''totalPoints''])
     = (if pid = p then js_add (num_or0 (db_get d [''players'', p, ''totalPoints''])) points
        else num_or0 (db_get d [''players'', p, ''totalPoints'']))"
  by (cases "pid = p")
     (simp_all add: updateIndividualPlayerResult_total updateIndividualPlayerResult_frame)

lemma updateIndividualPlayerResult_season_total_any:
  "tier \<noteq> ''Unknown'' \<Longrightarrow> tier \<notin> set field_names \<Longrightarrow>
   num_or0 (db_get (updateIndividualPlayerResult d season pid tier placement points)
       [''players'', p, ''seasons'', season, ''totalPoints''])
     = (if pid = p
        then js_add (num_or0 (db_get d [''players'', p, ''seasons'', season, ''totalPoints''])) points
        else num_or0 (db_get d [''players'', p, ''seasons'', season, ''totalPoints'']))"
  by (cases "pid = p")
     (simp_all add: updateIndividualPlayerResult_season_total updateIndividualPlayerResult_frame)

lemma updateIndividualPlayerResult_counter_any:
  "tier \<noteq> ''Unknown'' \<Longrightarrow> tier \<notin> set field_names \<Longrightarrow>
   num_or0 (db_get (updateIndividualPlayerResult d season pid tier placement points)
       [''players'', p, tier, g])
     = (if pid = p \<and> getStatFieldForPlacement placement = Some g
        then js_add (num_or0 (db_get d [''players'', p, tier, g])) 1
        else num_or0 (db_get d [''players'', p, tier, g]))"
  by (cases "pid = p")
     (simp_all add: updateIndividualPlayerResult_counter updateIndividualPlayerResult_frame)

lemma updateIndividualPlayerResult_season_counter_any:
  "tier \<noteq> ''Unknown'' \<Longrightarrow> tier \<notin> set field_names \<Longrightarrow>
   num_or0 (db_get (updateIndividualPlayerResult d season pid tier placement points)
       [''players'', p, ''seasons'', season, tier, g])
     = (if pid = p \<and> getStatFieldForPlacement placement = Some g
        then js_add (num_or0 (db_get d [''players'', p, ''seasons'', season, tier, g])) 1
        else num_or0 (db_get d [''players'', p, ''seasons'', season, tier, g]))"
  by (cases "pid = p")
     (simp_all add: updateIndividualPlayerResult_season_counter updateIndividualPlayerResult_frame)

lemma individual_results_total:
  assumes "tier \<noteq> ''Unknown''"
  shows "num_or0 (db_get (record_individual_results db season t pfp tier) [''players'', p, ''totalPoints''])
     = member_total pfp p (members (playerIds t) (placements t))
         (num_or0 (db_get db [''players'', p, ''totalPoints'']))"
  unfolding record_individual_results_def member_total_def
  by (rule foldl_read [where rd = "\<lambda>d. num_or0 (db_get d [''players'', p, ''totalPoints''])"])
     (simp add: updateIndividualPlayerResult_total_any assms)

lemma individual_results_season_total:
  assumes "tier \<notin> set field_names" and "tier \<noteq> ''Unknown''"
  shows "num_or0 (db_get (record_individual_results db season t pfp tier)
                    [''players'', p, ''seasons'', season, ''totalPoints''])
     = member_total pfp p (members (playerIds t) (placements t))
         (num_or0 (db_get db [''players'', p, ''seasons'', season, ''totalPoints'']))"
  unfolding record_individual_results_def member_total_def
  by (rule foldl_read
        [where rd = "\<lambda>d. num_or0 (db_get d [''players'', p, ''seasons'', season, ''totalPoints''])"])
     (simp add: updateIndividualPlayerResult_season_total_any assms)

lemma individual_results_counter:
  assumes "tier \<notin> set field_names" and "tier \<noteq> ''Unknown''"
  shows "num_or0 (db_get (record_individual_results db season t pfp tier) [''players'', p, tier, g])
     = member_counter g p (members (playerIds t) (placements t))
         (num_or0 (db_get db [''players'', p, tier, g]))"
  unfolding record_individual_results_def member_counter_def
  by (rule foldl_read [where rd = "\<lambda>d. num_or0 (db_get d [''players'', p, tier, g])"])
     (simp add: updateIndividualPlayerResult_counter_any assms)

lemma individual_results_season_counter:
  assumes "tier \<notin> set field_names" and "tier \<noteq> ''Unknown''"
  shows "num_or0 (db_get (record_individual_results db season t pfp tier)
                   [''players'', p, ''seasons'', season, tier, g])
     = member_counter g p (members (playerIds t) (placements t))
         (num_or0 (db_get db [''players'', p, ''seasons'', season, tier, g]))"
  unfolding record_individual_results_def member_counter_def
  by (rule foldl_read
        [where rd = "\<lambda>d. num_or0 (db_get d [''players'', p, ''seasons'', season, tier, g])"])
     (simp add: updateIndividualPlayerResult_season_counter_any assms)

text \<open>
  The totals of a member are stored: after the loop the node of the total holds the number.
\<close>

lemma member_total_absent:
  "p \<notin> fst ` set ms \<Longrightarrow> member_total pfp p ms x = x"
  unfolding member_total_def by (induction ms arbitrary: x) auto

lemma stored_total_fold:
  "p \<in> fst ` set ms \<Longrightarrow>
   foldl (\<lambda>x m. if fst m = p then Some (JNum (js_add (num_or0 x) (points_at pfp (snd m)))) else x)
     x ms
   = Some (JNum (member_total pfp p ms (num_or0 x)))"
proof (induction ms arbitrary: x)
  case Nil
  then show ?case by simp
next
  case (Cons m ms)
  show ?case
  proof (cases "p \<in> fst ` set ms")
    case True
    then show ?thesis
      using Cons.IH [OF True] by (simp add: member_total_def num_or0_def)
  next
    case False
    with Cons.prems have m: "fst m = p" by auto
    have "foldl (\<lambda>x m. if fst m = p then Some (JNum (js_add (num_or0 x) (points_at pfp (snd m)))) else x)
            y ms = y" for y
      using False by (induction ms arbitrary: y) auto
    with m False show ?thesis
      using member_total_absent [OF False, of pfp]
      by (simp add: member_total_def [of pfp p "m # ms"] num_or0_def)
         (simp add: member_total_def)
  qed
qed

lemma individual_results_total_stored:
  assumes "tier \<noteq> ''Unknown''" and "p \<in> set (playerIds t)"
  shows "db_get (record_individual_results db season t pfp tier) [''players'', p, ''totalPoints'']
     = Some (JNum (member_total pfp p (members (playerIds t) (placements t))
                     (num_or0 (db_get db [''players'', p, ''totalPoints'']))))"
proof -
  have "db_get (record_individual_results db season t pfp tier) [''players'', p, ''totalPoints'']
      = foldl (\<lambda>x m. if fst m = p then Some (JNum (js_add (num_or0 x) (points_at pfp (snd m)))) else x)
          (db_get db [''players'', p, ''totalPoints'']) (members (playerIds t) (placements t))"
    unfolding record_individual_results_def
    by (rule foldl_read [where rd = "\<lambda>d. db_get d [''players'', p, ''totalPoints'']"])
       (simp add: updateIndividualPlayerResult_total_stored updateIndividualPlayerResult_frame assms(1))
  then show ?thesis using assms(2) by (simp add: stored_total_fold fst_members)
qed

lemma individual_results_season_total_stored:
  assumes "tier \<notin> set field_names" and "tier \<noteq> ''Unknown''" and "p \<in> set (playerIds t)"
  shows "db_get (record_individual_results db season t pfp tier)
           [''players'', p, ''seasons'', season, ''totalPoints'']
     = Some (JNum (member_total pfp p (members (playerIds t) (placements t))
                     (num_or0 (db_get db [''players'', p, ''seasons'', season, ''totalPoints'']))))"
proof -
  have "db_get (record_individual_results db season t pfp tier)
          [''players'', p, ''seasons'', season, ''totalPoints'']
      = foldl (\<lambda>x m. if fst m = p then Some (JNum (js_add (num_or0 x) (points_at pfp (snd m)))) else x)
          (db_get db [''players'', p, ''seasons'', season, ''totalPoints''])
          (members (playerIds t) (placements t))"
    unfolding record_individual_results_def
    by (rule foldl_read
          [where rd = "\<lambda>d. db_get d [''players'', p, ''seasons'', season, ''totalPoints'']"])
       (simp add: updateIndividualPlayerResult_season_total_stored updateIndividualPlayerResult_frame
          assms(1,2))
  then show ?thesis using assms(3) by (simp add: stored_total_fold fst_members)
qed

section \<open>The clubs and their names\<close>

lemma map_obj_set_view:
  "map_of kvs k = Some c \<Longrightarrow> h c' = h c \<Longrightarrow>
   map (\<lambda>e. (fst e, h (snd e))) (obj_set k c' kvs) = map (\<lambda>e. (fst e, h (snd e))) kvs"
  by (induction kvs) (auto split: if_splits)

lemma club_names_cong:
  "db_get db' [''clubs''] = db_get db [''clubs''] \<Longrightarrow> club_names db' = club_names db"
  by (simp add: club_names_def)

lemma club_names_set_root:
  "k \<noteq> ''clubs'' \<Longrightarrow> club_names (db_set db (k # r) v) = club_names db"
  by (rule club_names_cong) (simp add: db_get_set_root)

lemma find_SomeD: "find P xs = Some x \<Longrightarrow> x \<in> set xs \<and> P x"
  by (induction xs) (auto split: if_splits)

lemma find_map_view: "find P (map f xs) = map_option f (find (\<lambda>x. P (f x)) xs)"
  by (induction xs) auto

lemma map_of_key: "k \<in> fst ` set kvs \<Longrightarrow> \<exists>c. map_of kvs k = Some c"
  by (induction kvs) auto

lemma club_names_set_club:
  assumes key: "cid \<in> fst ` set (club_names db)" and x: "x \<noteq> ''name''"
  shows "club_names (db_set db (''clubs'' # cid # x # r) v) = club_names db"
proof -
  define kvs where "kvs = entries (db_get db [''clubs''])"
  from key have k: "cid \<in> fst ` set kvs"
    by (force simp add: club_names_def kvs_def)
  then have "kvs \<noteq> []" by auto
  then have clubs: "db_get db [''clubs''] = Some (JObj kvs)"
    unfolding kvs_def entries_def by (simp split: option.splits json.splits)
  from map_of_key [OF k] obtain c where c: "map_of kvs cid = Some c" ..
  have "db_get (db_set db (''clubs'' # cid # x # r) v) [''clubs'']
      = Some (db_set (JObj kvs) (cid # x # r) v)"
    using db_get_set_above [of db "[''clubs'']" "cid # x # r" v] clubs
    by (simp del: db_set.simps db_get.simps)
  then have e: "entries (db_get (db_set db (''clubs'' # cid # x # r) v) [''clubs''])
      = obj_set cid (db_set c (x # r) v) kvs"
    using c by (simp add: entries_def)
  have "db_get (db_set c (x # r) v) [''name''] = db_get c [''name'']"
    using x by (simp add: db_get_set_root)
  with c have "map (\<lambda>e. (fst e, db_get (snd e) [''name''])) (obj_set cid (db_set c (x # r) v) kvs)
      = map (\<lambda>e. (fst e, db_get (snd e) [''name''])) kvs"
    by (rule map_obj_set_view [where h = "\<lambda>n. db_get n [''name'']"])
  with e show ?thesis unfolding club_names_def kvs_def by simp
qed

lemma find_club_names:
  "find_club db c = map_option fst (find (\<lambda>e. snd e = Some (JStr c)) (club_names db))"
  by (simp add: find_club_def club_names_def find_map_view option.map_comp comp_def)

lemma find_club_entry:
  "find_club db c = Some cid \<Longrightarrow> (cid, Some (JStr c)) \<in> set (club_names db)"
proof -
  assume "find_club db c = Some cid"
  then obtain e where "find (\<lambda>e. snd e = Some (JStr c)) (club_names db) = Some e" "fst e = cid"
    by (auto simp add: find_club_names)
  then show ?thesis using find_SomeD [of "\<lambda>e. snd e = Some (JStr c)" "club_names db" e]
    by (cases e) auto
qed

lemma find_club_key: "find_club db c = Some cid \<Longrightarrow> cid \<in> fst ` set (club_names db)"
  using find_club_entry by force

lemma find_club_distinct:
  assumes "distinct (map fst (club_names db))"
    and "find_club db c = Some cid" and "find_club db c' = Some cid"
  shows "c = c'"
proof -
  have "(cid, Some (JStr c)) \<in> set (club_names db)" "(cid, Some (JStr c')) \<in> set (club_names db)"
    using assms(2,3) by (simp_all add: find_club_entry)
  with assms(1) have "Some (JStr c) = Some (JStr c')" by (rule eq_key_imp_eq_value)
  then show ?thesis by simp
qed

lemma find_player_SomeD:
  "find_player pid ls = Inr (Some l) \<Longrightarrow> \<exists>x \<in> set ls. l = (fst x, fst (snd x))"
  by (induction ls) (auto split: sum.splits if_splits)

lemma findPlayerLocation_key:
  assumes "findPlayerLocation db pid = Some l"
  shows "fst l \<in> fst ` set (club_names db)"
proof -
  let ?all = "concat (map (\<lambda>c. map (\<lambda>p. (fst c, fst p, snd p)) (entries (db_get (snd c) [''players''])))
                     (entries (db_get db [''clubs''])))"
  from assms have "find_player pid ?all = Inr (Some l)"
    by (simp add: findPlayerLocation_def split: sum.splits)
  then obtain x where "x \<in> set ?all" and l: "l = (fst x, fst (snd x))"
    using find_player_SomeD by blast
  then obtain c where "c \<in> set (entries (db_get db [''clubs'']))" "fst x = fst c"
    by auto
  then have "fst x \<in> fst ` set (club_names db)"
    by (force simp add: club_names_def)
  with l show ?thesis by simp
qed

section \<open>Adding points\<close>

lemma add_points_sets:
  "add_points db ref season points =
     db_set (db_set db (ref @ [''totalPoints''])
               (JNum (js_add (num_or0 (db_get db (ref @ [''totalPoints'']))) points)))
       (ref @ [''seasons'', season, ''totalPoints''])
       (JNum (js_add (num_or0 (db_get db (ref @ [''seasons'', season, ''totalPoints'']))) points))"
  by (simp add: add_points_def Let_def db_update_def)

lemma add_points_frame:
  "diverge (ref @ [''totalPoints'']) q \<Longrightarrow> diverge (ref @ [''seasons'', season, ''totalPoints'']) q \<Longrightarrow>
   db_get (add_points db ref season points) q = db_get db q"
  by (simp add: add_points_sets db_get_set_diverge)

lemma add_points_total:
  "num_or0 (db_get (add_points db ref season points) (ref @ [''totalPoints'']))
     = js_add (num_or0 (db_get db (ref @ [''totalPoints'']))) points"
  by (simp add: add_points_sets db_get_set_diverge diverge_after_prefix db_get_set_same)
     (simp add: num_or0_def)

lemma add_points_season:
  "num_or0 (db_get (add_points db ref season points) (ref @ [''seasons'', season, ''totalPoints'']))
     = js_add (num_or0 (db_get db (ref @ [''seasons'', season, ''totalPoints'']))) points"
  by (simp add: add_points_sets db_get_set_same) (simp add: num_or0_def)

lemma club_names_add_points:
  assumes "cid \<in> fst ` set (club_names db)" "ref = [] \<or> hd ref \<noteq> ''name''"
  shows "club_names (add_points db (''clubs'' # cid # ref) season points) = club_names db"
proof -
  have 1: "club_names (db_set db (''clubs'' # cid # ref @ [''totalPoints'']) v) = club_names db" for v
    using assms by (cases ref) (simp_all add: club_names_set_club)
  have 2: "club_names (db_set d (''clubs'' # cid # ref @ [''seasons'', season, ''totalPoints'']) w)
      = club_names d" if "cid \<in> fst ` set (club_names d)" for d w
    using that assms(2) by (cases ref) (simp_all add: club_names_set_club)
  show ?thesis using assms(1) by (simp add: add_points_sets 1 2)
qed

section \<open>Tier counters of a club\<close>

lemma club_names_initialize:
  "cid \<in> fst ` set (club_names db) \<Longrightarrow> x \<noteq> ''name'' \<Longrightarrow>
   club_names (initializeTournamentStats db (''clubs'' # cid # x # r)) = club_names db"
  by (simp add: initializeTournamentStats_def club_names_set_club)

lemma club_names_increment:
  "cid \<in> fst ` set (club_names db) \<Longrightarrow> x \<noteq> ''name'' \<Longrightarrow> y \<noteq> ''name'' \<Longrightarrow>
   club_names (increment_stat db (''clubs'' # cid # x # r) (''clubs'' # cid # y # r') f)
     = club_names db"
  by (simp add: increment_stat_def Let_def club_names_set_club)

lemma club_names_tier_stats:
  "cid \<in> fst ` set (club_names db) \<Longrightarrow> x \<noteq> ''name'' \<Longrightarrow> y \<noteq> ''name'' \<Longrightarrow>
   club_names (update_tier_stats db (''clubs'' # cid # x # r) (''clubs'' # cid # y # r') placement)
     = club_names db"
  by (simp add: update_tier_stats_def Let_def club_names_initialize club_names_increment
        split: option.splits)

section \<open>The members' nodes in their club\<close>

lemma updatePlayerPoints_frame:
  "x \<noteq> ''players'' \<Longrightarrow>
   db_get (updatePlayerPoints db season pid points) (''clubs'' # c0 # x # r)
     = db_get db (''clubs'' # c0 # x # r)"
  by (simp add: updatePlayerPoints_def add_points_frame split: option.splits)

lemma updatePlayerPoints_root:
  "k \<noteq> ''clubs'' \<Longrightarrow>
   db_get (updatePlayerPoints db season pid points) (k # ks) = db_get db (k # ks)"
  by (simp add: updatePlayerPoints_def add_points_frame split: option.splits)

lemma updatePlayerPoints_names:
  "club_names (updatePlayerPoints db season pid points) = club_names db"
  using findPlayerLocation_key [of db pid]
  by (simp add: updatePlayerPoints_def club_names_add_points split: option.splits)

lemma updatePlayerTournamentStats_frame:
  "x \<noteq> ''players'' \<Longrightarrow>
   db_get (updatePlayerTournamentStats db season pid tier placement) (''clubs'' # c0 # x # r)
     = db_get db (''clubs'' # c0 # x # r)"
  by (simp add: updatePlayerTournamentStats_def update_tier_stats_frame split: option.splits)

lemma updatePlayerTournamentStats_root:
  "k \<noteq> ''clubs'' \<Longrightarrow>
   db_get (updatePlayerTournamentStats db season pid tier placement) (k # ks) = db_get db (k # ks)"
  by (simp add: updatePlayerTournamentStats_def update_tier_stats_frame split: option.splits)

lemma updatePlayerTournamentStats_names:
  "club_names (updatePlayerTournamentStats db season pid tier placement) = club_names db"
  using findPlayerLocation_key [of db pid]
  by (simp add: updatePlayerTournamentStats_def club_names_tier_stats split: option.splits)

lemma update_club_players_frame:
  "x \<noteq> ''players'' \<Longrightarrow>
   db_get (update_club_players db season t pfp tier players) (''clubs'' # c0 # x # r)
     = db_get db (''clubs'' # c0 # x # r)"
  unfolding update_club_players_def
  by (rule foldl_frame [where rd = "\<lambda>d. db_get d (''clubs'' # c0 # x # r)"])
     (simp add: updatePlayerPoints_frame updatePlayerTournamentStats_frame)

lemma update_club_players_root:
  "k \<noteq> ''clubs'' \<Longrightarrow>
   db_get (update_club_players db season t pfp tier players) (k # ks) = db_get db (k # ks)"
  unfolding update_club_players_def
  by (rule foldl_frame [where rd = "\<lambda>d. db_get d (k # ks)"])
     (simp add: updatePlayerPoints_root updatePlayerTournamentStats_root)

lemma update_club_players_names:
  "club_names (update_club_players db season t pfp tier players) = club_names db"
  unfolding update_club_players_def
  by (rule foldl_frame [where rd = club_names])
     (simp add: updatePlayerPoints_names updatePlayerTournamentStats_names)

section \<open>The club's own node\<close>

lemma updateClubPoints_root:
  "k \<noteq> ''clubs'' \<Longrightarrow> k \<noteq> ''clubs_summary'' \<Longrightarrow>
   db_get (updateClubPoints db season club points) (k # ks) = db_get db (k # ks)"
  by (simp add: updateClubPoints_def Let_def db_get_set_diverge add_points_frame
        split: option.splits)

lemma updateClubPoints_names:
  "club_names (updateClubPoints db season club points) = club_names db"
  using find_club_key [of db club]
  by (simp add: updateClubPoints_def Let_def club_names_set_root
        club_names_add_points [where ref = "[]", simplified] split: option.splits)

lemma updateClubPoints_total:
  "num_or0 (db_get (updateClubPoints db season club points) [''clubs'', c0, ''totalPoints''])
     = (if find_club db club = Some c0
        then js_add (num_or0 (db_get db [''clubs'', c0, ''totalPoints''])) points
        else num_or0 (db_get db [''clubs'', c0, ''totalPoints'']))"
proof (cases "find_club db club")
  case None
  then show ?thesis by (simp add: updateClubPoints_def)
next
  case (Some cid)
  show ?thesis
  proof (cases "cid = c0")
    case True
    with Some show ?thesis
      using add_points_total [of db "[''clubs'', c0]" season points]
      by (simp add: updateClubPoints_def Let_def db_get_set_diverge)
  next
    case False
    with Some show ?thesis
      by (simp add: updateClubPoints_def Let_def db_get_set_diverge add_points_frame)
  qed
qed

lemma updateClubPoints_season_total:
  "num_or0 (db_get (updateClubPoints db season club points)
              [''clubs'', c0, ''seasons'', season, ''totalPoints''])
     = (if find_club db club = Some c0
        then js_add (num_or0 (db_get db [''clubs'', c0, ''seasons'', season, ''totalPoints''])) points
        else num_or0 (db_get db [''clubs'', c0, ''seasons'', season, ''totalPoints'']))"
proof (cases "find_club db club")
  case None
  then show ?thesis by (simp add: updateClubPoints_def)
next
  case (Some cid)
  show ?thesis
  proof (cases "cid = c0")
    case True
    with Some show ?thesis
      using add_points_season [of db "[''clubs'', c0]" season points]
      by (simp add: updateClubPoints_def Let_def db_get_set_diverge)
  next
    case False
    with Some show ?thesis
      by (simp add: updateClubPoints_def Let_def db_get_set_diverge add_points_frame)
  qed
qed

lemma updateClubPoints_counters:
  assumes "tier \<notin> set field_names"
  shows "db_get (updateClubPoints db season club points) (''clubs'' # c0 # tier # r)
           = db_get db (''clubs'' # c0 # tier # r)"
    and "db_get (updateClubPoints db season club points) (''clubs'' # c0 # ''seasons'' # s # tier # r)
           = db_get db (''clubs'' # c0 # ''seasons'' # s # tier # r)"
  using no_field [OF assms]
  by (simp_all add: updateClubPoints_def Let_def db_get_set_diverge add_points_frame
        split: option.splits)

lemma updateClubTournamentStats_root:
  "k \<noteq> ''clubs'' \<Longrightarrow>
   db_get (updateClubTournamentStats db season club tier placement) (k # ks) = db_get db (k # ks)"
  by (simp add: updateClubTournamentStats_def update_tier_stats_frame split: option.splits)

lemma updateClubTournamentStats_names:
  assumes "tier \<notin> set field_names"
  shows "club_names (updateClubTournamentStats db season club tier placement) = club_names db"
  using find_club_key [of db club] no_field [OF assms]
  by (simp add: updateClubTournamentStats_def club_names_tier_stats split: option.splits)

lemma updateClubTournamentStats_totals:
  assumes "tier \<notin> set field_names"
  shows "db_get (updateClubTournamentStats db season club tier placement) [''clubs'', c0, ''totalPoints'']
           = db_get db [''clubs'', c0, ''totalPoints'']"
    and "db_get (updateClubTournamentStats db season club tier placement)
           [''clubs'', c0, ''seasons'', s, ''totalPoints'']
           = db_get db [''clubs'', c0, ''seasons'', s, ''totalPoints'']"
  using no_field [OF assms]
  by (simp_all add: updateClubTournamentStats_def update_tier_stats_frame split: option.splits)

lemma updateClubTournamentStats_counter:
  assumes "tier \<notin> set field_names"
  shows "num_or0 (db_get (updateClubTournamentStats db season club tier placement)
                    [''clubs'', c0, tier, g])
     = (if find_club db club = Some c0 \<and> tier \<noteq> ''Unknown''
           \<and> getStatFieldForPlacement placement = Some g
        then js_add (num_or0 (db_get db [''clubs'', c0, tier, g])) 1
        else num_or0 (db_get db [''clubs'', c0, tier, g]))"
proof (cases "tier \<noteq> ''Unknown'' \<and> (\<exists>cid. find_club db club = Some cid)")
  case False
  then show ?thesis by (auto simp add: updateClubTournamentStats_def)
next
  case True
  then obtain cid where cid: "find_club db club = Some cid" and t: "tier \<noteq> ''Unknown''" by auto
  note nf = no_field [OF assms]
  show ?thesis
  proof (cases "cid = c0")
    case True
    have d: "diverge [''clubs'', c0, ''seasons'', season, tier] [''clubs'', c0, tier]"
      using nf by simp
    from True cid t show ?thesis
      using update_tier_stats_overall [OF d, of db placement g]
      by (simp add: updateClubTournamentStats_def)
  next
    case False
    with cid t show ?thesis
      by (simp add: updateClubTournamentStats_def update_tier_stats_frame)
  qed
qed

lemma updateClubTournamentStats_season_counter:
  assumes "tier \<notin> set field_names"
  shows "num_or0 (db_get (updateClubTournamentStats db season club tier placement)
                    [''clubs'', c0, ''seasons'', season, tier, g])
     = (if find_club db club = Some c0 \<and> tier \<noteq> ''Unknown''
           \<and> getStatFieldForPlacement placement = Some g
        then js_add (num_or0 (db_get db [''clubs'', c0, ''seasons'', season, tier, g])) 1
        else num_or0 (db_get db [''clubs'', c0, ''seasons'', season, tier, g]))"
proof (cases "tier \<noteq> ''Unknown'' \<and> (\<exists>cid. find_club db club = Some cid)")
  case False
  then show ?thesis by (auto simp add: updateClubTournamentStats_def)
next
  case True
  then obtain cid where cid: "find_club db club = Some cid" and t: "tier \<noteq> ''Unknown''" by auto
  note nf = no_field [OF assms]
  show ?thesis
  proof (cases "cid = c0")
    case True
    have d: "diverge [''clubs'', c0, ''seasons'', season, tier] [''clubs'', c0, tier]"
      using nf by simp
    from True cid t show ?thesis
      using update_tier_stats_season [OF d, of db placement g]
      by (simp add: updateClubTournamentStats_def)
  next
    case False
    with cid t show ?thesis
      by (simp add: updateClubTournamentStats_def update_tier_stats_frame)
  qed
qed

section \<open>One team\<close>

lemma member_results_root:
  "k \<noteq> ''players'' \<Longrightarrow> k \<noteq> ''clubs'' \<Longrightarrow>
   db_get (member_results db season t pfp tier players) (k # ks) = db_get db (k # ks)"
  by (simp add: member_results_def Let_def update_club_players_root individual_results_frame)

lemma member_results_players:
  "db_get (member_results db season t pfp tier players) (''players'' # ks)
     = db_get (record_individual_results db season t pfp tier) (''players'' # ks)"
  by (simp add: member_results_def Let_def update_club_players_root)

lemma member_results_club:
  "x \<noteq> ''players'' \<Longrightarrow>
   db_get (member_results db season t pfp tier players) (''clubs'' # c0 # x # r)
     = db_get db (''clubs'' # c0 # x # r)"
  by (simp add: member_results_def Let_def update_club_players_frame individual_results_frame)

lemma individual_results_names:
  "club_names (record_individual_results db season t pfp tier) = club_names db"
  by (rule club_names_cong) (simp add: individual_results_frame)

lemma member_results_names:
  "club_names (member_results db season t pfp tier players) = club_names db"
  by (simp add: member_results_def Let_def update_club_players_names individual_results_names)

lemma find_club_cong: "club_names db' = club_names db \<Longrightarrow> find_club db' c = find_club db c"
  by (simp add: find_club_names)

lemma processTeamResults_root:
  "k \<noteq> ''players'' \<Longrightarrow> k \<noteq> ''clubs'' \<Longrightarrow> k \<noteq> ''clubs_summary'' \<Longrightarrow>
   db_get (fst (processTeamResults db season t pfp tier awarded players)) (k # ks)
     = db_get db (k # ks)"
  by (simp add: processTeamResults_store updateClubTournamentStats_root
        updateClubPoints_root member_results_root split: option.splits)

lemma processTeamResults_players:
  "db_get (fst (processTeamResults db season t pfp tier awarded players)) (''players'' # ks)
     = db_get (record_individual_results db season t pfp tier) (''players'' # ks)"
  by (simp add: processTeamResults_store updateClubTournamentStats_root
        updateClubPoints_root member_results_players split: option.splits)

lemma processTeamResults_names:
  "tier \<notin> set field_names \<Longrightarrow>
   club_names (fst (processTeamResults db season t pfp tier awarded players)) = club_names db"
  by (simp add: processTeamResults_store updateClubTournamentStats_names
        updateClubPoints_names member_results_names split: option.splits)

lemma processTeamResults_club_total:
  assumes "tier \<notin> set field_names"
  shows "num_or0 (db_get (fst (processTeamResults db season t pfp tier awarded players))
                    [''clubs'', c0, ''totalPoints''])
     = (case award_club t awarded of
          Some club \<Rightarrow>
            if find_club db club = Some c0
            then js_add (num_or0 (db_get db [''clubs'', c0, ''totalPoints'']))
                   (points_at pfp (first_placement t))
            else num_or0 (db_get db [''clubs'', c0, ''totalPoints''])
        | None \<Rightarrow> num_or0 (db_get db [''clubs'', c0, ''totalPoints'']))"
  by (simp add: processTeamResults_store updateClubTournamentStats_totals [OF assms]
        updateClubPoints_total member_results_club find_club_cong [OF member_results_names]
        split: option.splits)

lemma processTeamResults_club_season_total:
  assumes "tier \<notin> set field_names"
  shows "num_or0 (db_get (fst (processTeamResults db season t pfp tier awarded players))
                    [''clubs'', c0, ''seasons'', season, ''totalPoints''])
     = (case award_club t awarded of
          Some club \<Rightarrow>
            if find_club db club = Some c0
            then js_add (num_or0 (db_get db [''clubs'', c0, ''seasons'', season, ''totalPoints'']))
                   (points_at pfp (first_placement t))
            else num_or0 (db_get db [''clubs'', c0, ''seasons'', season, ''totalPoints''])
        | None \<Rightarrow> num_or0 (db_get db [''clubs'', c0, ''seasons'', season, ''totalPoints'']))"
  by (simp add: processTeamResults_store updateClubTournamentStats_totals [OF assms]
        updateClubPoints_season_total member_results_club find_club_cong [OF member_results_names]
        split: option.splits)

lemma processTeamResults_club_counter:
  assumes "tier \<notin> set field_names"
  shows "num_or0 (db_get (fst (processTeamResults db season t pfp tier awarded players))
                    [''clubs'', c0, tier, g])
     = (case award_club t awarded of
          Some club \<Rightarrow>
            if find_club db club = Some c0 \<and> tier \<noteq> ''Unknown''
               \<and> getStatFieldForPlacement (first_placement t) = Some g
            then js_add (num_or0 (db_get db [''clubs'', c0, tier, g])) 1
            else num_or0 (db_get db [''clubs'', c0, tier, g])
        | None \<Rightarrow> num_or0 (db_get db [''clubs'', c0, tier, g]))"
  using no_field [OF assms]
  by (simp add: processTeamResults_store updateClubTournamentStats_counter [OF assms]
        updateClubPoints_counters [OF assms] member_results_club
        find_club_cong [OF updateClubPoints_names] find_club_cong [OF member_results_names]
        split: option.splits)

lemma processTeamResults_club_season_counter:
  assumes "tier \<notin> set field_names"
  shows "num_or0 (db_get (fst (processTeamResults db season t pfp tier awarded players))
                    [''clubs'', c0, ''seasons'', season, tier, g])
     = (case award_club t awarded of
          Some club \<Rightarrow>
            if find_club db club = Some c0 \<and> tier \<noteq> ''Unknown''
               \<and> getStatFieldForPlacement (first_placement t) = Some g
            then js_add (num_or0 (db_get db [''clubs'', c0, ''seasons'', season, tier, g])) 1
            else num_or0 (db_get db [''clubs'', c0, ''seasons'', season, tier, g])
        | None \<Rightarrow> num_or0 (db_get db [''clubs'', c0, ''seasons'', season, tier, g]))"
  using no_field [OF assms]
  by (simp add: processTeamResults_store updateClubTournamentStats_season_counter [OF assms]
        updateClubPoints_counters [OF assms] member_results_club
        find_club_cong [OF updateClubPoints_names] find_club_cong [OF member_results_names]
        split: option.splits)

section \<open>All teams\<close>

lemma process_teams_step:
  "fst (process_teams season pfp tier players (e # es) (db, awarded, rs))
     = fst (process_teams season pfp tier players es
         (fst (processTeamResults db season (snd e) pfp tier awarded players),
          (case award_club (snd e) awarded of Some club \<Rightarrow> insert club awarded | None \<Rightarrow> awarded),
          rs @ [hd (award_log pfp awarded [snd e])]))"
  by (simp add: Let_def processTeamResults_awarded processTeamResults_result)

lemma process_teams_frame:
  assumes "\<And>d t A. rd (fst (processTeamResults d season t pfp tier A players)) = rd d"
  shows "rd (fst (process_teams season pfp tier players es (db, awarded, rs))) = rd db"
proof (induction es arbitrary: db awarded rs)
  case Nil
  then show ?case by simp
next
  case (Cons e es)
  show ?case unfolding process_teams_step by (simp add: Cons assms)
qed

lemma process_teams_read_fold:
  assumes "\<And>d t A. rd (fst (processTeamResults d season t pfp tier A players)) = h (rd d) t"
  shows "rd (fst (process_teams season pfp tier players es (db, awarded, rs)))
           = foldl (\<lambda>x e. h x (snd e)) (rd db) es"
proof (induction es arbitrary: db awarded rs)
  case Nil
  then show ?case by simp
next
  case (Cons e es)
  show ?case unfolding process_teams_step by (simp add: Cons assms)
qed

lemma award_club_empty:
  "award_club t awarded
     = (case award_club t {} of Some c \<Rightarrow> if c \<in> awarded then None else Some c | None \<Rightarrow> None)"
  by (simp add: award_club_def split: option.splits)

lemma process_teams_award_read:
  assumes step: "\<And>d t A. P d \<Longrightarrow>
      rd (fst (processTeamResults d season t pfp tier A players))
        = (if award_club t A = Some c then h (rd d) t else rd d)"
    and inv: "\<And>d t A. P d \<Longrightarrow> P (fst (processTeamResults d season t pfp tier A players))"
    and init: "P db"
  shows "rd (fst (process_teams season pfp tier players es (db, awarded, rs)))
           = (if c \<in> awarded then rd db
              else case find (\<lambda>e. award_club (snd e) {} = Some c) es of
                     None \<Rightarrow> rd db | Some e \<Rightarrow> h (rd db) (snd e))"
  using init
proof (induction es arbitrary: db awarded rs)
  case Nil
  then show ?case by simp
next
  case (Cons e es)
  let ?A = "case award_club (snd e) awarded of Some club \<Rightarrow> insert club awarded | None \<Rightarrow> awarded"
  let ?d = "fst (processTeamResults db season (snd e) pfp tier awarded players)"
  have P: "P ?d" using Cons.prems by (rule inv)
  have 1: "rd (fst (process_teams season pfp tier players (e # es) (db, awarded, rs)))
      = (if c \<in> ?A then rd ?d
         else case find (\<lambda>e. award_club (snd e) {} = Some c) es of
                None \<Rightarrow> rd ?d | Some e \<Rightarrow> h (rd ?d) (snd e))"
    unfolding process_teams_step by (rule Cons.IH [OF P])
  have 2: "rd ?d = (if award_club (snd e) awarded = Some c then h (rd db) (snd e) else rd db)"
    using Cons.prems by (rule step)
  show ?case
  proof (cases "award_club (snd e) {}")
    case None
    then have "award_club (snd e) awarded = None"
      by (subst award_club_empty) simp
    with None 1 2 show ?thesis by (simp split: option.splits)
  next
    case (Some c')
    then have a: "award_club (snd e) awarded = (if c' \<in> awarded then None else Some c')"
      by (subst award_club_empty) simp
    show ?thesis
    proof (cases "c' = c")
      case True
      with Some a 1 2 show ?thesis by (simp split: option.splits)
    next
      case False
      with Some a 1 2 show ?thesis by (auto split: option.splits)
    qed
  qed
qed

section \<open>Teams built from the rows\<close>

lemma set_obj_set: "set (obj_set k v kvs) \<subseteq> insert (k, v) (set kvs)"
  by (induction kvs) auto

lemma group_row_cases:
  assumes "group_row players teams r = Inr teams'"
  shows "teams' = teams
    \<or> (\<exists>party t pl pid.
          teams' = obj_set party (add_player players pid pl t) teams
          \<and> (map_of teams party = Some t \<or> t = new_team))"
  using assms
  by (fastforce simp add: group_row_def split: option.splits if_splits)

lemma add_player_consistent: "team_consistent t \<Longrightarrow> team_consistent (add_player players pid pl t)"
  by (auto simp add: team_consistent_def add_player_def Let_def unknown_player_def
        split: option.splits)

lemma group_row_consistent:
  assumes "group_row players teams r = Inr teams'"
    and "\<forall>e \<in> set teams. team_consistent (snd e)"
  shows "\<forall>e \<in> set teams'. team_consistent (snd e)"
proof -
  from group_row_cases [OF assms(1)] show ?thesis
  proof
    assume "teams' = teams"
    with assms(2) show ?thesis by simp
  next
    assume "\<exists>party t pl pid.
          teams' = obj_set party (add_player players pid pl t) teams
          \<and> (map_of teams party = Some t \<or> t = new_team)"
    then obtain party t pl pid where
      teams': "teams' = obj_set party (add_player players pid pl t) teams"
      and t: "map_of teams party = Some t \<or> t = new_team"
      by blast
    from t have "team_consistent t"
    proof
      assume "map_of teams party = Some t"
      then have "(party, t) \<in> set teams" by (rule map_of_SomeD)
      with assms(2) show ?thesis by force
    next
      assume "t = new_team"
      then show ?thesis by (simp add: team_consistent_def new_team_def)
    qed
    then have "team_consistent (add_player players pid pl t)"
      by (rule add_player_consistent)
    with assms(2) teams' set_obj_set [of party "add_player players pid pl t" teams]
    show ?thesis by auto
  qed
qed

lemma group_rows_consistent:
  "group_rows players teams rs = Inr teams' \<Longrightarrow>
   \<forall>e \<in> set teams. team_consistent (snd e) \<Longrightarrow>
   \<forall>e \<in> set teams'. team_consistent (snd e)"
proof (induction rs arbitrary: teams)
  case Nil
  then show ?case by simp
next
  case (Cons r rs)
  from Cons.prems(1) obtain teams1 where 1: "group_row players teams r = Inr teams1"
    and 2: "group_rows players teams1 rs = Inr teams'"
    by (auto split: sum.splits)
  from 1 Cons.prems(2) have "\<forall>e \<in> set teams1. team_consistent (snd e)"
    by (rule group_row_consistent)
  with 2 show ?case by (rule Cons.IH)
qed

lemma set_insert_stable: "set (insert_stable lt x xs) = insert x (set xs)"
  by (induction xs) auto

lemma set_array_sort: "set (array_sort lt xs) = set xs"
  unfolding array_sort_def by (induction xs) (simp_all add: set_insert_stable)

lemma set_Object_entries: "set (Object_entries obj) = set obj"
  by (auto simp add: Object_entries_def)

lemma set_foldl_obj_set:
  "set (foldl (\<lambda>acc p. obj_set (fst p) (snd p) acc) acc xs) \<subseteq> set acc \<union> set xs"
proof (induction xs arbitrary: acc)
  case Nil
  then show ?case by simp
next
  case (Cons x xs)
  have "set (obj_set (fst x) (snd x) acc) \<subseteq> insert x (set acc)"
    using set_obj_set [of "fst x" "snd x" acc] by simp
  with Cons [of "obj_set (fst x) (snd x) acc"] show ?case by auto
qed

lemma sorted_teams_subset:
  "set (Object_entries (sortTeamsByPlacement teams)) \<subseteq> set teams"
  using set_foldl_obj_set [of "[]" "array_sort (\<lambda>a b. comparator_negative (snd a) (snd b))
          (Object_entries teams)"]
  by (simp add: sortTeamsByPlacement_def set_Object_entries set_array_sort)

lemma processed_teams_consistent:
  assumes "groupPlayersByTeam tournamentData players = Inr teams"
    and "e \<in> set (Object_entries (sortTeamsByPlacement teams))"
  shows "team_consistent (snd e)"
proof -
  from assms(1) have "\<forall>e \<in> set teams. team_consistent (snd e)"
    unfolding groupPlayersByTeam_def by (rule group_rows_consistent) simp
  with assms(2) sorted_teams_subset show ?thesis by blast
qed

section \<open>Eligibility\<close>

lemma three_of_one:
  assumes "length xs = 3" and "length (remdups xs) = 1"
  shows "\<exists>c. xs = [c, c, c]"
proof -
  from assms(1) obtain a b c where xs: "xs = [a, b, c]"
    by (cases xs; cases "tl xs"; cases "tl (tl xs)") auto
  with assms(2) show ?thesis by (auto split: if_splits)
qed

lemma filter_all_length: "length (filter P xs) = length xs \<Longrightarrow> filter P xs = xs"
  by (metis filter_True length_filter_less less_irrefl not_less)

lemma eligible_iff:
  assumes "length (clubNames t) = length (playerIds t)"
  shows "allPlayersFromSameClub t \<longleftrightarrow>
     length (playerIds t) = 3 \<and> (\<exists>club. club \<noteq> ''No Club'' \<and> clubNames t = [club, club, club])"
proof
  assume a: "allPlayersFromSameClub t"
  then have l: "length (playerIds t) = 3"
    and r: "length (remdups (registered_clubNames t)) = 1"
    and f: "length (registered_clubNames t) = 3"
    by (simp_all add: allPlayersFromSameClub_def)
  from f l assms have "registered_clubNames t = clubNames t"
    unfolding registered_clubNames_def by (intro filter_all_length) simp
  with r f obtain c where c: "clubNames t = [c, c, c]" using three_of_one by metis
  moreover from c \<open>registered_clubNames t = clubNames t\<close> have "c \<noteq> ''No Club''"
    by (auto simp add: registered_clubNames_def split: if_splits)
  ultimately show "length (playerIds t) = 3
      \<and> (\<exists>club. club \<noteq> ''No Club'' \<and> clubNames t = [club, club, club])"
    using l by blast
next
  assume "length (playerIds t) = 3
      \<and> (\<exists>club. club \<noteq> ''No Club'' \<and> clubNames t = [club, club, club])"
  then show "allPlayersFromSameClub t"
    by (auto simp add: allPlayersFromSameClub_def registered_clubNames_def)
qed

lemma award_club_eligible: "award_club t awarded = Some club \<Longrightarrow> allPlayersFromSameClub t"
  by (simp add: award_club_def split: if_splits)

lemma award_club_of_three:
  "length (playerIds t) = 3 \<Longrightarrow> clubNames t = [club, club, club] \<Longrightarrow> club \<noteq> ''No Club'' \<Longrightarrow>
   award_club t awarded = (if club \<noteq> [] \<and> club \<notin> awarded then Some club else None)"
  by (simp add: award_club_def allPlayersFromSameClub_def registered_clubNames_def)

section \<open>The awards of a tournament\<close>

lemma award_log_clubs:
  "club \<in> set (awarded_clubs (award_log pfp awarded ts)) \<Longrightarrow> club \<notin> awarded"
proof (induction ts arbitrary: awarded)
  case Nil
  then show ?case by simp
next
  case (Cons t ts)
  show ?case
  proof (cases "award_club t awarded")
    case None
    with Cons show ?thesis by auto
  next
    case (Some c)
    then have "c \<notin> awarded" by (auto simp add: award_club_def split: if_splits option.splits)
    with Some Cons.prems Cons.IH [of "insert c awarded"] show ?thesis by auto
  qed
qed

lemma award_log_distinct: "distinct (awarded_clubs (award_log pfp awarded ts))"
proof (induction ts arbitrary: awarded)
  case Nil
  then show ?case by simp
next
  case (Cons t ts)
  show ?case
  proof (cases "award_club t awarded")
    case None
    with Cons show ?thesis by simp
  next
    case (Some c)
    have "c \<notin> set (awarded_clubs (award_log pfp (insert c awarded) ts))"
      using award_log_clubs [of c pfp "insert c awarded" ts] by auto
    with Some Cons [of "insert c awarded"] show ?thesis by auto
  qed
qed

section \<open>The award of a club over the teams\<close>

lemma club_found_iff:
  assumes "distinct (map fst (club_names db))" and "find_club db club = Some cid"
    and "club_names d = club_names db"
  shows "find_club d c' = Some cid \<longleftrightarrow> c' = club"
proof
  assume "find_club d c' = Some cid"
  then have "find_club db c' = Some cid" using assms(3) by (simp add: find_club_names)
  with assms(1,2) show "c' = club" using find_club_distinct by blast
next
  assume "c' = club"
  with assms(2,3) show "find_club d c' = Some cid" by (simp add: find_club_names)
qed

lemma process_teams_club_total:
  assumes "tier \<notin> set field_names" and "distinct (map fst (club_names db))"
    and "find_club db club = Some cid"
  shows "num_or0 (db_get (fst (process_teams season pfp tier players es (db, awarded, rs)))
                    [''clubs'', cid, ''totalPoints''])
     = (if club \<in> awarded then num_or0 (db_get db [''clubs'', cid, ''totalPoints''])
        else case find (\<lambda>e. award_club (snd e) {} = Some club) es of
               None \<Rightarrow> num_or0 (db_get db [''clubs'', cid, ''totalPoints''])
             | Some e \<Rightarrow> js_add (num_or0 (db_get db [''clubs'', cid, ''totalPoints'']))
                          (points_at pfp (first_placement (snd e))))"
proof (rule process_teams_award_read
    [where P = "\<lambda>d. club_names d = club_names db"
       and rd = "\<lambda>d. num_or0 (db_get d [''clubs'', cid, ''totalPoints''])"
       and h = "\<lambda>x t. js_add x (points_at pfp (first_placement t))"])
  fix d t A
  assume "club_names d = club_names db"
  then show "num_or0 (db_get (fst (processTeamResults d season t pfp tier A players))
                    [''clubs'', cid, ''totalPoints''])
      = (if award_club t A = Some club
         then js_add (num_or0 (db_get d [''clubs'', cid, ''totalPoints'']))
                (points_at pfp (first_placement t))
         else num_or0 (db_get d [''clubs'', cid, ''totalPoints'']))"
    using club_found_iff [OF assms(2,3)]
    by (simp add: processTeamResults_club_total [OF assms(1)] split: option.splits)
next
  fix d t A
  assume "club_names d = club_names db"
  then show "club_names (fst (processTeamResults d season t pfp tier A players)) = club_names db"
    by (simp add: processTeamResults_names [OF assms(1)])
qed simp

lemma process_teams_club_season_total:
  assumes "tier \<notin> set field_names" and "distinct (map fst (club_names db))"
    and "find_club db club = Some cid"
  shows "num_or0 (db_get (fst (process_teams season pfp tier players es (db, awarded, rs)))
                    [''clubs'', cid, ''seasons'', season, ''totalPoints''])
     = (if club \<in> awarded
        then num_or0 (db_get db [''clubs'', cid, ''seasons'', season, ''totalPoints''])
        else case find (\<lambda>e. award_club (snd e) {} = Some club) es of
               None \<Rightarrow> num_or0 (db_get db [''clubs'', cid, ''seasons'', season, ''totalPoints''])
             | Some e \<Rightarrow>
                 js_add (num_or0 (db_get db [''clubs'', cid, ''seasons'', season, ''totalPoints'']))
                   (points_at pfp (first_placement (snd e))))"
proof (rule process_teams_award_read
    [where P = "\<lambda>d. club_names d = club_names db"
       and rd = "\<lambda>d. num_or0 (db_get d [''clubs'', cid, ''seasons'', season, ''totalPoints''])"
       and h = "\<lambda>x t. js_add x (points_at pfp (first_placement t))"])
  fix d t A
  assume "club_names d = club_names db"
  then show "num_or0 (db_get (fst (processTeamResults d season t pfp tier A players))
                    [''clubs'', cid, ''seasons'', season, ''totalPoints''])
      = (if award_club t A = Some club
         then js_add (num_or0 (db_get d [''clubs'', cid, ''seasons'', season, ''totalPoints'']))
                (points_at pfp (first_placement t))
         else num_or0 (db_get d [''clubs'', cid, ''seasons'', season, ''totalPoints'']))"
    using club_found_iff [OF assms(2,3)]
    by (simp add: processTeamResults_club_season_total [OF assms(1)] split: option.splits)
next
  fix d t A
  assume "club_names d = club_names db"
  then show "club_names (fst (processTeamResults d season t pfp tier A players)) = club_names db"
    by (simp add: processTeamResults_names [OF assms(1)])
qed simp

lemma process_teams_club_counter:
  assumes "tier \<notin> set field_names" and "distinct (map fst (club_names db))"
    and "find_club db club = Some cid"
  shows "num_or0 (db_get (fst (process_teams season pfp tier players es (db, awarded, rs)))
                    [''clubs'', cid, tier, g])
     = (if club \<in> awarded then num_or0 (db_get db [''clubs'', cid, tier, g])
        else case find (\<lambda>e. award_club (snd e) {} = Some club) es of
               None \<Rightarrow> num_or0 (db_get db [''clubs'', cid, tier, g])
             | Some e \<Rightarrow> if tier \<noteq> ''Unknown''
                            \<and> getStatFieldForPlacement (first_placement (snd e)) = Some g
                         then js_add (num_or0 (db_get db [''clubs'', cid, tier, g])) 1
                         else num_or0 (db_get db [''clubs'', cid, tier, g]))"
proof (rule process_teams_award_read
    [where P = "\<lambda>d. club_names d = club_names db"
       and rd = "\<lambda>d. num_or0 (db_get d [''clubs'', cid, tier, g])"
       and h = "\<lambda>x t. if tier \<noteq> ''Unknown''
                          \<and> getStatFieldForPlacement (first_placement t) = Some g
                       then js_add x 1 else x"])
  fix d t A
  assume "club_names d = club_names db"
  then show "num_or0 (db_get (fst (processTeamResults d season t pfp tier A players))
                    [''clubs'', cid, tier, g])
      = (if award_club t A = Some club
         then (if tier \<noteq> ''Unknown''
                  \<and> getStatFieldForPlacement (first_placement t) = Some g
               then js_add (num_or0 (db_get d [''clubs'', cid, tier, g])) 1
               else num_or0 (db_get d [''clubs'', cid, tier, g]))
         else num_or0 (db_get d [''clubs'', cid, tier, g]))"
    using club_found_iff [OF assms(2,3)]
    by (simp add: processTeamResults_club_counter [OF assms(1)] split: option.splits)
next
  fix d t A
  assume "club_names d = club_names db"
  then show "club_names (fst (processTeamResults d season t pfp tier A players)) = club_names db"
    by (simp add: processTeamResults_names [OF assms(1)])
qed simp

lemma process_teams_club_season_counter:
  assumes "tier \<notin> set field_names" and "distinct (map fst (club_names db))"
    and "find_club db club = Some cid"
  shows "num_or0 (db_get (fst (process_teams season pfp tier players es (db, awarded, rs)))
                    [''clubs'', cid, ''seasons'', season, tier, g])
     = (if club \<in> awarded then num_or0 (db_get db [''clubs'', cid, ''seasons'', season, tier, g])
        else case find (\<lambda>e. award_club (snd e) {} = Some club) es of
               None \<Rightarrow> num_or0 (db_get db [''clubs'', cid, ''seasons'', season, tier, g])
             | Some e \<Rightarrow> if tier \<noteq> ''Unknown''
                            \<and> getStatFieldForPlacement (first_placement (snd e)) = Some g
                         then js_add (num_or0 (db_get db [''clubs'', cid, ''seasons'', season, tier, g])) 1
                         else num_or0 (db_get db [''clubs'', cid, ''seasons'', season, tier, g]))"
proof (rule process_teams_award_read
    [where P = "\<lambda>d. club_names d = club_names db"
       and rd = "\<lambda>d. num_or0 (db_get d [''clubs'', cid, ''seasons'', season, tier, g])"
       and h = "\<lambda>x t. if tier \<noteq> ''Unknown''
                          \<and> getStatFieldForPlacement (first_placement t) = Some g
                       then js_add x 1 else x"])
  fix d t A
  assume "club_names d = club_names db"
  then show "num_or0 (db_get (fst (processTeamResults d season t pfp tier A players))
                    [''clubs'', cid, ''seasons'', season, tier, g])
      = (if award_club t A = Some club
         then (if tier \<noteq> ''Unknown''
                  \<and> getStatFieldForPlacement (first_placement t) = Some g
               then js_add (num_or0 (db_get d [''clubs'', cid, ''seasons'', season, tier, g])) 1
               else num_or0 (db_get d [''clubs'', cid, ''seasons'', season, tier, g]))
         else num_or0 (db_get d [''clubs'', cid, ''seasons'', season, tier, g]))"
    using club_found_iff [OF assms(2,3)]
    by (simp add: processTeamResults_club_season_counter [OF assms(1)] split: option.splits)
next
  fix d t A
  assume "club_names d = club_names db"
  then show "club_names (fst (processTeamResults d season t pfp tier A players)) = club_names db"
    by (simp add: processTeamResults_names [OF assms(1)])
qed simp

lemma processTournamentResults_store:
  "fetchClubsAndPlayers db = Inr players \<Longrightarrow>
   groupPlayersByTeam tournamentData players = Inr teams \<Longrightarrow>
   processTournamentResults db season tournamentData tier
     = Inr (fst (process_teams season (getPointsMapping tier) tier players
                   (Object_entries (sortTeamsByPlacement teams)) (db, {}, [])),
            award_log (getPointsMapping tier) {}
              (map snd (Object_entries (sortTeamsByPlacement teams))))"
  by (simp add: processTournamentResults_def Let_def process_teams_results)

section \<open>The example rosters and parties\<close>

lemma two_club_a_teams_grouped:
  "groupPlayersByTeam two_club_a_teams club_a_cache
     = Inr [(''x'', club_a_team 1), (''y'', club_a_team 2)]"
  by (simp add: two_club_a_teams_def club_a_team_def club_a_cache_def team_defs string_defs
        object_defs participant_def)

lemma two_club_a_teams_sorted:
  "Object_entries (sortTeamsByPlacement [(''x'', club_a_team 1), (''y'', club_a_team 2)])
     = [(''x'', club_a_team 1), (''y'', club_a_team 2)]"
  by (simp add: club_a_team_def team_defs object_defs)

lemma club_a_roster_clubs:
  "club_names club_a_roster = [(''c1'', Some (JStr ''Club A''))]"
  by (simp add: club_names_def entries_def club_a_roster_def)

lemma club_a_team_award:
  "award_club (club_a_team place) awarded = (if ''Club A'' \<in> awarded then None else Some ''Club A'')"
  by (simp add: award_club_def allPlayersFromSameClub_def registered_clubNames_def club_a_team_def)

section \<open>The markers of the processed tournaments\<close>

lemma process_teams_root:
  "k \<noteq> ''players'' \<Longrightarrow> k \<noteq> ''clubs'' \<Longrightarrow> k \<noteq> ''clubs_summary'' \<Longrightarrow>
   db_get (fst (process_teams season pfp tier players es (db, awarded, rs))) (k # ks)
     = db_get db (k # ks)"
  by (rule process_teams_frame [where rd = "\<lambda>d. db_get d (k # ks)"])
     (simp add: processTeamResults_root)

lemma processTournamentResults_cases:
  obtains e where "processTournamentResults db season tournamentData tier = Inl e"
  | players teams where "fetchClubsAndPlayers db = Inr players"
      "groupPlayersByTeam tournamentData players = Inr teams"
      "processTournamentResults db season tournamentData tier
         = Inr (fst (process_teams season (getPointsMapping tier) tier players
                   (Object_entries (sortTeamsByPlacement teams)) (db, {}, [])),
                award_log (getPointsMapping tier) {}
                  (map snd (Object_entries (sortTeamsByPlacement teams))))"
proof (cases "fetchClubsAndPlayers db")
  case (Inl e)
  then have "processTournamentResults db season tournamentData tier = Inl e"
    by (simp add: processTournamentResults_def)
  then show ?thesis by (rule that(1))
next
  case players: (Inr players)
  show ?thesis
  proof (cases "groupPlayersByTeam tournamentData players")
    case (Inl e)
    with players have "processTournamentResults db season tournamentData tier = Inl e"
      by (simp add: processTournamentResults_def)
    then show ?thesis by (rule that(1))
  next
    case (Inr teams)
    with players show ?thesis
      using processTournamentResults_store [OF players Inr] by (intro that(2))
  qed
qed

lemma processTournamentResults_root:
  assumes "processTournamentResults db season tournamentData tier = Inr r"
    and "k \<noteq> ''players''" "k \<noteq> ''clubs''" "k \<noteq> ''clubs_summary''"
  shows "db_get (fst r) (k # ks) = db_get db (k # ks)"
  using assms
  by (cases rule: processTournamentResults_cases [of db season tournamentData tier])
     (auto simp add: process_teams_root)

lemma fetchAndProcessTournamentData_root:
  assumes "fetchAndProcessTournamentData users db season tid tier = Inr db1"
    and "k \<noteq> ''players''" "k \<noteq> ''clubs''" "k \<noteq> ''clubs_summary''"
  shows "db_get db1 (k # ks) = db_get db (k # ks)"
proof -
  from assms(1) obtain rows r where
    "processTournamentResults db season rows tier = Inr r" "db1 = fst r"
    by (auto simp add: fetchAndProcessTournamentData_def
          split: if_splits option.splits sum.splits)
  with assms(2-4) show ?thesis by (simp add: processTournamentResults_root)
qed

lemma marked_after_mark:
  "isTournamentAlreadyProcessed (markTournamentAsProcessed db fetchedAt tid) tid'
     \<longleftrightarrow> tid' = tid \<or> isTournamentAlreadyProcessed db tid'"
  by (cases "tid' = tid")
     (simp_all add: isTournamentAlreadyProcessed_def markTournamentAsProcessed_def
        db_get_set_same db_get_set_diverge)

lemma marked_after_data:
  "fetchAndProcessTournamentData users db season tid tier = Inr db1 \<Longrightarrow>
   isTournamentAlreadyProcessed db1 tid' \<longleftrightarrow> isTournamentAlreadyProcessed db tid'"
  by (simp add: isTournamentAlreadyProcessed_def fetchAndProcessTournamentData_root)

lemma markers_persist:
  "isTournamentAlreadyProcessed db tid \<Longrightarrow>
   isTournamentAlreadyProcessed (snd (process_tournaments users clock season ts db)) tid"
proof (induction ts arbitrary: db)
  case Nil
  then show ?case by simp
next
  case (Cons t ts)
  then show ?case
    by (auto simp add: Let_def marked_after_mark marked_after_data split: sum.splits)
qed

lemma completed_run_marks:
  "fst (process_tournaments users clock season ts db) = None \<Longrightarrow> t \<in> set ts \<Longrightarrow>
   isTournamentAlreadyProcessed (snd (process_tournaments users clock season ts db)) (tournamentId t)"
proof (induction ts arbitrary: db)
  case Nil
  then show ?case by simp
next
  case (Cons a ts)
  show ?case
  proof (cases "isTournamentAlreadyProcessed db (tournamentId a)")
    case True
    with Cons show ?thesis by (auto simp add: Let_def markers_persist)
  next
    case False
    with Cons.prems obtain db1 where
      d: "fetchAndProcessTournamentData users db season (tournamentId a)
            (getTierFromName (tournamentName a)) = Inr db1"
      by (auto simp add: Let_def split: sum.splits)
    let ?m = "markTournamentAsProcessed db1 (clock (tournamentId a)) (tournamentId a)"
    from False d have p: "process_tournaments users clock season (a # ts) db
        = process_tournaments users clock season ts ?m"
      by (simp add: Let_def)
    show ?thesis
    proof (cases "t = a")
      case True
      have "isTournamentAlreadyProcessed ?m (tournamentId a)" by (simp add: marked_after_mark)
      then show ?thesis unfolding p True by (rule markers_persist)
    next
      case False
      with Cons.prems have "t \<in> set ts" by simp
      moreover from Cons.prems(1) have "fst (process_tournaments users clock season ts ?m) = None"
        unfolding p .
      ultimately show ?thesis unfolding p by (rule Cons.IH [rotated])
    qed
  qed
qed

lemma marked_run_skips:
  "\<forall>t \<in> set ts. isTournamentAlreadyProcessed db (tournamentId t) \<Longrightarrow>
   process_tournaments users clock season ts db = (None, db)"
  by (induction ts) (simp_all add: Let_def)

lemma same_tournament_twice:
  "tournamentId t' = tournamentId t \<Longrightarrow>
   process_tournaments users clock season [t, t'] db = process_tournaments users clock season [t] db"
  by (simp add: Let_def marked_after_mark split: sum.splits)

text \<open>
  C1: processing is idempotent per tournament identifier. A tournament whose marker exists
  is skipped before anything is written, so the run continues as if the tournament were
  not in the list; two tournaments of one identifier in one list leave the store that the
  first of them alone leaves; and a second run over the tournaments of a completed run,
  whatever the feed, the clock and the season then are, writes nothing at all. The lookup
  of the marker is taken to succeed, as every read of the store is.
\<close>

theorem processed_tournament_skipped:
  "(isTournamentAlreadyProcessed db (tournamentId t) \<longrightarrow>
      process_tournaments users clock season (t # ts) db
        = process_tournaments users clock season ts db)
   \<and> (tournamentId t' = tournamentId t \<longrightarrow>
        process_tournaments users clock season [t, t'] db
          = process_tournaments users clock season [t] db)
   \<and> (fetchAndProcessTournaments (Response True (Some ts)) users clock season db = (None, db')
        \<longrightarrow> fetchAndProcessTournaments (Response True (Some ts)) users' clock' season' db'
              = (None, db'))"
proof -
  have "fetchAndProcessTournaments (Response True (Some ts)) users' clock' season' db' = (None, db')"
    if r: "fetchAndProcessTournaments (Response True (Some ts)) users clock season db = (None, db')"
  proof -
    from r have p: "process_tournaments users clock season ts db = (None, db')"
      by (simp add: fetchAndProcessTournaments_def)
    then have "\<forall>t \<in> set ts. isTournamentAlreadyProcessed db' (tournamentId t)"
      using completed_run_marks [of users clock season ts db] by simp
    then show ?thesis
      by (simp add: fetchAndProcessTournaments_def marked_run_skips)
  qed
  moreover have "process_tournaments users clock season (t # ts) db
      = process_tournaments users clock season ts db"
    if "isTournamentAlreadyProcessed db (tournamentId t)"
    using that by (simp add: Let_def)
  ultimately show ?thesis using same_tournament_twice [of t' t users clock season db] by blast
qed

lemma single_tournament_completes:
  assumes "users (tournamentId t) = Response True (Some rows)"
    and "fetchClubsAndPlayers db = Inr players"
    and "groupPlayersByTeam rows players = Inr teams"
  shows "fst (process_tournaments users clock season [t] db) = None"
  using assms(1) processTournamentResults_store [OF assms(2,3)]
  by (simp add: Let_def fetchAndProcessTournamentData_def)

theorem processed_tournament_skipped_witness:
  "(\<exists>db1. fetchAndProcessTournaments (Response True (Some [diamond_cup])) club_a_feed
            (\<lambda>tid. ''2024-05-01'') ''1'' club_a_roster = (None, db1)
        \<and> fetchAndProcessTournaments (Response True (Some [diamond_cup])) club_a_feed
            (\<lambda>tid. ''2024-05-02'') ''2'' db1 = (None, db1))
   \<and> process_tournaments club_a_feed (\<lambda>tid. ''2024-05-01'') ''1''
         [diamond_cup, diamond_cup\<lparr>tournamentName := None\<rparr>] club_a_roster
       = process_tournaments club_a_feed (\<lambda>tid. ''2024-05-01'') ''1'' [diamond_cup] club_a_roster
   \<and> isTournamentAlreadyProcessed
         (markTournamentAsProcessed club_a_roster ''2024-05-01'' ''t1'') (tournamentId diamond_cup)
   \<and> process_tournaments club_a_feed (\<lambda>tid. ''2024-05-02'') ''1'' [diamond_cup]
         (markTournamentAsProcessed club_a_roster ''2024-05-01'' ''t1'')
       = (None, markTournamentAsProcessed club_a_roster ''2024-05-01'' ''t1'')"
proof -
  let ?run = "fetchAndProcessTournaments (Response True (Some [diamond_cup])) club_a_feed
     (\<lambda>tid. ''2024-05-01'') ''1'' club_a_roster"
  let ?m = "markTournamentAsProcessed club_a_roster ''2024-05-01'' ''t1''"
  have "club_a_feed (tournamentId diamond_cup) = Response True (Some two_club_a_teams)"
    by (simp add: club_a_feed_def)
  then have "fst (process_tournaments club_a_feed (\<lambda>tid. ''2024-05-01'') ''1'' [diamond_cup]
      club_a_roster) = None"
    using club_a_roster_cache two_club_a_teams_grouped by (rule single_tournament_completes)
  then have "fst ?run = None"
    by (simp add: fetchAndProcessTournaments_def del: process_tournaments.simps)
  then have r: "?run = (None, snd ?run)" by (simp add: prod_eq_iff)
  have m: "isTournamentAlreadyProcessed ?m (tournamentId diamond_cup)"
    by (simp add: diamond_cup_def isTournamentAlreadyProcessed_def markTournamentAsProcessed_def
          db_get_set_same)
  note processed_tournament_skipped [where db = ?m and t = diamond_cup and ts = "[]"
      and users = club_a_feed and clock = "\<lambda>tid. ''2024-05-02''" and season = "''1''"]
    processed_tournament_skipped [where db = club_a_roster and ts = "[diamond_cup]"
      and t = diamond_cup and t' = "diamond_cup\<lparr>tournamentName := None\<rparr>"
      and users = club_a_feed and clock = "\<lambda>tid. ''2024-05-01''" and season = "''1''"
      and db' = "snd ?run" and users' = club_a_feed and clock' = "\<lambda>tid. ''2024-05-02''"
      and season' = "''2''"]
  with r m
  show ?thesis by auto
qed

section \<open>One award for a club\<close>

text \<open>
  Within one tournament a club receives at most one team-level award. The clubs of the
  awards among the results are distinct, and the totals and the placement counters of a
  club change by the award of the first team, in the order of processing, that qualifies
  for the club, and by nothing else: every later qualifying team of the club is skipped.
  The order of processing is the order in which the object of the sorted teams enumerates
  its keys.
\<close>

lemma club_awarded_once:
  fixes nm :: "string option"
  assumes "distinct (map fst (club_names db))"
    and "find_club db club = Some cid"
    and "fetchClubsAndPlayers db = Inr players"
    and "groupPlayersByTeam tournamentData players = Inr teams"
  defines "tier \<equiv> getTierFromName nm"
  defines "pfp \<equiv> getPointsMapping tier"
  defines "first \<equiv> first_award_team club (Object_entries (sortTeamsByPlacement teams))"
  shows "\<exists>db' rs.
      processTournamentResults db season tournamentData tier = Inr (db', rs)
      \<and> rs = award_log pfp {} (map snd (Object_entries (sortTeamsByPlacement teams)))
      \<and> distinct (awarded_clubs rs)
      \<and> num_or0 (db_get db' [''clubs'', cid, ''totalPoints''])
          = (case first of
               None \<Rightarrow> num_or0 (db_get db [''clubs'', cid, ''totalPoints''])
             | Some e \<Rightarrow> js_add (num_or0 (db_get db [''clubs'', cid, ''totalPoints'']))
                          (points_at pfp (first_placement (snd e))))
      \<and> num_or0 (db_get db' [''clubs'', cid, ''seasons'', season, ''totalPoints''])
          = (case first of
               None \<Rightarrow> num_or0 (db_get db [''clubs'', cid, ''seasons'', season, ''totalPoints''])
             | Some e \<Rightarrow>
                 js_add (num_or0 (db_get db [''clubs'', cid, ''seasons'', season, ''totalPoints'']))
                   (points_at pfp (first_placement (snd e))))
      \<and> (\<forall>g. num_or0 (db_get db' [''clubs'', cid, tier, g])
               = (case first of
                    None \<Rightarrow> num_or0 (db_get db [''clubs'', cid, tier, g])
                  | Some e \<Rightarrow> if tier \<noteq> ''Unknown''
                                 \<and> getStatFieldForPlacement (first_placement (snd e)) = Some g
                              then js_add (num_or0 (db_get db [''clubs'', cid, tier, g])) 1
                              else num_or0 (db_get db [''clubs'', cid, tier, g])))"
proof -
  have tier: "tier \<notin> set field_names" unfolding tier_def by (rule getTierFromName_no_field)
  show ?thesis
    unfolding processTournamentResults_store [OF assms(3,4)] first_def first_award_team_def pfp_def
    using process_teams_club_total [OF tier assms(1,2), of season "getPointsMapping tier" _ _ "{}" "[]"]
      process_teams_club_season_total [OF tier assms(1,2), of season "getPointsMapping tier" _ _ "{}" "[]"]
      process_teams_club_counter [OF tier assms(1,2), of season "getPointsMapping tier" _ _ "{}" "[]"]
    by (simp add: award_log_distinct)
qed

lemma small_doubles:
  "js_add 0 18 = 18" "js_add 0 36 = 36" "js_add 0 1 = 1" "js_add 0 0 = 0"
  by code_simp+

lemma numbered_parties_grouped:
  "groupPlayersByTeam numbered_club_a_parties club_a_cache
     = Inr [(''2'', club_a_team 1), (''1'', club_a_team 2)]"
  by (simp add: numbered_club_a_parties_def club_a_team_def club_a_cache_def team_defs string_defs
        object_defs participant_def)

lemma numbered_parties_sorted:
  "Object_entries (sortTeamsByPlacement [(''2'', club_a_team 1), (''1'', club_a_team 2)])
     = [(''1'', club_a_team 2), (''2'', club_a_team 1)]"
  by (simp add: club_a_team_def team_defs object_defs)

text \<open>
  C7 fails on the code where the claim names the team that keeps the award. The loop of
  \<open>processTournamentResults\<close> runs over \<open>Object.entries(sortedTeams)\<close>, and the object lists
  its array-index keys in ascending order, not in the order of the sort. Club A sends the
  parties \<open>2\<close> (placed first) and \<open>1\<close> (placed second) to a diamond tournament: party \<open>1\<close>
  is processed first, so Club A is credited the 18 points and the counter of the second
  place, and the team that placed first is answered that the club is already awarded.
\<close>

theorem club_award_skips_best_placed:
  "map_sum id (map (\<lambda>e. (fst e, bestPlacement (snd e))))
       (groupPlayersByTeam numbered_club_a_parties (projr (fetchClubsAndPlayers club_a_roster)))
     = Inr [(''2'', Some 1), (''1'', Some 2)]
   \<and> (\<exists>db' rs.
        processTournamentResults club_a_roster ''1'' numbered_club_a_parties
          (getTierFromName (Some ''Diamond Cup'')) = Inr (db', rs)
        \<and> rs = [Awarded ''Club A'' 18 (Some 2), NotAwarded ''Club already awarded'']
        \<and> num_or0 (db_get db' [''clubs'', ''c1'', ''totalPoints'']) = 18
        \<and> num_or0 (db_get db' [''clubs'', ''c1'', ''diamond'', ''first'']) = 0
        \<and> num_or0 (db_get db' [''clubs'', ''c1'', ''diamond'', ''second'']) = 1)"
proof -
  have d: "distinct (map fst (club_names club_a_roster))"
    by (simp add: club_a_roster_clubs)
  have f: "find_club club_a_roster ''Club A'' = Some ''c1''"
    by (simp add: find_club_names club_a_roster_clubs)
  have t: "getTierFromName (Some ''Diamond Cup'') = ''diamond''"
    by (simp add: getTierFromName_def string_defs)
  have z: "num_or0 (db_get club_a_roster (''clubs'' # ''c1'' # ''totalPoints'' # r)) = 0"
    "num_or0 (db_get club_a_roster (''clubs'' # ''c1'' # ''diamond'' # r)) = 0" for r
    by (simp_all add: club_a_roster_def num_or0_def)
  have p: "first_placement (club_a_team place) = Some place" for place
    by (simp add: first_placement_def club_a_team_def)
  have l: "length (playerIds (club_a_team place)) = 3" "allPlayersFromSameClub (club_a_team place)"
    for place
    by (simp_all add: allPlayersFromSameClub_def registered_clubNames_def club_a_team_def)
  have b: "bestPlacement (club_a_team 1) = Some 1" "bestPlacement (club_a_team 2) = Some 2"
    by (simp_all add: bestPlacement_def club_a_team_def)
  from club_awarded_once [OF d f club_a_roster_cache numbered_parties_grouped,
      where nm = "Some ''Diamond Cup''" and season = "''1''"]
  obtain db' rs where
    "processTournamentResults club_a_roster ''1'' numbered_club_a_parties ''diamond'' = Inr (db', rs)"
    "rs = [Awarded ''Club A'' 18 (Some 2), NotAwarded ''Club already awarded'']"
    "num_or0 (db_get db' [''clubs'', ''c1'', ''totalPoints'']) = 18"
    "num_or0 (db_get db' [''clubs'', ''c1'', ''diamond'', ''first'']) = 0"
    "num_or0 (db_get db' [''clubs'', ''c1'', ''diamond'', ''second'']) = 1"
    unfolding numbered_parties_sorted t
    by (auto simp add: first_award_team_def club_a_team_award p l z getPointsMapping_known
          points_at_def getStatFieldForPlacement_def small_doubles)
  then show ?thesis unfolding t
    by (simp add: club_a_roster_cache numbered_parties_grouped b)
qed

section \<open>Club names in the roster cache and in the teams\<close>

lemma forEach_invariant:
  assumes "forEach f s xs = Inr s'" and "I s"
    and "\<And>s x s'. I s \<Longrightarrow> f s x = Inr s' \<Longrightarrow> I s'"
  shows "I s'"
  using assms(1,2)
proof (induction xs arbitrary: s)
  case Nil
  then show ?case by simp
next
  case (Cons x xs)
  from Cons.prems(1) obtain s1 where 1: "f s x = Inr s1" and 2: "forEach f s1 xs = Inr s'"
    by (auto split: sum.splits)
  from Cons.prems(2) 1 have "I s1" by (rule assms(3))
  with 2 show ?case by (rule Cons.IH)
qed

lemma cache_player_named:
  assumes "\<forall>x \<in> set cache. clubName (snd x) \<noteq> []" and "club_name \<noteq> []"
    and "cache_player club_id club_name cache e = Inr cache'"
  shows "\<forall>x \<in> set cache'. clubName (snd x) \<noteq> []"
proof -
  from assms(3) have "cache' = cache
      \<or> (\<exists>k i. cache' = obj_set k i cache \<and> clubName i = club_name)"
    by (fastforce simp add: cache_player_def split: option.splits if_splits json.splits)
  then show ?thesis
  proof
    assume "cache' = cache"
    with assms(1) show ?thesis by simp
  next
    assume "\<exists>k i. cache' = obj_set k i cache \<and> clubName i = club_name"
    then obtain k i where "cache' = obj_set k i cache" "clubName i = club_name" by blast
    with assms(1,2) set_obj_set [of k i cache] show ?thesis by auto
  qed
qed

lemma cache_club_named:
  assumes "\<forall>x \<in> set cache. clubName (snd x) \<noteq> []" and "cache_club cache e = Inr cache'"
  shows "\<forall>x \<in> set cache'. clubName (snd x) \<noteq> []"
proof (cases "get_string (snd e) ''name''")
  case None
  with assms show ?thesis by (simp add: cache_club_def)
next
  case (Some club_name)
  then have n: "club_name \<noteq> []"
    by (auto simp add: get_string_def split: option.splits json.splits if_splits)
  show ?thesis
  proof (cases "db_get (snd e) [''players'']")
    case None
    with Some assms show ?thesis by (simp add: cache_club_def)
  next
    case ps: (Some playersInClub)
    with Some assms(2)
    have "forEach (cache_player (fst e) club_name) cache (entries (Some playersInClub)) = Inr cache'"
      by (simp add: cache_club_def)
    then show ?thesis using assms(1)
      by (rule forEach_invariant) (rule cache_player_named [OF _ n])
  qed
qed

lemma fetchClubsAndPlayers_named:
  assumes "fetchClubsAndPlayers db = Inr players"
  shows "\<forall>x \<in> set players. clubName (snd x) \<noteq> []"
  using assms unfolding fetchClubsAndPlayers_def
  by (rule forEach_invariant) (simp, rule cache_club_named)

lemma add_player_named:
  assumes "\<forall>x \<in> set players. clubName (snd x) \<noteq> []" and "[] \<notin> set (clubNames t)"
  shows "[] \<notin> set (clubNames (add_player players pid pl t))"
proof (cases "map_of players pid")
  case None
  with assms(2) show ?thesis by (simp add: add_player_def unknown_player_def)
next
  case (Some i)
  then have "(pid, i) \<in> set players" by (rule map_of_SomeD)
  with assms(1) have "clubName i \<noteq> []" by force
  with Some assms(2) show ?thesis by (auto simp add: add_player_def)
qed

lemma group_rows_named:
  assumes "\<forall>x \<in> set players. clubName (snd x) \<noteq> []"
  shows "group_rows players teams rs = Inr teams' \<Longrightarrow>
    \<forall>e \<in> set teams. [] \<notin> set (clubNames (snd e)) \<Longrightarrow>
    \<forall>e \<in> set teams'. [] \<notin> set (clubNames (snd e))"
proof (induction rs arbitrary: teams)
  case Nil
  then show ?case by simp
next
  case (Cons r rs)
  from Cons.prems(1) obtain teams1 where 1: "group_row players teams r = Inr teams1"
    and 2: "group_rows players teams1 rs = Inr teams'"
    by (auto split: sum.splits)
  have "\<forall>e \<in> set teams1. [] \<notin> set (clubNames (snd e))"
    using group_row_cases [OF 1]
  proof
    assume "teams1 = teams"
    with Cons.prems(2) show ?thesis by simp
  next
    assume "\<exists>party t pl pid.
          teams1 = obj_set party (add_player players pid pl t) teams
          \<and> (map_of teams party = Some t \<or> t = new_team)"
    then obtain party t pl pid where
      t1: "teams1 = obj_set party (add_player players pid pl t) teams"
      and t: "map_of teams party = Some t \<or> t = new_team"
      by blast
    from t have "[] \<notin> set (clubNames t)"
    proof
      assume "map_of teams party = Some t"
      then have "(party, t) \<in> set teams" by (rule map_of_SomeD)
      with Cons.prems(2) show ?thesis by force
    next
      assume "t = new_team"
      then show ?thesis by (simp add: new_team_def)
    qed
    with assms have "[] \<notin> set (clubNames (add_player players pid pl t))"
      by (rule add_player_named)
    with Cons.prems(2) t1 set_obj_set [of party "add_player players pid pl t" teams]
    show ?thesis by auto
  qed
  with 2 show ?case by (rule Cons.IH)
qed

lemma processed_teams_named:
  assumes "fetchClubsAndPlayers db = Inr players"
    and "groupPlayersByTeam tournamentData players = Inr teams"
    and "e \<in> set (Object_entries (sortTeamsByPlacement teams))"
  shows "[] \<notin> set (clubNames (snd e))"
proof -
  have "\<forall>e \<in> set teams. [] \<notin> set (clubNames (snd e))"
    using fetchClubsAndPlayers_named [OF assms(1)] assms(2) unfolding groupPlayersByTeam_def
    by (rule group_rows_named) simp
  with assms(3) sorted_teams_subset show ?thesis by blast
qed

section \<open>Eligibility for the club award\<close>

text \<open>
  C6, as the specification states it, fails in its last part: in a tournament of the tier
  \<open>Unknown\<close> no individual result is written. \<open>updateIndividualPlayerResult\<close> returns at
  once for that tier, so after the eligible team of Club A is processed, and awarded, the
  collection of the players is as empty as it was.
\<close>

theorem unknown_tier_writes_no_individual_result:
  "getTierFromName (Some ''Friendly Match'') = ''Unknown''
   \<and> playerIds (club_a_team 1) = [''A1'', ''A2'', ''A3'']
   \<and> snd (snd (processTeamResults club_a_roster ''1'' (club_a_team 1)
                   (getPointsMapping ''Unknown'') ''Unknown'' {} club_a_cache))
       = Awarded ''Club A'' 0 (Some 1)
   \<and> db_get (fst (processTeamResults club_a_roster ''1'' (club_a_team 1)
                     (getPointsMapping ''Unknown'') ''Unknown'' {} club_a_cache)) [''players'']
       = None"
proof -
  have "getTierFromName (Some ''Friendly Match'') = ''Unknown''"
    by (simp add: getTierFromName_def string_defs)
  moreover have "playerIds (club_a_team 1) = [''A1'', ''A2'', ''A3'']"
    by (simp add: club_a_team_def)
  moreover have "snd (snd (processTeamResults club_a_roster ''1'' (club_a_team 1)
                   (getPointsMapping ''Unknown'') ''Unknown'' {} club_a_cache))
       = Awarded ''Club A'' 0 (Some 1)"
    by (simp add: processTeamResults_result club_a_team_award getPointsMapping_known points_at_def)
       (simp add: first_placement_def club_a_team_def)
  moreover have "db_get (fst (processTeamResults club_a_roster ''1'' (club_a_team 1)
                     (getPointsMapping ''Unknown'') ''Unknown'' {} club_a_cache)) [''players'']
       = None"
    by (simp add: processTeamResults_players individual_results_unknown) (simp add: club_a_roster_def)
  ultimately show ?thesis by blast
qed

text \<open>
  C6, amended: a team is eligible for the club award exactly when it has three members
  whose club names are one and the same name other than \<open>No Club\<close>; so a team of another
  size, a team of several clubs and a team with an unregistered member are not eligible,
  receive no award and leave the set of awarded clubs alone, and an eligible team is
  awarded unless its club already is, the points going to the totals of the club. In a
  tournament whose tier is not \<open>Unknown\<close> an individual result is written for every
  member of every team, whatever this outcome: the collection of the players is the one
  that the loop over the members leaves, the node of every member holds the member's
  total and season total, one addition per entry of the member, and the counters grow by
  one per entry. In a tournament of the tier \<open>Unknown\<close> the collection of the players is
  left as it was.
\<close>

theorem club_eligibility:
  fixes nm :: "string option" and db db0 :: json and season :: string and pfp :: points_value
    and awarded :: "string set"
  assumes "fetchClubsAndPlayers db0 = Inr players"
    and "groupPlayersByTeam tournamentData players = Inr teams"
    and "e \<in> set (Object_entries (sortTeamsByPlacement teams))"
  defines "t \<equiv> snd e"
  defines "ms \<equiv> members (playerIds t) (placements t)"
  defines "tier \<equiv> getTierFromName nm"
  defines "r \<equiv> processTeamResults db season t pfp tier awarded players"
  shows "(allPlayersFromSameClub t \<longleftrightarrow>
            length (playerIds t) = 3
            \<and> (\<exists>club. club \<noteq> ''No Club'' \<and> clubNames t = [club, club, club]))
    \<and> (hasUnregisteredPlayers t \<longrightarrow> \<not> allPlayersFromSameClub t)
    \<and> (allPlayersFromSameClub t \<longrightarrow>
          (\<exists>club. clubNames t = [club, club, club]
             \<and> snd r = (if club \<in> awarded then (awarded, NotAwarded ''Club already awarded'')
                        else (insert club awarded,
                              Awarded club (points_at pfp (first_placement t)) (first_placement t)))
             \<and> (\<forall>cid. club \<notin> awarded \<and> find_club db club = Some cid \<longrightarrow>
                    num_or0 (db_get (fst r) [''clubs'', cid, ''totalPoints''])
                      = js_add (num_or0 (db_get db [''clubs'', cid, ''totalPoints'']))
                          (points_at pfp (first_placement t))
                    \<and> num_or0 (db_get (fst r) [''clubs'', cid, ''seasons'', season, ''totalPoints''])
                      = js_add (num_or0 (db_get db [''clubs'', cid, ''seasons'', season, ''totalPoints'']))
                          (points_at pfp (first_placement t)))))
    \<and> (\<not> allPlayersFromSameClub t \<longrightarrow>
          fst r = record_individual_results db season t pfp tier \<and> fst (snd r) = awarded
          \<and> (\<exists>reason. snd (snd r) = NotAwarded reason))
    \<and> (\<forall>ks. db_get (record_individual_results db season t pfp tier) (''players'' # ks)
              = db_get (fst r) (''players'' # ks))
    \<and> (tier \<noteq> ''Unknown'' \<longrightarrow>
          (\<forall>p \<in> set (playerIds t).
              db_get (fst r) [''players'', p, ''totalPoints'']
                = Some (JNum (member_total pfp p ms
                                (num_or0 (db_get db [''players'', p, ''totalPoints'']))))
              \<and> db_get (fst r) [''players'', p, ''seasons'', season, ''totalPoints'']
                = Some (JNum (member_total pfp p ms
                                (num_or0 (db_get db [''players'', p, ''seasons'', season, ''totalPoints''])))))
          \<and> (\<forall>p g. num_or0 (db_get (fst r) [''players'', p, tier, g])
                  = member_counter g p ms (num_or0 (db_get db [''players'', p, tier, g]))
                \<and> num_or0 (db_get (fst r) [''players'', p, ''seasons'', season, tier, g])
                  = member_counter g p ms
                      (num_or0 (db_get db [''players'', p, ''seasons'', season, tier, g]))))
    \<and> (tier = ''Unknown'' \<longrightarrow>
          (\<forall>ks. db_get (fst r) (''players'' # ks) = db_get db (''players'' # ks)))"
proof -
  have c: "team_consistent t"
    unfolding t_def using assms(2,3) by (rule processed_teams_consistent)
  then have len: "length (clubNames t) = length (playerIds t)"
    by (simp add: team_consistent_def)
  have named: "[] \<notin> set (clubNames t)"
    unfolding t_def using assms(1,2,3) by (rule processed_teams_named)
  have tier: "tier \<notin> set field_names" unfolding tier_def by (rule getTierFromName_no_field)
  have 1: "allPlayersFromSameClub t \<longleftrightarrow>
            length (playerIds t) = 3
            \<and> (\<exists>club. club \<noteq> ''No Club'' \<and> clubNames t = [club, club, club])"
    using len by (rule eligible_iff)
  have 2: "hasUnregisteredPlayers t \<longrightarrow> \<not> allPlayersFromSameClub t"
    using c 1 by (auto simp add: team_consistent_def)
  have 3: "\<exists>club. clubNames t = [club, club, club]
             \<and> snd r = (if club \<in> awarded then (awarded, NotAwarded ''Club already awarded'')
                        else (insert club awarded,
                              Awarded club (points_at pfp (first_placement t)) (first_placement t)))
             \<and> (\<forall>cid. club \<notin> awarded \<and> find_club db club = Some cid \<longrightarrow>
                    num_or0 (db_get (fst r) [''clubs'', cid, ''totalPoints''])
                      = js_add (num_or0 (db_get db [''clubs'', cid, ''totalPoints'']))
                          (points_at pfp (first_placement t))
                    \<and> num_or0 (db_get (fst r) [''clubs'', cid, ''seasons'', season, ''totalPoints''])
                      = js_add (num_or0 (db_get db [''clubs'', cid, ''seasons'', season, ''totalPoints'']))
                          (points_at pfp (first_placement t)))"
    if el: "allPlayersFromSameClub t"
  proof -
    from el 1 obtain club where l: "length (playerIds t) = 3" and n: "club \<noteq> ''No Club''"
      and cn: "clubNames t = [club, club, club]"
      by blast
    from named cn have "club \<noteq> []" by auto
    with l cn n have a: "award_club t awarded = (if club \<notin> awarded then Some club else None)"
      by (simp add: award_club_of_three)
    have s: "snd r = (fst (snd r), snd (snd r))" by simp
    have "snd r = (if club \<in> awarded then (awarded, NotAwarded ''Club already awarded'')
                        else (insert club awarded,
                              Awarded club (points_at pfp (first_placement t)) (first_placement t)))"
      by (subst s) (simp add: r_def processTeamResults_awarded processTeamResults_result a l el)
    moreover have "num_or0 (db_get (fst r) [''clubs'', cid, ''totalPoints''])
                      = js_add (num_or0 (db_get db [''clubs'', cid, ''totalPoints'']))
                          (points_at pfp (first_placement t))"
      if "club \<notin> awarded" "find_club db club = Some cid" for cid
      using that by (simp add: r_def processTeamResults_club_total [OF tier] a)
    moreover have "num_or0 (db_get (fst r) [''clubs'', cid, ''seasons'', season, ''totalPoints''])
                      = js_add (num_or0 (db_get db [''clubs'', cid, ''seasons'', season, ''totalPoints'']))
                          (points_at pfp (first_placement t))"
      if "club \<notin> awarded" "find_club db club = Some cid" for cid
      using that by (simp add: r_def processTeamResults_club_season_total [OF tier] a)
    ultimately show ?thesis using cn by (intro exI [of _ club] conjI allI impI) auto
  qed
  have 4: "\<not> allPlayersFromSameClub t \<longrightarrow>
          fst r = record_individual_results db season t pfp tier \<and> fst (snd r) = awarded
          \<and> (\<exists>reason. snd (snd r) = NotAwarded reason)"
    unfolding r_def processTeamResults_store processTeamResults_awarded processTeamResults_result
    by (simp add: award_club_def member_results_def)
  have 5: "db_get (record_individual_results db season t pfp tier) (''players'' # ks)
              = db_get (fst r) (''players'' # ks)" for ks
    unfolding r_def by (rule processTeamResults_players [symmetric])
  have 6: "db_get (fst r) [''players'', p, ''totalPoints'']
                = Some (JNum (member_total pfp p ms
                                (num_or0 (db_get db [''players'', p, ''totalPoints'']))))"
    if "tier \<noteq> ''Unknown''" "p \<in> set (playerIds t)" for p
    unfolding 5 [symmetric] ms_def using that by (rule individual_results_total_stored)
  have 7: "db_get (fst r) [''players'', p, ''seasons'', season, ''totalPoints'']
                = Some (JNum (member_total pfp p ms
                                (num_or0 (db_get db [''players'', p, ''seasons'', season, ''totalPoints'']))))"
    if "tier \<noteq> ''Unknown''" "p \<in> set (playerIds t)" for p
    unfolding 5 [symmetric] ms_def using tier that by (rule individual_results_season_total_stored)
  have 8: "num_or0 (db_get (fst r) [''players'', p, tier, g])
                  = member_counter g p ms (num_or0 (db_get db [''players'', p, tier, g]))"
    if "tier \<noteq> ''Unknown''" for p g
    unfolding 5 [symmetric] ms_def using tier that by (rule individual_results_counter)
  have 9: "num_or0 (db_get (fst r) [''players'', p, ''seasons'', season, tier, g])
                  = member_counter g p ms
                      (num_or0 (db_get db [''players'', p, ''seasons'', season, tier, g]))"
    if "tier \<noteq> ''Unknown''" for p g
    unfolding 5 [symmetric] ms_def using tier that by (rule individual_results_season_counter)
  have 10: "db_get (fst r) (''players'' # ks) = db_get db (''players'' # ks)"
    if "tier = ''Unknown''" for ks
    unfolding 5 [symmetric] using that by (simp add: individual_results_unknown)
  from 5 have 5: "\<forall>ks. db_get (record_individual_results db season t pfp tier) (''players'' # ks)
              = db_get (fst r) (''players'' # ks)" by blast
  from 3 have 3: "allPlayersFromSameClub t \<longrightarrow>
          (\<exists>club. clubNames t = [club, club, club]
             \<and> snd r = (if club \<in> awarded then (awarded, NotAwarded ''Club already awarded'')
                        else (insert club awarded,
                              Awarded club (points_at pfp (first_placement t)) (first_placement t)))
             \<and> (\<forall>cid. club \<notin> awarded \<and> find_club db club = Some cid \<longrightarrow>
                    num_or0 (db_get (fst r) [''clubs'', cid, ''totalPoints''])
                      = js_add (num_or0 (db_get db [''clubs'', cid, ''totalPoints'']))
                          (points_at pfp (first_placement t))
                    \<and> num_or0 (db_get (fst r) [''clubs'', cid, ''seasons'', season, ''totalPoints''])
                      = js_add (num_or0 (db_get db [''clubs'', cid, ''seasons'', season, ''totalPoints'']))
                          (points_at pfp (first_placement t))))"
    by (rule impI)
  have 6: "tier \<noteq> ''Unknown'' \<longrightarrow>
          (\<forall>p \<in> set (playerIds t).
              db_get (fst r) [''players'', p, ''totalPoints'']
                = Some (JNum (member_total pfp p ms
                                (num_or0 (db_get db [''players'', p, ''totalPoints'']))))
              \<and> db_get (fst r) [''players'', p, ''seasons'', season, ''totalPoints'']
                = Some (JNum (member_total pfp p ms
                                (num_or0 (db_get db [''players'', p, ''seasons'', season, ''totalPoints''])))))
          \<and> (\<forall>p g. num_or0 (db_get (fst r) [''players'', p, tier, g])
                  = member_counter g p ms (num_or0 (db_get db [''players'', p, tier, g]))
                \<and> num_or0 (db_get (fst r) [''players'', p, ''seasons'', season, tier, g])
                  = member_counter g p ms
                      (num_or0 (db_get db [''players'', p, ''seasons'', season, tier, g])))"
    using 6 7 8 9 by (intro impI conjI ballI allI)
  have 10: "tier = ''Unknown'' \<longrightarrow>
          (\<forall>ks. db_get (fst r) (''players'' # ks) = db_get db (''players'' # ks))"
    using 10 by (intro impI allI)
  show ?thesis
    apply (rule conjI, rule 1)
    apply (rule conjI, rule 2)
    apply (rule conjI, rule 3)
    apply (rule conjI, rule 4)
    apply (rule conjI, rule 5)
    apply (rule conjI, rule 6)
    apply (rule 10)
    done
qed

theorem club_eligibility_witness:
  "fetchClubsAndPlayers club_a_roster = Inr club_a_cache
   \<and> groupPlayersByTeam two_club_a_teams club_a_cache
       = Inr [(''x'', club_a_team 1), (''y'', club_a_team 2)]
   \<and> (''y'', club_a_team 2)
       \<in> set (Object_entries (sortTeamsByPlacement [(''x'', club_a_team 1), (''y'', club_a_team 2)]))
   \<and> allPlayersFromSameClub (club_a_team 2)
   \<and> snd (processTeamResults club_a_roster ''1'' (club_a_team 2) (getPointsMapping ''diamond'')
             (getTierFromName (Some ''Diamond Cup'')) {} club_a_cache)
       = ({''Club A''}, Awarded ''Club A'' 18 (Some 2))
   \<and> snd (processTeamResults club_a_roster ''1'' (club_a_team 2) (getPointsMapping ''diamond'')
             (getTierFromName (Some ''Diamond Cup'')) {''Club A''} club_a_cache)
       = ({''Club A''}, NotAwarded ''Club already awarded'')
   \<and> db_get (fst (processTeamResults club_a_roster ''1'' (club_a_team 2)
                     (getPointsMapping ''diamond'') (getTierFromName (Some ''Diamond Cup''))
                     {''Club A''} club_a_cache))
         [''players'', ''A2'', ''totalPoints'']
       = Some (JNum 18)"
proof -
  have m: "(''y'', club_a_team 2)
       \<in> set (Object_entries (sortTeamsByPlacement [(''x'', club_a_team 1), (''y'', club_a_team 2)]))"
    unfolding two_club_a_teams_sorted by simp
  have t: "getTierFromName (Some ''Diamond Cup'') = ''diamond''"
    by (simp add: getTierFromName_def string_defs)
  have mt: "member_total (getPointsMapping ''diamond'') ''A2''
      (members (playerIds (club_a_team 2)) (placements (club_a_team 2)))
      (num_or0 (db_get club_a_roster [''players'', ''A2'', ''totalPoints''])) = 18"
    by (simp add: member_total_def club_a_team_def getPointsMapping_known points_at_def
          club_a_roster_def num_or0_def small_doubles)
  have el: "allPlayersFromSameClub (club_a_team 2)"
    by (simp add: allPlayersFromSameClub_def registered_clubNames_def club_a_team_def)
  have cn: "clubNames (club_a_team 2) = [club, club, club] \<longleftrightarrow> club = ''Club A''" for club
    by (auto simp add: club_a_team_def)
  have p: "points_at (getPointsMapping ''diamond'') (Some 2) = 18"
    "first_placement (club_a_team 2) = Some 2" "''A2'' \<in> set (playerIds (club_a_team 2))"
    by (simp_all add: first_placement_def club_a_team_def getPointsMapping_known points_at_def)
  note w = club_eligibility [OF club_a_roster_cache two_club_a_teams_grouped m,
      where season = "''1''" and pfp = "getPointsMapping ''diamond''" and nm = "Some ''Diamond Cup''"
        and db = club_a_roster, unfolded t snd_conv]
  have "snd (processTeamResults club_a_roster ''1'' (club_a_team 2) (getPointsMapping ''diamond'')
             ''diamond'' {} club_a_cache)
       = ({''Club A''}, Awarded ''Club A'' 18 (Some 2))"
    using w [where awarded = "{}"] el by (auto simp add: cn p)
  moreover have "snd (processTeamResults club_a_roster ''1'' (club_a_team 2)
             (getPointsMapping ''diamond'') ''diamond'' {''Club A''} club_a_cache)
       = ({''Club A''}, NotAwarded ''Club already awarded'')"
    using w [where awarded = "{''Club A''}"] el by (auto simp add: cn p)
  moreover have "db_get (fst (processTeamResults club_a_roster ''1'' (club_a_team 2)
                     (getPointsMapping ''diamond'') ''diamond'' {''Club A''} club_a_cache))
         [''players'', ''A2'', ''totalPoints'']
       = Some (JNum 18)"
    using w [where awarded = "{''Club A''}"] p(3) unfolding mt [symmetric] by simp
  ultimately show ?thesis
    unfolding t using club_a_roster_cache two_club_a_teams_grouped m el by blast
qed

section \<open>Tournaments of the tier Unknown\<close>


















lemma length_award_log: "length (award_log pfp awarded ts) = length ts"
  by (induction ts arbitrary: awarded) (simp_all split: option.splits)










section \<open>The members' results over the teams of a tournament\<close>

lemma process_teams_player_total_stored:
  assumes "tier \<noteq> ''Unknown''"
  shows "db_get (fst (process_teams season pfp tier players es (db, awarded, rs)))
           [''players'', p, ''totalPoints'']
     = foldl (\<lambda>x e. if p \<in> set (playerIds (snd e))
                     then Some (JNum (member_total pfp p
                            (members (playerIds (snd e)) (placements (snd e))) (num_or0 x)))
                     else x)
         (db_get db [''players'', p, ''totalPoints'']) es"
proof (rule process_teams_read_fold
    [where rd = "\<lambda>d. db_get d [''players'', p, ''totalPoints'']"
       and h = "\<lambda>x t. if p \<in> set (playerIds t)
                       then Some (JNum (member_total pfp p
                              (members (playerIds t) (placements t)) (num_or0 x)))
                       else x"])
  fix d t A
  show "db_get (fst (processTeamResults d season t pfp tier A players)) [''players'', p, ''totalPoints'']
      = (if p \<in> set (playerIds t)
         then Some (JNum (member_total pfp p (members (playerIds t) (placements t))
                            (num_or0 (db_get d [''players'', p, ''totalPoints'']))))
         else db_get d [''players'', p, ''totalPoints''])"
    using assms
    by (simp add: processTeamResults_players individual_results_total_stored
          individual_results_other_player)
qed

lemma process_teams_player_counter:
  assumes "tier \<notin> set field_names" and "tier \<noteq> ''Unknown''"
  shows "num_or0 (db_get (fst (process_teams season pfp tier players es (db, awarded, rs)))
           [''players'', p, tier, g])
     = foldl (\<lambda>x e. member_counter g p (members (playerIds (snd e)) (placements (snd e))) x)
         (num_or0 (db_get db [''players'', p, tier, g])) es"
  by (rule process_teams_read_fold
        [where rd = "\<lambda>d. num_or0 (db_get d [''players'', p, tier, g])"
           and h = "\<lambda>x t. member_counter g p (members (playerIds t) (placements t)) x"])
     (simp add: processTeamResults_players individual_results_counter assms)

lemma member_counter_absent:
  "p \<notin> fst ` set ms \<Longrightarrow> member_counter g p ms x = x"
  unfolding member_counter_def by (induction ms arbitrary: x) auto

lemma no_fourth_counter: "member_counter ''fourth'' p ms x = x"
  unfolding member_counter_def
  by (induction ms arbitrary: x)
     (auto simp add: getStatFieldForPlacement_def split: option.splits if_splits)

lemma three_members:
  assumes "length ps = 3"
  obtains a b c where "ps = [a, b, c]"
  using assms by (cases ps; cases "tl ps"; cases "tl (tl ps)") auto

lemma member_total_of_three:
  assumes "length ps = 3" and "distinct ps" and "p \<in> set ps"
  shows "member_total pfp p (members ps [pl, pl, pl]) x = js_add x (points_at pfp (Some pl))"
proof -
  from assms(1) obtain a b c where "ps = [a, b, c]" by (rule three_members)
  with assms(2,3) show ?thesis by (auto simp add: member_total_def)
qed

lemma member_counter_of_three:
  assumes "length ps = 3" and "distinct ps" and "p \<in> set ps"
    and "getStatFieldForPlacement (Some pl) = Some g"
  shows "member_counter g p (members ps [pl, pl, pl]) x = js_add x 1"
proof -
  from assms(1) obtain a b c where "ps = [a, b, c]" by (rule three_members)
  with assms(2-4) show ?thesis by (auto simp add: member_counter_def)
qed

lemma award_log_second:
  assumes "award_club t1 {} \<noteq> Some club" and "\<And>A. club \<notin> A \<Longrightarrow> award_club t2 A = Some club"
  shows "award_log pfp {} (t1 # t2 # ts) ! 1
     = Awarded club (points_at pfp (first_placement t2)) (first_placement t2)"
proof (cases "award_club t1 {}")
  case None
  with assms(2) [of "{}"] show ?thesis by simp
next
  case (Some c)
  with assms(1) have "club \<notin> {c}" by auto
  with Some assms(2) [of "{c}"] show ?thesis by simp
qed

lemma silverEu1_name: "getTierFromName (Some ''EU Silver Cup 1'') = ''silverEu1''"
  by (simp add: getTierFromName_def string_defs)

lemma silverEu1_second: "points_at (getPointsMapping ''silverEu1'') (Some 2) = round_double (4/5)"
  by (simp add: getPointsMapping_known points_at_def)

section \<open>The second place of a silver cup\<close>

lemma eu_silver_rows_grouped:
  "groupPlayersByTeam eu_silver_rows club_a_cache
     = Inr [(''w'', unregistered_team [''U1'', ''U2'', ''U3''] 1), (''a'', club_a_team 2),
            (''t'', unregistered_team [''V1'', ''V2'', ''V3''] 3),
            (''f'', unregistered_team [''X1'', ''X2'', ''X3''] 4)]"
  by (simp add: eu_silver_rows_def club_a_team_def unregistered_team_def club_a_cache_def team_defs
        string_defs object_defs participant_def)

lemma eu_silver_rows_sorted:
  "Object_entries (sortTeamsByPlacement
       [(''w'', unregistered_team [''U1'', ''U2'', ''U3''] 1), (''a'', club_a_team 2),
        (''t'', unregistered_team [''V1'', ''V2'', ''V3''] 3),
        (''f'', unregistered_team [''X1'', ''X2'', ''X3''] 4)])
     = [(''w'', unregistered_team [''U1'', ''U2'', ''U3''] 1), (''a'', club_a_team 2),
        (''t'', unregistered_team [''V1'', ''V2'', ''V3''] 3),
        (''f'', unregistered_team [''X1'', ''X2'', ''X3''] 4)]"
  by (simp add: club_a_team_def unregistered_team_def team_defs object_defs)

lemma unregistered_team_award: "award_club (unregistered_team ps place) awarded = None"
  by (simp add: award_club_def allPlayersFromSameClub_def registered_clubNames_def
        unregistered_team_def)

lemma silver_doubles:
  "js_add 0 (round_double (4/5)) = round_double (4/5)"
  "round_double (4/5) \<noteq> js_add 0 (round_double (8/5))"
  by code_simp+

text \<open>
  C2, as the specification states it, fails in the value: the second place of the tier
  \<open>silverEu1\<close> is worth 0.8, the second entry of \<open>[1.6, 0.8, 0.4, 0.4]\<close>, and 1.6 is the
  value of the first place. In the scenario, with Club A at zero before, the team of Club
  A is awarded 0.8 and the total of Club A is 0.8 after, not 1.6.
\<close>

theorem second_place_value_is_not_first:
  "getTierFromName (Some ''EU Silver Cup 1'') = ''silverEu1''
   \<and> num_or0 (db_get club_a_roster [''clubs'', ''c1'', ''totalPoints'']) = 0
   \<and> (\<exists>db' rs.
        processTournamentResults club_a_roster ''1'' eu_silver_rows ''silverEu1'' = Inr (db', rs)
        \<and> rs = [NotAwarded ''Not all players from same registered club'',
                 Awarded ''Club A'' (round_double (4/5)) (Some 2),
                 NotAwarded ''Not all players from same registered club'',
                 NotAwarded ''Not all players from same registered club'']
        \<and> num_or0 (db_get db' [''clubs'', ''c1'', ''totalPoints'']) = round_double (4/5))
   \<and> round_double (4/5) \<noteq> js_add 0 (round_double (8/5))"
proof -
  let ?es = "[(''w'', unregistered_team [''U1'', ''U2'', ''U3''] 1), (''a'', club_a_team 2),
        (''t'', unregistered_team [''V1'', ''V2'', ''V3''] 3),
        (''f'', unregistered_team [''X1'', ''X2'', ''X3''] 4)]"
  have d: "distinct (map fst (club_names club_a_roster))"
    by (simp add: club_a_roster_clubs)
  have f: "find_club club_a_roster ''Club A'' = Some ''c1''"
    by (simp add: find_club_names club_a_roster_clubs)
  have nf: "''silverEu1'' \<notin> set field_names" by (simp add: field_names_def)
  have z: "num_or0 (db_get club_a_roster [''clubs'', ''c1'', ''totalPoints'']) = 0"
    by (simp add: club_a_roster_def num_or0_def)
  have p: "first_placement (club_a_team place) = Some place" for place
    by (simp add: first_placement_def club_a_team_def)
  have l: "length (playerIds (unregistered_team [a, b, c] place)) = 3"
    "\<not> allPlayersFromSameClub (unregistered_team [a, b, c] place)" for a b c place
    by (simp_all add: allPlayersFromSameClub_def registered_clubNames_def unregistered_team_def)
  have rs: "award_log (getPointsMapping ''silverEu1'') {} (map snd ?es)
      = [NotAwarded ''Not all players from same registered club'',
         Awarded ''Club A'' (round_double (4/5)) (Some 2),
         NotAwarded ''Not all players from same registered club'',
         NotAwarded ''Not all players from same registered club'']"
    by (simp add: unregistered_team_award club_a_team_award p l silverEu1_second)
  have total: "num_or0 (db_get (fst (process_teams ''1'' (getPointsMapping ''silverEu1'')
        ''silverEu1'' club_a_cache ?es (club_a_roster, {}, []))) [''clubs'', ''c1'', ''totalPoints''])
      = round_double (4/5)"
    unfolding process_teams_club_total [OF nf d f]
    by (simp add: unregistered_team_award club_a_team_award p z silverEu1_second silver_doubles)
  have "processTournamentResults club_a_roster ''1'' eu_silver_rows ''silverEu1''
      = Inr (fst (process_teams ''1'' (getPointsMapping ''silverEu1'') ''silverEu1'' club_a_cache ?es
                    (club_a_roster, {}, [])),
             award_log (getPointsMapping ''silverEu1'') {} (map snd ?es))"
    unfolding processTournamentResults_store [OF club_a_roster_cache eu_silver_rows_grouped]
      eu_silver_rows_sorted ..
  with rs total silverEu1_name z silver_doubles(2) show ?thesis by simp
qed



text \<open>
  C2, amended: the tournament \<open>EU Silver Cup 1\<close> is of the tier \<open>silverEu1\<close>, whose
  second-place value is 0.8. Four teams are processed, the second being three members of
  one registered club with the placement 2, the fourth a team with the placement 4, no
  player in two teams, the first team not one of the club. Then the team of the club is
  awarded 0.8: the lifetime and the season total of the club grow by one addition of 0.8,
  the counter \<open>second\<close> of the club by one, the individual total of each of the three
  members by one addition of 0.8; the members of the fourth team have their individual
  counter \<open>third\<close> grow by one, and no counter \<open>fourth\<close> changes.
\<close>

theorem eu_silver_cup_scenario:
  fixes db :: json and season :: string
  assumes "fetchClubsAndPlayers db = Inr players"
    and "groupPlayersByTeam rows players = Inr teams"
    and "Object_entries (sortTeamsByPlacement teams) = [(k1, t1), (k2, t2), (k3, t3), (k4, t4)]"
    and "placements t2 = [2, 2, 2]" and "clubNames t2 = [club, club, club]"
    and "club \<noteq> ''No Club''"
    and "placements t4 = [4, 4, 4]"
    and "distinct (playerIds t1 @ playerIds t2 @ playerIds t3 @ playerIds t4)"
    and "award_club t1 {} \<noteq> Some club"
    and "distinct (map fst (club_names db))" and "find_club db club = Some cid"
  defines "tier \<equiv> getTierFromName (Some ''EU Silver Cup 1'')"
  shows "tier = ''silverEu1''
    \<and> (\<exists>db' rs. processTournamentResults db season rows tier = Inr (db', rs)
          \<and> length rs = 4 \<and> rs ! 1 = Awarded club (round_double (4/5)) (Some 2)
          \<and> num_or0 (db_get db' [''clubs'', cid, ''totalPoints''])
              = js_add (num_or0 (db_get db [''clubs'', cid, ''totalPoints''])) (round_double (4/5))
          \<and> num_or0 (db_get db' [''clubs'', cid, ''seasons'', season, ''totalPoints''])
              = js_add (num_or0 (db_get db [''clubs'', cid, ''seasons'', season, ''totalPoints'']))
                  (round_double (4/5))
          \<and> num_or0 (db_get db' [''clubs'', cid, ''silverEu1'', ''second''])
              = js_add (num_or0 (db_get db [''clubs'', cid, ''silverEu1'', ''second''])) 1
          \<and> num_or0 (db_get db' [''clubs'', cid, ''seasons'', season, ''silverEu1'', ''second''])
              = js_add (num_or0 (db_get db [''clubs'', cid, ''seasons'', season, ''silverEu1'',
                                            ''second''])) 1
          \<and> (\<forall>p \<in> set (playerIds t2).
                db_get db' [''players'', p, ''totalPoints'']
                  = Some (JNum (js_add (num_or0 (db_get db [''players'', p, ''totalPoints'']))
                                  (round_double (4/5)))))
          \<and> (\<forall>p \<in> set (playerIds t4).
                num_or0 (db_get db' [''players'', p, ''silverEu1'', ''third''])
                  = js_add (num_or0 (db_get db [''players'', p, ''silverEu1'', ''third''])) 1
                \<and> num_or0 (db_get db' [''players'', p, ''silverEu1'', ''fourth''])
                  = num_or0 (db_get db [''players'', p, ''silverEu1'', ''fourth''])))"
proof -
  let ?pfp = "getPointsMapping ''silverEu1''"
  let ?es = "[(k1, t1), (k2, t2), (k3, t3), (k4, t4)]"
  let ?db' = "fst (process_teams season ?pfp ''silverEu1'' players ?es (db, {}, []))"
  let ?rs = "award_log ?pfp {} [t1, t2, t3, t4]"
  have tier: "tier = ''silverEu1''" unfolding tier_def by (rule silverEu1_name)
  have nf: "''silverEu1'' \<notin> set field_names" by (simp add: field_names_def)
  have u: "''silverEu1'' \<noteq> ''Unknown''" by simp
  have run: "processTournamentResults db season rows tier = Inr (?db', ?rs)"
    unfolding tier processTournamentResults_store [OF assms(1,2)] assms(3) by simp
  have e2: "(k2, t2) \<in> set (Object_entries (sortTeamsByPlacement teams))"
    and e4: "(k4, t4) \<in> set (Object_entries (sortTeamsByPlacement teams))"
    unfolding assms(3) by simp_all
  have c2: "team_consistent t2" using processed_teams_consistent [OF assms(2) e2] by simp
  have c4: "team_consistent t4" using processed_teams_consistent [OF assms(2) e4] by simp
  have l2: "length (playerIds t2) = 3" using c2 assms(4) by (simp add: team_consistent_def)
  have l4: "length (playerIds t4) = 3" using c4 assms(7) by (simp add: team_consistent_def)
  have "[] \<notin> set (clubNames t2)" using processed_teams_named [OF assms(1,2) e2] by simp
  with assms(5) have "club \<noteq> []" by auto
  with l2 assms(5,6) have a2: "award_club t2 A = (if club \<notin> A then Some club else None)" for A
    by (simp add: award_club_of_three)
  have p2: "first_placement t2 = Some 2" using assms(4) by (simp add: first_placement_def)
  have first: "find (\<lambda>e. award_club (snd e) {} = Some club) ?es = Some (k2, t2)"
    using assms(9) a2 [of "{}"] by simp
  have "?rs ! 1 = Awarded club (points_at ?pfp (first_placement t2)) (first_placement t2)"
    using assms(9) by (rule award_log_second) (simp add: a2)
  then have awards: "length ?rs = 4 \<and> ?rs ! 1 = Awarded club (round_double (4/5)) (Some 2)"
    by (simp only: length_award_log p2 silverEu1_second) simp
  have total: "num_or0 (db_get ?db' [''clubs'', cid, ''totalPoints''])
      = js_add (num_or0 (db_get db [''clubs'', cid, ''totalPoints''])) (round_double (4/5))"
    unfolding process_teams_club_total [OF nf assms(10,11)] first
    by (simp add: p2 silverEu1_second)
  have season_total: "num_or0 (db_get ?db' [''clubs'', cid, ''seasons'', season, ''totalPoints''])
      = js_add (num_or0 (db_get db [''clubs'', cid, ''seasons'', season, ''totalPoints'']))
          (round_double (4/5))"
    unfolding process_teams_club_season_total [OF nf assms(10,11)] first
    by (simp add: p2 silverEu1_second)
  have g2: "getStatFieldForPlacement (Some 2) = Some ''second''"
    "getStatFieldForPlacement (Some 4) = Some ''third''"
    by (simp_all add: getStatFieldForPlacement_def)
  have counter: "num_or0 (db_get ?db' [''clubs'', cid, ''silverEu1'', ''second''])
      = js_add (num_or0 (db_get db [''clubs'', cid, ''silverEu1'', ''second''])) 1"
    unfolding process_teams_club_counter [OF nf assms(10,11)] first
    by (simp add: p2 g2)
  have season_counter:
    "num_or0 (db_get ?db' [''clubs'', cid, ''seasons'', season, ''silverEu1'', ''second''])
      = js_add (num_or0 (db_get db [''clubs'', cid, ''seasons'', season, ''silverEu1'',
                                    ''second''])) 1"
    unfolding process_teams_club_season_counter [OF nf assms(10,11)] first
    by (simp add: p2 g2)
  have members: "db_get ?db' [''players'', p, ''totalPoints'']
      = Some (JNum (js_add (num_or0 (db_get db [''players'', p, ''totalPoints'']))
                      (round_double (4/5))))"
    if p: "p \<in> set (playerIds t2)" for p
  proof -
    from p assms(8) have o: "p \<notin> set (playerIds t1)" "p \<notin> set (playerIds t3)"
      "p \<notin> set (playerIds t4)" and d: "distinct (playerIds t2)"
      by auto
    show ?thesis
      unfolding process_teams_player_total_stored [OF u]
      using o p by (simp add: assms(4) member_total_of_three [OF l2 d p] silverEu1_second)
  qed
  have fourth: "num_or0 (db_get ?db' [''players'', p, ''silverEu1'', ''third''])
        = js_add (num_or0 (db_get db [''players'', p, ''silverEu1'', ''third''])) 1
      \<and> num_or0 (db_get ?db' [''players'', p, ''silverEu1'', ''fourth''])
        = num_or0 (db_get db [''players'', p, ''silverEu1'', ''fourth''])"
    if p: "p \<in> set (playerIds t4)" for p
  proof -
    from p assms(8) have o: "p \<notin> set (playerIds t1)" "p \<notin> set (playerIds t2)"
      "p \<notin> set (playerIds t3)" and d: "distinct (playerIds t4)"
      by auto
    have a: "member_counter g p (members (playerIds t) (placements t)) x = x"
      if "p \<notin> set (playerIds t)" for g t x
      using that by (simp add: member_counter_absent fst_members)
    show ?thesis
      unfolding process_teams_player_counter [OF nf u]
      using o by (simp add: a no_fourth_counter assms(7)
            member_counter_of_three [OF l4 d p g2(2)])
  qed
  show ?thesis
    apply (rule conjI, rule tier)
    apply (rule exI [of _ ?db'], rule exI [of _ ?rs])
    apply (rule conjI, rule run)
    apply (rule conjI, rule awards [THEN conjunct1])
    apply (rule conjI, rule awards [THEN conjunct2])
    apply (rule conjI, rule total)
    apply (rule conjI, rule season_total)
    apply (rule conjI, rule counter)
    apply (rule conjI, rule season_counter)
    apply (rule conjI, rule ballI, erule members)
    apply (rule ballI, erule fourth)
    done
qed

theorem eu_silver_cup_scenario_witness:
  "\<exists>db' rs.
      processTournamentResults club_a_roster ''1'' eu_silver_rows
        (getTierFromName (Some ''EU Silver Cup 1'')) = Inr (db', rs)
      \<and> rs ! 1 = Awarded ''Club A'' (round_double (4/5)) (Some 2)
      \<and> num_or0 (db_get db' [''clubs'', ''c1'', ''totalPoints'']) = round_double (4/5)
      \<and> num_or0 (db_get db' [''clubs'', ''c1'', ''silverEu1'', ''second'']) = 1
      \<and> db_get db' [''players'', ''A1'', ''totalPoints''] = Some (JNum (round_double (4/5)))
      \<and> num_or0 (db_get db' [''players'', ''X1'', ''silverEu1'', ''third'']) = 1"
proof -
  have d: "distinct (map fst (club_names club_a_roster))"
    by (simp add: club_a_roster_clubs)
  have f: "find_club club_a_roster ''Club A'' = Some ''c1''"
    by (simp add: find_club_names club_a_roster_clubs)
  have z: "num_or0 (db_get club_a_roster [''clubs'', ''c1'', ''totalPoints'']) = 0"
    "num_or0 (db_get club_a_roster [''clubs'', ''c1'', ''silverEu1'', ''second'']) = 0"
    "num_or0 (db_get club_a_roster [''players'', ''A1'', ''totalPoints'']) = 0"
    "num_or0 (db_get club_a_roster [''players'', ''X1'', ''silverEu1'', ''third'']) = 0"
    by (simp_all add: club_a_roster_def num_or0_def)
  have t: "placements (club_a_team 2) = [2, 2, 2]"
    "clubNames (club_a_team 2) = [''Club A'', ''Club A'', ''Club A'']"
    "''A1'' \<in> set (playerIds (club_a_team 2))"
    "placements (unregistered_team [''X1'', ''X2'', ''X3''] 4) = [4, 4, 4]"
    "''X1'' \<in> set (playerIds (unregistered_team [''X1'', ''X2'', ''X3''] 4))"
    "distinct (playerIds (unregistered_team [''U1'', ''U2'', ''U3''] 1) @ playerIds (club_a_team 2)
       @ playerIds (unregistered_team [''V1'', ''V2'', ''V3''] 3)
       @ playerIds (unregistered_team [''X1'', ''X2'', ''X3''] 4))"
    by (simp_all add: club_a_team_def unregistered_team_def)
  have n: "''Club A'' \<noteq> ''No Club''"
    "award_club (unregistered_team [''U1'', ''U2'', ''U3''] 1) {} \<noteq> Some ''Club A''"
    by (simp_all add: unregistered_team_award)
  from eu_silver_cup_scenario [OF club_a_roster_cache eu_silver_rows_grouped eu_silver_rows_sorted
      t(1,2) n(1) t(4,6) n(2) d f, where season = "''1''"]
  obtain db' rs where
    "processTournamentResults club_a_roster ''1'' eu_silver_rows
        (getTierFromName (Some ''EU Silver Cup 1'')) = Inr (db', rs)"
    "rs ! 1 = Awarded ''Club A'' (round_double (4/5)) (Some 2)"
    "num_or0 (db_get db' [''clubs'', ''c1'', ''totalPoints''])
       = js_add (num_or0 (db_get club_a_roster [''clubs'', ''c1'', ''totalPoints''])) (round_double (4/5))"
    "num_or0 (db_get db' [''clubs'', ''c1'', ''silverEu1'', ''second''])
       = js_add (num_or0 (db_get club_a_roster [''clubs'', ''c1'', ''silverEu1'', ''second''])) 1"
    "\<forall>p \<in> set (playerIds (club_a_team 2)).
        db_get db' [''players'', p, ''totalPoints'']
          = Some (JNum (js_add (num_or0 (db_get club_a_roster [''players'', p, ''totalPoints'']))
                          (round_double (4/5))))"
    "\<forall>p \<in> set (playerIds (unregistered_team [''X1'', ''X2'', ''X3''] 4)).
        num_or0 (db_get db' [''players'', p, ''silverEu1'', ''third''])
          = js_add (num_or0 (db_get club_a_roster [''players'', p, ''silverEu1'', ''third''])) 1
        \<and> num_or0 (db_get db' [''players'', p, ''silverEu1'', ''fourth''])
          = num_or0 (db_get club_a_roster [''players'', p, ''silverEu1'', ''fourth''])"
    by (elim exE conjE) (rule that; assumption)
  moreover from this(5) t(3) have "db_get db' [''players'', ''A1'', ''totalPoints'']
      = Some (JNum (js_add (num_or0 (db_get club_a_roster [''players'', ''A1'', ''totalPoints'']))
                      (round_double (4/5))))"
    by blast
  moreover from calculation(6) t(5) have "num_or0 (db_get db' [''players'', ''X1'', ''silverEu1'', ''third''])
      = js_add (num_or0 (db_get club_a_roster [''players'', ''X1'', ''silverEu1'', ''third''])) 1"
    by blast
  ultimately show ?thesis
    by (intro exI [of _ db'] exI [of _ rs]) (simp add: z silver_doubles small_doubles)
qed

section \<open>Double arithmetic and exceptions of the roster\<close>

text \<open>
  The additions are those of the source: \<open>1.6 + 0.8\<close> is \<open>2.4000000000000004\<close> and
  \<open>1.2 + 0.6\<close> is \<open>1.7999999999999998\<close>, neither the double of the exact sum.
\<close>

lemma double_additions:
  "js_add (round_double (8/5)) (round_double (4/5)) = 5404319552844596 / 2251799813685248"
  "js_add (round_double (8/5)) (round_double (4/5)) \<noteq> round_double (12/5)"
  "js_add (round_double (6/5)) (round_double (3/5)) = 8106479329266892 / 4503599627370496"
  "js_add (round_double (6/5)) (round_double (3/5)) \<noteq> round_double (9/5)"
  "js_add 36 18 = 54"
  by code_simp+

text \<open>
  A \<open>playfabId\<close> that is a number: \<open>fetchClubsAndPlayers\<close> throws and the tournament fails
  before any write; \<open>findPlayerLocation\<close> finds the players in front of that node and
  answers \<open>null\<close> for every player behind it.
\<close>

lemma numeric_playfabId:
  "fetchClubsAndPlayers numeric_id_roster = Inl TypeError"
  "processTournamentResults numeric_id_roster season tournamentData tier = Inl TypeError"
  "findPlayerLocation numeric_id_roster ''A1'' = Some (''c1'', ''k1'')"
  "findPlayerLocation numeric_id_roster ''B2'' = None"
proof -
  show 1: "fetchClubsAndPlayers numeric_id_roster = Inl TypeError"
    by (simp add: roster_defs numeric_id_roster_def roster_player_def string_defs truthy_def)
  then show "processTournamentResults numeric_id_roster season tournamentData tier = Inl TypeError"
    by (simp add: processTournamentResults_def)
  show "findPlayerLocation numeric_id_roster ''A1'' = Some (''c1'', ''k1'')"
    by (simp add: findPlayerLocation_def normalized_playfabId_def entries_def numeric_id_roster_def
          roster_player_def string_defs)
  show "findPlayerLocation numeric_id_roster ''B2'' = None"
    by (simp add: findPlayerLocation_def normalized_playfabId_def entries_def numeric_id_roster_def
          roster_player_def string_defs)
qed

end
